theory Spec2Isabelle
  imports Main
begin

section \<open>Errors and tensors\<close>

text \<open>
  The Python exceptions that the modelled code can raise.  An \<open>AssertionError\<close> carries the
  line of the source file whose \<^verbatim>\<open>assert\<close> failed, so that a theorem can say which check
  fired.  Every fallible function returns \<open>error + 'a\<close>, with \<open>Inl\<close> for the raise.
\<close>

datatype error =
    AssertionError nat
  | RuntimeError
  | IndexError
  | ValueError
  | TypeError
  | AttributeError string
  | UnboundLocalError
  | ZeroDivisionError
  | OverflowError

definition ebind :: "error + 'a \<Rightarrow> ('a \<Rightarrow> error + 'b) \<Rightarrow> error + 'b" where
  "ebind m f = (case m of Inl e \<Rightarrow> Inl e | Inr x \<Rightarrow> f x)"

fun mapM_err :: "('a \<Rightarrow> error + 'b) \<Rightarrow> 'a list \<Rightarrow> error + 'b list" where
  "mapM_err f [] = Inr []"
| "mapM_err f (x # xs) =
     ebind (f x) (\<lambda>y. ebind (mapM_err f xs) (\<lambda>ys. Inr (y # ys)))"

text \<open>
  A tensor carries its shape beside its entries, as a torch tensor does: a tensor of shape
  \<open>(0, Q, E)\<close> still answers \<^verbatim>\<open>shape[1]\<close> with \<open>Q\<close>.  The entries are nested lists,
  outermost axis first.  The element type stands for the floating-point numbers; the
  operations used on it (\<open>0\<close>, \<open>+\<close>, \<open>max\<close>) are those of its type class.
\<close>

record 'a tensor3 =
  dim0 :: nat
  dim1 :: nat
  dim2 :: nat
  vals :: "'a list list list"

record 'a tensor2 =
  rows :: nat
  cols :: nat
  vals2 :: "'a list list"

definition wf3 :: "'a tensor3 \<Rightarrow> bool" where
  "wf3 t \<longleftrightarrow>
     length (vals t) = dim0 t \<and>
     list_all (\<lambda>r. length r = dim1 t \<and> list_all (\<lambda>v. length v = dim2 t) r) (vals t)"

definition wf2 :: "'a tensor2 \<Rightarrow> bool" where
  "wf2 t \<longleftrightarrow> length (vals2 t) = rows t \<and> list_all (\<lambda>r. length r = cols t) (vals2 t)"

section \<open>TrackFormer: gathering and padding the track queries\<close>

text \<open>\<^verbatim>\<open>track_queries_mask.sum(dim=1)\<close>: the number of True entries of one mask row.\<close>

definition mask_row_sum :: "bool list \<Rightarrow> nat" where
  "mask_row_sum m = length (filter (\<lambda>b. b) m)"

text \<open>\<^verbatim>\<open>.max()\<close> of a one-dimensional tensor; torch raises on a tensor without elements.\<close>

fun max_list :: "nat list \<Rightarrow> error + nat" where
  "max_list [] = Inl RuntimeError"
| "max_list (x # xs) = Inr (fold max xs x)"

text \<open>
  Boolean-mask indexing \<^verbatim>\<open>t[mask]\<close> along the first axis: the rows whose mask entry is
  True, in their order.  torch raises IndexError when the mask's length is not the length
  of the indexed axis.
\<close>

fun bool_index :: "'a list \<Rightarrow> bool list \<Rightarrow> 'a list" where
  "bool_index (x # xs) (b # bs) = (if b then x # bool_index xs bs else bool_index xs bs)"
| "bool_index [] bs = []"
| "bool_index xs [] = []"

text \<open>
  \<^verbatim>\<open>F.pad(tracks, pad=(0, 0, 0, pad_size), mode="constant", value=0)\<close> on a matrix of
  width \<open>e\<close>: the last axis is not padded, the row axis gets \<open>pad_size\<close> zero rows at its end.
  A negative amount crops rows instead.
\<close>

definition F_pad_rows :: "'a::zero list list \<Rightarrow> nat \<Rightarrow> int \<Rightarrow> 'a list list" where
  "F_pad_rows tracks e pad_size =
     (if 0 \<le> pad_size then tracks @ replicate (nat pad_size) (replicate e 0)
      else take (nat (int (length tracks) + pad_size)) tracks)"

text \<open>
  \<^verbatim>\<open>tracks_mask = torch.zeros(max_num_tracks, dtype=torch.bool)\<close> followed by
  \<^verbatim>\<open>tracks_mask[:num_valid_tracks] = True\<close>.
\<close>

definition set_prefix_True :: "bool list \<Rightarrow> nat \<Rightarrow> bool list" where
  "set_prefix_True m k = replicate (min k (length m)) True @ drop k m"

text \<open>The body of the loop over the batch (lines 227 to 234 of trackformer.py).\<close>

definition pad_one ::
  "'a::zero tensor3 \<Rightarrow> bool tensor2 \<Rightarrow> nat \<Rightarrow> nat \<Rightarrow> error + ('a list list \<times> bool list)" where
  "pad_one track_queries track_queries_mask max_num_tracks i =
     (if \<not> (i < dim0 track_queries \<and> i < rows track_queries_mask) then Inl IndexError
      else if dim1 track_queries \<noteq> cols track_queries_mask then Inl IndexError
      else
        let tracks = bool_index (vals track_queries ! i) (vals2 track_queries_mask ! i);
            num_valid_tracks = length tracks;
            pad_size = int max_num_tracks - int num_valid_tracks;
            tracks = F_pad_rows tracks (dim2 track_queries) pad_size;
            tracks_mask = replicate max_num_tracks False;
            tracks_mask = set_prefix_True tracks_mask num_valid_tracks
        in Inr (tracks, tracks_mask))"

text \<open>
  Lines 220 to 237 of trackformer.py: the two assertions, the batch-wide maximum, the loop
  and the two \<^verbatim>\<open>torch.stack\<close> calls (which raise on an empty list).
\<close>

definition pad_track_queries ::
  "nat \<Rightarrow> nat \<Rightarrow> 'a::zero tensor3 \<Rightarrow> bool tensor2 \<Rightarrow> error + ('a tensor3 \<times> bool tensor2)" where
  "pad_track_queries embed_dim batch_size track_queries track_queries_mask =
     (if dim2 track_queries \<noteq> embed_dim then Inl (AssertionError 220)
      else if dim1 track_queries \<noteq> cols track_queries_mask then Inl (AssertionError 221)
      else
        ebind (max_list (map mask_row_sum (vals2 track_queries_mask))) (\<lambda>max_num_tracks.
        ebind (mapM_err (pad_one track_queries track_queries_mask max_num_tracks)
                 [0..<batch_size]) (\<lambda>new.
        if new = [] then Inl RuntimeError
        else Inr (\<lparr>dim0 = length new, dim1 = max_num_tracks, dim2 = dim2 track_queries,
                    vals = map fst new\<rparr>,
                  \<lparr>rows = length new, cols = max_num_tracks, vals2 = map snd new\<rparr>))))"

text \<open>
  Closed forms of what the loop computes for batch element \<open>i\<close>; the facts below relate
  them to \<open>pad_track_queries\<close>.
\<close>

definition batch_max :: "bool tensor2 \<Rightarrow> nat" where
  "batch_max tm = Max (set (map mask_row_sum (vals2 tm)))"

definition padded_tracks :: "'a::zero tensor3 \<Rightarrow> bool tensor2 \<Rightarrow> nat \<Rightarrow> 'a list list" where
  "padded_tracks tq tm i =
     bool_index (vals tq ! i) (vals2 tm ! i) @
     replicate (batch_max tm - mask_row_sum (vals2 tm ! i)) (replicate (dim2 tq) 0)"

definition padded_mask :: "bool tensor2 \<Rightarrow> nat \<Rightarrow> bool list" where
  "padded_mask tm i =
     replicate (mask_row_sum (vals2 tm ! i)) True @
     replicate (batch_max tm - mask_row_sum (vals2 tm ! i)) False"

section \<open>OccFormer: pooling the motion queries over the mode axis\<close>

record 'a tensor4 =
  dim4_0 :: nat
  dim4_1 :: nat
  dim4_2 :: nat
  dim4_3 :: nat
  vals4 :: "'a list list list list"

definition wf4 :: "'a tensor4 \<Rightarrow> bool" where
  "wf4 t \<longleftrightarrow>
     length (vals4 t) = dim4_0 t \<and>
     list_all (\<lambda>c. length c = dim4_1 t \<and>
        list_all (\<lambda>p. length p = dim4_2 t \<and> list_all (\<lambda>r. length r = dim4_3 t) p) c) (vals4 t)"

text \<open>
  \<^verbatim>\<open>nn.MaxPool2d(kernel_size=(kh, kw), stride=1)\<close> (no padding, no dilation) on an input
  \<open>(N, C, H, W)\<close>: every plane \<open>H \<times> W\<close> is pooled on its own; the entry \<open>(i, j)\<close> of the output
  is the largest entry of the window of \<open>kh\<close> rows and \<open>kw\<close> columns whose corner is
  \<open>(i, j)\<close>, and the output plane is \<open>(H - kh + 1) \<times> (W - kw + 1)\<close>.  torch raises for a kernel
  side of zero, for an input with an empty channel, row or column axis, and for a plane
  smaller than the kernel.  The order on the elements is that of their type class: a
  floating-point NaN has no place in it.
\<close>

definition window :: "'a list list \<Rightarrow> nat \<Rightarrow> nat \<Rightarrow> nat \<Rightarrow> nat \<Rightarrow> 'a list" where
  "window plane kh kw i j =
     concat (map (\<lambda>di. map (\<lambda>dj. plane ! (i + di) ! (j + dj)) [0..<kw]) [0..<kh])"

definition window_max :: "'a::linorder list list \<Rightarrow> nat \<Rightarrow> nat \<Rightarrow> nat \<Rightarrow> nat \<Rightarrow> 'a" where
  "window_max plane kh kw i j =
     (let w = window plane kh kw i j in fold max (tl w) (hd w))"

definition max_pool_plane ::
  "nat \<Rightarrow> nat \<Rightarrow> nat \<Rightarrow> nat \<Rightarrow> 'a::linorder list list \<Rightarrow> 'a list list" where
  "max_pool_plane kh kw h w plane =
     map (\<lambda>i. map (\<lambda>j. window_max plane kh kw i j) [0..<w - kw + 1]) [0..<h - kh + 1]"

definition MaxPool2d :: "nat \<times> nat \<Rightarrow> 'a::linorder tensor4 \<Rightarrow> error + 'a tensor4" where
  "MaxPool2d kernel_size x =
     (let (kh, kw) = kernel_size in
      if kh = 0 \<or> kw = 0 then Inl RuntimeError
      else if dim4_1 x = 0 \<or> dim4_2 x = 0 \<or> dim4_3 x = 0 then Inl RuntimeError
      else if dim4_2 x < kh \<or> dim4_3 x < kw then Inl RuntimeError
      else Inr \<lparr>dim4_0 = dim4_0 x, dim4_1 = dim4_1 x,
                 dim4_2 = dim4_2 x - kh + 1, dim4_3 = dim4_3 x - kw + 1,
                 vals4 = map (map (max_pool_plane kh kw (dim4_2 x) (dim4_3 x))) (vals4 x)\<rparr>)"

text \<open>\<^verbatim>\<open>x[..., 0, :]\<close> on a tensor of four axes: the row 0 of every plane.\<close>

definition select_row0 :: "'a tensor4 \<Rightarrow> error + 'a tensor3" where
  "select_row0 x =
     (if dim4_2 x = 0 then Inl IndexError
      else Inr \<lparr>dim0 = dim4_0 x, dim1 = dim4_1 x, dim2 = dim4_3 x,
                 vals = map (map (\<lambda>plane. plane ! 0)) (vals4 x)\<rparr>)"

text \<open>
  Lines 165 and 242 to 243 of occformer.py:
  \<^verbatim>\<open>self.mode_pool_module = nn.MaxPool2d(kernel_size=(self.num_modes, 1), stride=1)\<close>,
  \<^verbatim>\<open>x_queries = self.mode_pool_module(motion_queries)\<close> and
  \<^verbatim>\<open>x_queries = x_queries[..., 0, :]\<close>.
\<close>

definition mode_pool :: "nat \<Rightarrow> 'a::linorder tensor4 \<Rightarrow> error + 'a tensor3" where
  "mode_pool num_modes motion_queries =
     ebind (MaxPool2d (num_modes, 1) motion_queries) (\<lambda>x_queries. select_row0 x_queries)"

section \<open>TrackFormerDecoderLayer\<close>

text \<open>
  Element-wise addition of two tensors with torch's broadcasting: on every axis the two
  sizes are equal or one of them is 1 (that operand is repeated along the axis); any other
  pair of sizes raises.
\<close>

definition bdim :: "nat \<Rightarrow> nat \<Rightarrow> error + nat" where
  "bdim a b = (if a = b then Inr a else if a = 1 then Inr b else if b = 1 then Inr a
               else Inl RuntimeError)"

definition bzip :: "('a \<Rightarrow> 'b \<Rightarrow> 'c) \<Rightarrow> 'a list \<Rightarrow> 'b list \<Rightarrow> 'c list" where
  "bzip f xs ys =
     (if length xs = length ys then map2 f xs ys
      else if length xs = 1 then map (f (hd xs)) ys
      else map (\<lambda>x. f x (hd ys)) xs)"

definition tensor_add :: "'a::plus tensor3 \<Rightarrow> 'a tensor3 \<Rightarrow> error + 'a tensor3" where
  "tensor_add a b =
     ebind (bdim (dim0 a) (dim0 b)) (\<lambda>n.
     ebind (bdim (dim1 a) (dim1 b)) (\<lambda>q.
     ebind (bdim (dim2 a) (dim2 b)) (\<lambda>e.
       Inr \<lparr>dim0 = n, dim1 = q, dim2 = e,
            vals = bzip (bzip (bzip (+))) (vals a) (vals b)\<rparr>)))"

text \<open>The slices \<^verbatim>\<open>t[:, :k, :]\<close> and \<^verbatim>\<open>t[:, k:, :]\<close> for \<open>k \<ge> 0\<close>.\<close>

definition take_dim1 :: "nat \<Rightarrow> 'a tensor3 \<Rightarrow> 'a tensor3" where
  "take_dim1 k t = \<lparr>dim0 = dim0 t, dim1 = min k (dim1 t), dim2 = dim2 t,
                    vals = map (take k) (vals t)\<rparr>"

definition drop_dim1 :: "nat \<Rightarrow> 'a tensor3 \<Rightarrow> 'a tensor3" where
  "drop_dim1 k t = \<lparr>dim0 = dim0 t, dim1 = dim1 t - k, dim2 = dim2 t,
                    vals = map (drop k) (vals t)\<rparr>"

text \<open>\<^verbatim>\<open>torch.concat([a, b], dim=1)\<close>: the other two axes must agree.\<close>

definition concat_dim1 :: "'a tensor3 \<Rightarrow> 'a tensor3 \<Rightarrow> error + 'a tensor3" where
  "concat_dim1 a b =
     (if dim0 a \<noteq> dim0 b \<or> dim2 a \<noteq> dim2 b then Inl RuntimeError
      else Inr \<lparr>dim0 = dim0 a, dim1 = dim1 a + dim1 b, dim2 = dim2 a,
                 vals = map2 (@) (vals a) (vals b)\<rparr>)"

definition concat_dim1_mask :: "bool tensor2 \<Rightarrow> bool tensor2 \<Rightarrow> error + bool tensor2" where
  "concat_dim1_mask a b =
     (if rows a \<noteq> rows b then Inl RuntimeError
      else Inr \<lparr>rows = rows a, cols = cols a + cols b, vals2 = map2 (@) (vals2 a) (vals2 b)\<rparr>)"

text \<open>\<^verbatim>\<open>padding_mask[..., None]\<close>: a new last axis of size 1.\<close>

definition unsqueeze_last :: "'a tensor2 \<Rightarrow> 'a tensor3" where
  "unsqueeze_last m = \<lparr>dim0 = rows m, dim1 = cols m, dim2 = 1,
                        vals = map (map (\<lambda>b. [b])) (vals2 m)\<rparr>"

text \<open>
  One decoder layer.  Its attention, normalisation and feed-forward blocks come from
  modules/attentions.py and modules/common.py, which are not under src/: they are taken as
  functions on tensors, fields of the layer, and nothing is assumed about what they compute.
  \<open>'r\<close> is the type of the reference points.
\<close>

record ('a, 'r) TrackFormerDecoderLayer =
  embed_dim_l :: nat
  bev_feature_shape_l :: "nat \<times> nat"
  self_attention :: "'a tensor3 \<Rightarrow> 'a tensor3 \<Rightarrow> 'a tensor3 \<Rightarrow> bool tensor2 \<Rightarrow> 'a tensor3"
  addnorm1 :: "'a tensor3 \<Rightarrow> 'a tensor3 \<Rightarrow> 'a tensor3"
  deform_attention ::
    "'a tensor3 \<Rightarrow> 'r \<Rightarrow> 'a tensor3 \<Rightarrow> nat list list \<Rightarrow> bool tensor3 \<Rightarrow> 'a tensor3"
  addnorm2 :: "'a tensor3 \<Rightarrow> 'a tensor3 \<Rightarrow> 'a tensor3"
  mlp :: "'a tensor3 \<Rightarrow> 'a tensor3"
  addnorm3 :: "'a tensor3 \<Rightarrow> 'a tensor3 \<Rightarrow> 'a tensor3"

text \<open>
  Lines 91 to 95 of trackformer.py, and the same code again at lines 101 to 105 (there on
  \<open>out2\<close>): with track queries present, the tensor is cut at \<open>num_tracks\<close>, the
  detection queries are added to the trailing part and the two parts are concatenated
  into a new tensor; without, the detection queries are added to the whole tensor.
\<close>

definition reinject :: "int \<Rightarrow> 'a::plus tensor3 \<Rightarrow> 'a tensor3 \<Rightarrow> error + 'a tensor3" where
  "reinject num_tracks x og_det_queries =
     (if num_tracks > 0 then
        ebind (tensor_add (drop_dim1 (nat num_tracks) x) og_det_queries) (\<lambda>trailing.
          concat_dim1 (take_dim1 (nat num_tracks) x) trailing)
      else tensor_add x og_det_queries)"

definition TrackFormerDecoderLayer_forward ::
  "('a::plus, 'r) TrackFormerDecoderLayer \<Rightarrow> 'a tensor3 \<Rightarrow> 'a tensor3 \<Rightarrow> 'r \<Rightarrow> 'a tensor3 \<Rightarrow>
   bool tensor2 \<Rightarrow> error + 'a tensor3" where
  "TrackFormerDecoderLayer_forward self queries bev_features ref_points og_det_queries
     padding_mask =
     (let (H_bev, W_bev) = bev_feature_shape_l self in
      if dim1 bev_features \<noteq> H_bev * W_bev then Inl (AssertionError 80)
      else if \<not> (dim2 bev_features = dim2 queries \<and> dim2 bev_features = embed_dim_l self)
        then Inl (AssertionError 81)
      else
        let bev_spatial_shape = [[H_bev, W_bev]];
            num_queries = dim1 queries;
            num_det = dim1 og_det_queries;
            num_tracks = int num_queries - int num_det
        in
        ebind (reinject num_tracks queries og_det_queries) (\<lambda>q_and_k.
          let out1 = self_attention self q_and_k q_and_k queries padding_mask;
              out2 = addnorm1 self queries out1
          in
          ebind (reinject num_tracks out2 og_det_queries) (\<lambda>aug_out2.
            let out3 = deform_attention self aug_out2 ref_points bev_features
                         bev_spatial_shape (unsqueeze_last padding_mask);
                out4 = addnorm2 self out2 out3;
                out5 = mlp self out4;
                out6 = addnorm3 self out4 out5
            in Inr out6)))"

section \<open>TrackFormer\<close>

text \<open>
  Modelled from the spec: \<^verbatim>\<open>PosEmbedding1D\<close> of modules/common.py, which is not under src/.
  The spec calls it a one-dimensional positional embedding table (learnable or fixed), from
  which the fixed block of \<open>max_detections\<close> detection queries is generated.  The table has
  \<open>max_len\<close> rows of width \<open>embed_dim\<close>; its entries are the parameter \<open>pe_weight\<close>.  Called
  without an argument it returns the whole table with a leading axis of size 1.
\<close>

record 'a PosEmbedding1D =
  pe_max_len :: nat
  pe_embed_dim :: nat
  pe_weight :: "nat \<Rightarrow> nat \<Rightarrow> 'a"

definition PosEmbedding1D_init :: "nat \<Rightarrow> nat \<Rightarrow> (nat \<Rightarrow> nat \<Rightarrow> 'a) \<Rightarrow> 'a PosEmbedding1D" where
  "PosEmbedding1D_init max_len embed_dim weight =
     \<lparr>pe_max_len = max_len, pe_embed_dim = embed_dim, pe_weight = weight\<rparr>"

definition PosEmbedding1D_call :: "'a PosEmbedding1D \<Rightarrow> 'a tensor3" where
  "PosEmbedding1D_call pe =
     \<lparr>dim0 = 1, dim1 = pe_max_len pe, dim2 = pe_embed_dim pe,
        vals = [map (\<lambda>i. map (pe_weight pe i) [0..<pe_embed_dim pe]) [0..<pe_max_len pe]]\<rparr>"

text \<open>
  Modelled from the spec: \<^verbatim>\<open>DeformableAttention.generate_standard_ref_points\<close> of
  modules/attentions.py, which is not under src/.  The spec: one reference point per query,
  a uniform (unnormalized) grid over the BEV spatial shape, length-matched to the query
  set.  For every batch element it returns \<open>n_sample\<close> points; the coordinates of point \<open>k\<close>
  of \<open>n_sample\<close> are the parameter \<open>grid\<close>.
\<close>

definition generate_standard_ref_points ::
  "(nat \<times> nat \<Rightarrow> nat \<Rightarrow> nat \<Rightarrow> 'p) \<Rightarrow> nat \<times> nat \<Rightarrow> nat \<Rightarrow> nat \<Rightarrow> 'p list list" where
  "generate_standard_ref_points grid bev_feature_shape batch_size n_sample =
     replicate batch_size (map (grid bev_feature_shape n_sample) [0..<n_sample])"

text \<open>\<^verbatim>\<open>.unsqueeze(dim=-2)\<close> on the reference points: every point gets an axis of size 1.\<close>

definition unsqueeze_points :: "'p list list \<Rightarrow> 'p list list list" where
  "unsqueeze_points ps = map (map (\<lambda>p. [p])) ps"

text \<open>\<^verbatim>\<open>t.tile(n, 1, 1)\<close>: \<open>n\<close> copies of the tensor along the first axis.\<close>

definition tile_batch :: "nat \<Rightarrow> 'a tensor3 \<Rightarrow> 'a tensor3" where
  "tile_batch n t = \<lparr>dim0 = n * dim0 t, dim1 = dim1 t, dim2 = dim2 t,
                     vals = concat (replicate n (vals t))\<rparr>"

text \<open>\<^verbatim>\<open>torch.ones(n, d, dtype=torch.bool)\<close>.\<close>

definition ones_mask :: "nat \<Rightarrow> nat \<Rightarrow> bool tensor2" where
  "ones_mask n d = \<lparr>rows = n, cols = d, vals2 = replicate n (replicate d True)\<rparr>"

text \<open>
  \<^verbatim>\<open>torch.stack(ts, dim=0)\<close>: raises on an empty list and on tensors of different shapes.
\<close>

definition stack_dim0 :: "'a tensor3 list \<Rightarrow> error + 'a tensor4" where
  "stack_dim0 ts =
     (case ts of
        [] \<Rightarrow> Inl RuntimeError
      | t # rest \<Rightarrow>
          if list_all (\<lambda>u. dim0 u = dim0 t \<and> dim1 u = dim1 t \<and> dim2 u = dim2 t) rest
          then Inr \<lparr>dim4_0 = length ts, dim4_1 = dim0 t, dim4_2 = dim1 t, dim4_3 = dim2 t,
                     vals4 = map vals ts\<rparr>
          else Inl RuntimeError)"

text \<open>
  The attributes of a TrackFormer that its forward pass reads.  The other attributes that
  \<^verbatim>\<open>__init__\<close> stores (head and class counts, feed-forward width, dropout, offset scale,
  track threshold, the 2D/3D switch) only reach the constructors of the external blocks.
  The detection head (\<^verbatim>\<open>DetectionHead\<close> of modules/common.py) is a function on tensors.
\<close>

record ('a, 'p) TrackFormer =
  embed_dim :: nat
  num_layers :: int
  max_detections :: nat
  bev_feature_shape :: "nat \<times> nat"
  detection_pos_emb :: "'a PosEmbedding1D"
  decoder_modules :: "('a, 'p list list list) TrackFormerDecoderLayer list"
  detection_module :: "'a tensor3 \<Rightarrow> 'a tensor3"

text \<open>
  What the external constructors deliver: the embedding table, the blocks of decoder layer
  \<open>k\<close> (held in a layer record whose two configuration fields the constructor overwrites)
  and the detection head.
\<close>

record ('a, 'p) TrackFormer_weights =
  w_pos_emb :: "nat \<Rightarrow> nat \<Rightarrow> 'a"
  w_layer :: "nat \<Rightarrow> ('a, 'p list list list) TrackFormerDecoderLayer"
  w_detection :: "'a tensor3 \<Rightarrow> 'a tensor3"

definition TrackFormerDecoderLayer_init ::
  "nat \<Rightarrow> nat \<times> nat \<Rightarrow> ('a, 'r) TrackFormerDecoderLayer \<Rightarrow> ('a, 'r) TrackFormerDecoderLayer" where
  "TrackFormerDecoderLayer_init embed_dim' bev_feature_shape' blocks =
     blocks\<lparr>embed_dim_l := embed_dim', bev_feature_shape_l := bev_feature_shape'\<rparr>"

text \<open>
  \<^verbatim>\<open>_create_decoder_layers\<close>: one layer for each index of \<^verbatim>\<open>range(self.num_layers)\<close>, which is
  empty for a count below 1.
\<close>

definition create_decoder_layers ::
  "nat \<Rightarrow> int \<Rightarrow> nat \<times> nat \<Rightarrow> (nat \<Rightarrow> ('a, 'r) TrackFormerDecoderLayer) \<Rightarrow>
   ('a, 'r) TrackFormerDecoderLayer list" where
  "create_decoder_layers embed_dim' num_layers' bev_feature_shape' blocks =
     map (\<lambda>k. TrackFormerDecoderLayer_init embed_dim' bev_feature_shape' (blocks k))
       [0..<nat num_layers']"

definition TrackFormer_init ::
  "nat \<Rightarrow> int \<Rightarrow> nat \<Rightarrow> nat \<times> nat \<Rightarrow> ('a, 'p) TrackFormer_weights \<Rightarrow> ('a, 'p) TrackFormer" where
  "TrackFormer_init embed_dim' num_layers' max_detections' bev_feature_shape' w =
     \<lparr>embed_dim = embed_dim', num_layers = num_layers', max_detections = max_detections',
        bev_feature_shape = bev_feature_shape',
        detection_pos_emb = PosEmbedding1D_init max_detections' embed_dim' (w_pos_emb w),
        decoder_modules =
          create_decoder_layers embed_dim' num_layers' bev_feature_shape' (w_layer w),
        detection_module = w_detection w\<rparr>"

text \<open>
  Lines 204 to 249 of \<^verbatim>\<open>TrackFormer.forward\<close>: the detection queries and their mask, the
  merge with the padded track queries when these are supplied, and the reference points.
  It returns the query set, its padding mask, the detection queries and the reference
  points.
\<close>

definition TrackFormer_queries ::
  "(nat \<times> nat \<Rightarrow> nat \<Rightarrow> nat \<Rightarrow> 'p) \<Rightarrow> ('a::zero, 'p, 'z) TrackFormer_scheme \<Rightarrow> 'a tensor3 \<Rightarrow>
   'a tensor3 option \<Rightarrow> bool tensor2 option \<Rightarrow>
   error + ('a tensor3 \<times> bool tensor2 \<times> 'a tensor3 \<times> 'p list list list)" where
  "TrackFormer_queries grid self bev_features track_queries track_queries_mask =
     (if dim2 bev_features \<noteq> embed_dim self then Inl (AssertionError 204)
      else
        let batch_size = dim0 bev_features;
            detection_queries = PosEmbedding1D_call (detection_pos_emb self);
            detection_queries = tile_batch batch_size detection_queries;
            padding_mask = ones_mask (dim0 detection_queries) (dim1 detection_queries)
        in
        ebind
          (case track_queries of
             Some tq \<Rightarrow>
               (case track_queries_mask of
                  None \<Rightarrow>
                    if dim2 tq \<noteq> embed_dim self then Inl (AssertionError 220)
                    else Inl (AttributeError ''shape'')
                | Some tm \<Rightarrow>
                    ebind (pad_track_queries (embed_dim self) batch_size tq tm) (\<lambda>(tq', tm').
                    ebind (concat_dim1 tq' detection_queries) (\<lambda>queries.
                    ebind (concat_dim1_mask tm' padding_mask) (\<lambda>padding_mask.
                      Inr (queries, padding_mask)))))
           | None \<Rightarrow> Inr (detection_queries, padding_mask))
          (\<lambda>(queries, padding_mask).
             let ref_points = unsqueeze_points
                   (generate_standard_ref_points grid (bev_feature_shape self) batch_size
                      (dim1 queries))
             in Inr (queries, padding_mask, detection_queries, ref_points)))"

text \<open>
  The loop over the decoder layers, lines 252 to 265.  \<open>layer\<close> is the call of decoder
  \<open>decoder_idx\<close> on the query set (every layer is called on \<open>queries\<close>, as line 254 has
  it), \<open>det\<close> the detection head.  The loop either returns from inside (inference mode, at
  the index \<open>num_layers - 1\<close>) or runs out of indices.

  The last component of the state is not a value of the program: it records, in order,
  the decoder indices whose output was handed to the detection head.
\<close>

datatype 'a loop_exit =
    Returned "'a tensor3"
  | Exhausted "'a tensor3 option" "'a tensor3 list"

fun decoder_loop ::
  "(nat \<Rightarrow> error + 'a tensor3) \<Rightarrow> ('a tensor3 \<Rightarrow> 'a tensor3) \<Rightarrow> bool \<Rightarrow> int \<Rightarrow> nat list \<Rightarrow>
   'a tensor3 option \<times> 'a tensor3 list \<times> nat list \<Rightarrow> error + ('a loop_exit \<times> nat list)" where
  "decoder_loop layer det training num_layers' [] (output, layers_detections, calls) =
     Inr (Exhausted output layers_detections, calls)"
| "decoder_loop layer det training num_layers' (decoder_idx # rest)
     (output, layers_detections, calls) =
     ebind (layer decoder_idx) (\<lambda>output.
       if \<not> training then
         (if int decoder_idx = num_layers' - 1
          then Inr (Returned (det output), calls @ [decoder_idx])
          else decoder_loop layer det training num_layers' rest
                 (Some output, layers_detections, calls))
       else
         decoder_loop layer det training num_layers' rest
           (Some output, layers_detections @ [det output], calls @ [decoder_idx]))"

text \<open>
  What \<^verbatim>\<open>TrackFormer.forward\<close> returns: the detections of the last layer (inference), or the
  pair of the last layer's output and the stacked detections of all layers (training).
\<close>

datatype 'a forward_result =
    Detections "'a tensor3"
  | OutputAndLayers "'a tensor3" "'a tensor4"

text \<open>
  \<^verbatim>\<open>TrackFormer.forward\<close>.  \<open>training\<close> is the flag \<^verbatim>\<open>self.training\<close> that \<^verbatim>\<open>nn.Module\<close> keeps.
  The result is paired with the record of detection-head calls.
\<close>

definition TrackFormer_forward ::
  "(nat \<times> nat \<Rightarrow> nat \<Rightarrow> nat \<Rightarrow> 'p) \<Rightarrow> ('a::{zero,plus}, 'p, 'z) TrackFormer_scheme \<Rightarrow> bool \<Rightarrow>
   'a tensor3 \<Rightarrow> 'a tensor3 option \<Rightarrow> bool tensor2 option \<Rightarrow>
   error + ('a forward_result \<times> nat list)" where
  "TrackFormer_forward grid self training bev_features track_queries track_queries_mask =
     ebind (TrackFormer_queries grid self bev_features track_queries track_queries_mask)
       (\<lambda>(queries, padding_mask, detection_queries, ref_points).
     ebind
       (decoder_loop
          (\<lambda>decoder_idx.
             TrackFormerDecoderLayer_forward (decoder_modules self ! decoder_idx) queries
               bev_features ref_points detection_queries padding_mask)
          (detection_module self) training (num_layers self)
          [0..<length (decoder_modules self)] (None, [], []))
       (\<lambda>(exit, calls).
          case exit of
            Returned detections \<Rightarrow> Inr (Detections detections, calls)
          | Exhausted output layers_detections \<Rightarrow>
              ebind (stack_dim0 layers_detections) (\<lambda>layers_detections.
                case output of
                  None \<Rightarrow> Inl UnboundLocalError
                | Some output \<Rightarrow> Inr (OutputAndLayers output layers_detections, calls))))"

text \<open>
  An instance of the external blocks for the examples: every block passes an operand on
  (the attention blocks their query, \<open>addnorm1\<close> its residual operand, \<open>addnorm2\<close> and
  \<open>addnorm3\<close> their second operand).
\<close>

definition passthrough_blocks :: "('a, 'r) TrackFormerDecoderLayer" where
  "passthrough_blocks =
     \<lparr>embed_dim_l = 0, bev_feature_shape_l = (0, 0),
        self_attention = (\<lambda>q k v m. q), addnorm1 = (\<lambda>x y. x),
        deform_attention = (\<lambda>q r b s m. q), addnorm2 = (\<lambda>x y. y),
        mlp = (\<lambda>x. x), addnorm3 = (\<lambda>x y. y)\<rparr>"

section \<open>MapFormer\<close>

subsection \<open>The forward pass\<close>

text \<open>
  From the return of the parent's forward pass on, \<^verbatim>\<open>MapFormer.forward\<close> is followed on
  Python values whose tensors are abstracted to their shapes: what it does there depends on
  whether a value is a tuple or a tensor and on the number of axes of a tensor.
\<close>

datatype pyshape =
    Tensor "nat list"
  | Tuple "pyshape list"

definition result_shape :: "'a forward_result \<Rightarrow> pyshape" where
  "result_shape r =
     (case r of
        Detections t \<Rightarrow> Tensor [dim0 t, dim1 t, dim2 t]
      | OutputAndLayers out ld \<Rightarrow>
          Tuple [Tensor [dim0 out, dim1 out, dim2 out],
                 Tensor [dim4_0 ld, dim4_1 ld, dim4_2 ld, dim4_3 ld]])"

text \<open>
  \<^verbatim>\<open>a, b, c, d = value\<close>: a tuple must have four components; a tensor is iterated along its
  first axis, which must have size 4 (a tensor without axes cannot be iterated).
\<close>

definition unpack4 :: "pyshape \<Rightarrow> error + (pyshape \<times> pyshape \<times> pyshape \<times> pyshape)" where
  "unpack4 v =
     (case v of
        Tuple xs \<Rightarrow> (case xs of [a, b, c, d] \<Rightarrow> Inr (a, b, c, d) | _ \<Rightarrow> Inl ValueError)
      | Tensor [] \<Rightarrow> Inl TypeError
      | Tensor (n # s) \<Rightarrow>
          if n = 4 then Inr (Tensor s, Tensor s, Tensor s, Tensor s) else Inl ValueError)"

text \<open>\<^verbatim>\<open>value.shape[-1]\<close>.\<close>

definition last_dim :: "pyshape \<Rightarrow> error + nat" where
  "last_dim v =
     (case v of
        Tuple xs \<Rightarrow> Inl (AttributeError ''shape'')
      | Tensor s \<Rightarrow> if s = [] then Inl IndexError else Inr (last s))"

text \<open>
  Python's slices of an axis of size \<open>n\<close>: the bound \<open>k\<close> counts from the end when negative
  and is clipped to the axis.  \<^verbatim>\<open>t[..., k:]\<close> and \<^verbatim>\<open>t[..., :k]\<close> slice the last axis of a
  tensor (a tuple cannot be indexed so; a tensor without axes neither).
\<close>

definition slice_bound :: "nat \<Rightarrow> int \<Rightarrow> nat" where
  "slice_bound n k = (if k < 0 then nat (max 0 (int n + k)) else min (nat k) n)"

definition slice_last_from :: "pyshape \<Rightarrow> int \<Rightarrow> error + pyshape" where
  "slice_last_from v k =
     (case v of
        Tuple xs \<Rightarrow> Inl TypeError
      | Tensor s \<Rightarrow>
          if s = [] then Inl IndexError
          else Inr (Tensor (butlast s @ [last s - slice_bound (last s) k])))"

definition slice_last_to :: "pyshape \<Rightarrow> int \<Rightarrow> error + pyshape" where
  "slice_last_to v k =
     (case v of
        Tuple xs \<Rightarrow> Inl TypeError
      | Tensor s \<Rightarrow>
          if s = [] then Inl IndexError
          else Inr (Tensor (butlast s @ [slice_bound (last s) k])))"

text \<open>\<^verbatim>\<open>t[..., None]\<close>: a new last axis of size 1.\<close>

definition index_new_last_axis :: "pyshape \<Rightarrow> error + pyshape" where
  "index_new_last_axis v =
     (case v of Tuple xs \<Rightarrow> Inl TypeError | Tensor s \<Rightarrow> Inr (Tensor (s @ [1])))"

text \<open>
  \<^verbatim>\<open>torch.einsum("nast,nshw->nahw", x, y)\<close> on shapes: both operands need four axes, one for
  each subscript; the sizes under a shared subscript agree or one of them is 1.
\<close>

definition einsum_nast_nshw :: "pyshape \<Rightarrow> nat list \<Rightarrow> error + pyshape" where
  "einsum_nast_nshw x y =
     (case x of
        Tuple xs \<Rightarrow> Inl TypeError
      | Tensor xs \<Rightarrow>
          (case (xs, y) of
             ([n, a, s, t], [n', s', h, w]) \<Rightarrow>
               ebind (bdim n n') (\<lambda>n''. ebind (bdim s s') (\<lambda>s''. Inr (Tensor [n'', a, h, w])))
           | _ \<Rightarrow> Inl RuntimeError))"

text \<open>
  \<^verbatim>\<open>bev_features.permute(0, 2, 1).reshape(batch_size, embed_dim, H, W)\<close> on the shape: the
  number of elements must not change.
\<close>

definition bev_to_grid :: "'a tensor3 \<Rightarrow> nat \<Rightarrow> nat \<Rightarrow> nat \<times> nat \<Rightarrow> error + nat list" where
  "bev_to_grid bev_features batch_size embed_dim' bev_feature_shape' =
     (let (H_bev, W_bev) = bev_feature_shape' in
      if dim0 bev_features * dim2 bev_features * dim1 bev_features
           = batch_size * embed_dim' * H_bev * W_bev
      then Inr [batch_size, embed_dim', H_bev, W_bev]
      else Inl RuntimeError)"

text \<open>
  \<^verbatim>\<open>ProtoSegModule\<close>: three convolution blocks (\<^verbatim>\<open>ConvBNorm\<close> of modules/common.py, not under
  src/), taken as functions from the shape of their input to the shape of their output, or
  to an error.
\<close>

record ProtoSegModule =
  conv1 :: "nat list \<Rightarrow> error + nat list"
  conv2 :: "nat list \<Rightarrow> error + nat list"
  conv3 :: "nat list \<Rightarrow> error + nat list"

definition ProtoSegModule_forward :: "ProtoSegModule \<Rightarrow> nat list \<Rightarrow> error + nat list" where
  "ProtoSegModule_forward self x =
     ebind (conv1 self x) (\<lambda>out. ebind (conv2 self out) (\<lambda>out. conv3 self out))"

record ('a, 'p) MapFormer = "('a, 'p) TrackFormer" +
  num_seg_coeffs :: int
  proto_seg_module :: ProtoSegModule

text \<open>
  An object with the attributes that \<^verbatim>\<open>MapFormer.forward\<close> reads: those of a TrackFormer and
  the two that MapFormer adds.
\<close>

definition MapFormer_instance ::
  "('a, 'p) TrackFormer \<Rightarrow> int \<Rightarrow> ProtoSegModule \<Rightarrow> ('a, 'p) MapFormer" where
  "MapFormer_instance parent num_seg_coeffs' proto =
     TrackFormer.extend parent
       (MapFormer.fields num_seg_coeffs' proto)"

definition MapFormer_forward ::
  "(nat \<times> nat \<Rightarrow> nat \<Rightarrow> nat \<Rightarrow> 'p) \<Rightarrow> ('a::{zero,plus}, 'p) MapFormer \<Rightarrow> bool \<Rightarrow>
   'a tensor3 \<Rightarrow> 'a tensor3 option \<Rightarrow> bool tensor2 option \<Rightarrow>
   error + (pyshape \<times> pyshape \<times> pyshape \<times> pyshape \<times> pyshape)" where
  "MapFormer_forward grid self training bev_features track_queries track_queries_mask =
     (let batch_size = dim0 bev_features in
      ebind (TrackFormer_forward grid self training bev_features track_queries
               track_queries_mask) (\<lambda>(result, calls).
      ebind (unpack4 (result_shape result))
        (\<lambda>(output, detections, track_queries_mask, layers_results).
      ebind (last_dim detections) (\<lambda>d.
        let coef_dim_trunc = int d - num_seg_coeffs self in
        ebind (slice_last_from detections coef_dim_trunc) (\<lambda>mask_coefs.
        ebind (slice_last_to detections coef_dim_trunc) (\<lambda>detections.
        ebind (bev_to_grid bev_features batch_size (embed_dim self) (bev_feature_shape self))
          (\<lambda>bev_features.
        ebind (ProtoSegModule_forward (proto_seg_module self) bev_features) (\<lambda>protos.
        ebind (index_new_last_axis mask_coefs) (\<lambda>mask_coefs'.
        ebind (einsum_nast_nshw mask_coefs' protos) (\<lambda>masks.
          Inr (output, detections, masks, track_queries_mask, layers_results)))))))))))"

subsection \<open>Construction: the attribute namespace\<close>

text \<open>
  \<open>TrackFormer_init\<close> above builds the typed record that the forward pass reads.  Here the
  same constructor, and that of MapFormer, are followed as Python executes them: as
  assignments to the attributes of an object, where the arguments are bound to the
  parameters by Python's rules and reading an attribute that was never assigned raises
  AttributeError.  Values are Python objects; a module built by a constructor that is not
  under src/ is whatever that constructor returns.
\<close>

datatype pyval =
    PInt int
  | PFloat int int
  | PBool bool
  | PNone
  | PTuple "pyval list"
  | PModule string "(string \<times> pyval) list"

type_synonym pyobj = "string \<rightharpoonup> pyval"

definition get_attr :: "pyobj \<Rightarrow> string \<Rightarrow> error + pyval" where
  "get_attr self name = (case self name of None \<Rightarrow> Inl (AttributeError name) | Some v \<Rightarrow> Inr v)"

text \<open>
  Binding the arguments of a call to a parameter list (each parameter with its default, if
  it has one): positional arguments fill the parameters in order, a keyword must name a
  parameter that has no value yet, and a parameter left without a value takes its
  default.  Too many positional arguments, an unknown or repeated keyword and a missing
  argument raise TypeError.
\<close>

fun bind_positional :: "string list \<Rightarrow> pyval list \<Rightarrow> error + (string \<times> pyval) list" where
  "bind_positional ps [] = Inr []"
| "bind_positional [] (a # as) = Inl TypeError"
| "bind_positional (p # ps) (a # as) =
     ebind (bind_positional ps as) (\<lambda>bound. Inr ((p, a) # bound))"

fun bind_keywords ::
  "string list \<Rightarrow> (string \<times> pyval) list \<Rightarrow> (string \<times> pyval) list \<Rightarrow>
   error + (string \<times> pyval) list" where
  "bind_keywords ps bound [] = Inr bound"
| "bind_keywords ps bound ((k, v) # kwargs) =
     (if k \<notin> set ps \<or> k \<in> set (map fst bound) then Inl TypeError
      else bind_keywords ps (bound @ [(k, v)]) kwargs)"

fun bind_defaults ::
  "(string \<times> pyval option) list \<Rightarrow> (string \<times> pyval) list \<Rightarrow> error + (string \<times> pyval) list" where
  "bind_defaults [] bound = Inr []"
| "bind_defaults ((p, dflt) # ps) bound =
     ebind (case map_of bound p of
              Some v \<Rightarrow> Inr v
            | None \<Rightarrow> (case dflt of Some v \<Rightarrow> Inr v | None \<Rightarrow> Inl TypeError)) (\<lambda>v.
     ebind (bind_defaults ps bound) (\<lambda>rest. Inr ((p, v) # rest)))"

definition bind_args ::
  "(string \<times> pyval option) list \<Rightarrow> pyval list \<Rightarrow> (string \<times> pyval) list \<Rightarrow>
   error + (string \<times> pyval) list" where
  "bind_args params args kwargs =
     ebind (bind_positional (map fst params) args) (\<lambda>bound.
     ebind (bind_keywords (map fst params) bound kwargs) (\<lambda>bound.
       bind_defaults params bound))"

text \<open>The parameters of \<^verbatim>\<open>TrackFormer.__init__\<close> after \<^verbatim>\<open>self\<close>, lines 119 to 131.\<close>

definition TrackFormer_params :: "(string \<times> pyval option) list" where
  "TrackFormer_params =
     [(''num_heads'', None), (''embed_dim'', None), (''num_layers'', None),
      (''num_classes'', None), (''num_ref_points'', Some (PInt 4)),
      (''dim_feedforward'', Some (PInt 512)), (''dropout'', Some (PFloat 1 10)),
      (''offset_scale'', Some (PFloat 1 1)), (''max_detections'', Some (PInt 900)),
      (''learnable_pe'', Some (PBool True)),
      (''bev_feature_shape'', Some (PTuple [PInt 200, PInt 200])),
      (''track_threshold'', Some (PFloat 1 2)), (''det_3d'', Some (PBool True))]"

text \<open>
  The constructors that are not under src/ (and that of the decoder layer, whose result
  does not matter here): from the class name, the positional and the keyword arguments to
  the module built, or to the exception raised.
\<close>

type_synonym constructors = "string \<Rightarrow> pyval list \<Rightarrow> (string \<times> pyval) list \<Rightarrow> error + pyval"

text \<open>
  \<^verbatim>\<open>_create_decoder_layers\<close>: \<^verbatim>\<open>range(self.num_layers)\<close> raises for a count that is not an
  integer.
\<close>

fun range_len :: "pyval \<Rightarrow> error + nat" where
  "range_len (PInt n) = Inr (nat n)"
| "range_len (PBool b) = Inr (if b then 1 else 0)"
| "range_len v = Inl TypeError"

definition create_decoder_layers_attrs :: "constructors \<Rightarrow> pyobj \<Rightarrow> error + pyval" where
  "create_decoder_layers_attrs new self =
     ebind (get_attr self ''num_layers'') (\<lambda>num_layers'.
     ebind (range_len num_layers') (\<lambda>n.
     ebind (mapM_err (\<lambda>k.
              ebind (get_attr self ''num_heads'') (\<lambda>num_heads.
              ebind (get_attr self ''embed_dim'') (\<lambda>embed_dim'.
              ebind (get_attr self ''num_ref_points'') (\<lambda>num_ref_points.
              ebind (get_attr self ''dim_feedforward'') (\<lambda>dim_feedforward.
              ebind (get_attr self ''dropout'') (\<lambda>dropout.
              ebind (get_attr self ''offset_scale'') (\<lambda>offset_scale.
              ebind (get_attr self ''bev_feature_shape'') (\<lambda>bev_feature_shape'.
                new ''TrackFormerDecoderLayer'' []
                  [(''num_heads'', num_heads), (''embed_dim'', embed_dim'),
                   (''num_ref_points'', num_ref_points),
                   (''dim_feedforward'', dim_feedforward), (''dropout'', dropout),
                   (''offset_scale'', offset_scale),
                   (''bev_feature_shape'', bev_feature_shape')]))))))))
            [0..<n]) (\<lambda>layers.
       new ''ModuleList'' [PTuple layers] [])))"

text \<open>
  \<^verbatim>\<open>TrackFormer.__init__\<close>, lines 133 to 160.  \<^verbatim>\<open>nn.Module.__init__\<close> leaves the object with
  the attribute \<^verbatim>\<open>training\<close>; the thirteen assignments follow, then the three modules.
\<close>

definition TrackFormer_init_attrs ::
  "constructors \<Rightarrow> pyval list \<Rightarrow> (string \<times> pyval) list \<Rightarrow> error + pyobj" where
  "TrackFormer_init_attrs new args kwargs =
     ebind (bind_args TrackFormer_params args kwargs) (\<lambda>a.
       let self = [''training'' \<mapsto> PBool True];
           self = self ++ map_of a
       in
       ebind (get_attr self ''max_detections'') (\<lambda>max_detections'.
       ebind (get_attr self ''embed_dim'') (\<lambda>embed_dim'.
       ebind (new ''PosEmbedding1D'' [max_detections']
                [(''embed_dim'', embed_dim'),
                 (''learnable'',
                  (case map_of a ''learnable_pe'' of Some v \<Rightarrow> v | None \<Rightarrow> PNone))])
         (\<lambda>pe.
       let self = self(''detection_pos_emb'' \<mapsto> pe) in
       ebind (create_decoder_layers_attrs new self) (\<lambda>layers.
       let self = self(''decoder_modules'' \<mapsto> layers) in
       ebind (get_attr self ''embed_dim'') (\<lambda>embed_dim'.
       ebind (get_attr self ''num_classes'') (\<lambda>num_classes.
       ebind (get_attr self ''det_3d'') (\<lambda>det_3d.
       ebind (new ''DetectionHead'' []
                [(''embed_dim'', embed_dim'), (''num_classes'', num_classes),
                 (''det_3d'', det_3d), (''num_seg_coefs'', PNone)]) (\<lambda>head.
         Inr (self(''detection_module'' \<mapsto> head)))))))))))"

text \<open>\<^verbatim>\<open>value > 0\<close>: None, tuples and modules cannot be compared with an integer.\<close>

fun py_gt_zero :: "pyval \<Rightarrow> error + bool" where
  "py_gt_zero (PInt n) = Inr (n > 0)"
| "py_gt_zero (PFloat p q) = Inr ((p > 0 \<and> q > 0) \<or> (p < 0 \<and> q < 0))"
| "py_gt_zero (PBool b) = Inr b"
| "py_gt_zero v = Inl TypeError"

text \<open>
  \<^verbatim>\<open>MapFormer.__init__(self, *args, num_seg_coeffs=32, seg_c_h=256, **kwargs)\<close>, lines 34 to
  53: the two keyword-only parameters are taken out of the keywords, everything else goes
  to the parent's constructor.  The keyword arguments of the last call are evaluated from
  left to right.
\<close>

definition kwarg_or :: "(string \<times> pyval) list \<Rightarrow> string \<Rightarrow> pyval \<Rightarrow> pyval" where
  "kwarg_or kwargs name dflt = (case map_of kwargs name of Some v \<Rightarrow> v | None \<Rightarrow> dflt)"

definition parent_kwargs :: "(string \<times> pyval) list \<Rightarrow> (string \<times> pyval) list" where
  "parent_kwargs kwargs =
     filter (\<lambda>(k, v). k \<noteq> ''num_seg_coeffs'' \<and> k \<noteq> ''seg_c_h'') kwargs"

definition MapFormer_init_attrs ::
  "constructors \<Rightarrow> pyval list \<Rightarrow> (string \<times> pyval) list \<Rightarrow> error + pyobj" where
  "MapFormer_init_attrs new args kwargs =
     (let num_seg_coeffs' = kwarg_or kwargs ''num_seg_coeffs'' (PInt 32);
          seg_c_h = kwarg_or kwargs ''seg_c_h'' (PInt 256);
          kwargs = parent_kwargs kwargs
      in
      ebind (TrackFormer_init_attrs new args kwargs) (\<lambda>self.
      ebind (py_gt_zero num_seg_coeffs') (\<lambda>positive.
        if \<not> positive then Inl (AssertionError 37)
        else
          let self = self(''num_seg_coeffs'' \<mapsto> num_seg_coeffs');
              self = self(''seg_c_h'' \<mapsto> seg_c_h)
          in
          ebind (get_attr self ''embed_dim'') (\<lambda>embed_dim'.
          ebind (new ''ProtoSegModule'' []
                   [(''in_channels'', embed_dim'), (''out_channels'', num_seg_coeffs'),
                    (''c_h'', seg_c_h)]) (\<lambda>proto.
          let self = self(''proto_seg_module'' \<mapsto> proto) in
          ebind (get_attr self ''embed_dim'') (\<lambda>embed_dim'.
          ebind (get_attr self ''num_obj_classes'') (\<lambda>num_obj_classes.
          ebind (get_attr self ''det_3d'') (\<lambda>det_3d.
          ebind (get_attr self ''num_seg_coeffs'') (\<lambda>num_seg_coeffs''.
          ebind (new ''DetectionHead'' []
                   [(''embed_dim'', embed_dim'), (''num_obj_class'', num_obj_classes),
                    (''det_3d'', det_3d), (''num_seg_coefs'', num_seg_coeffs'')]) (\<lambda>head.
            Inr (self(''detection_module'' \<mapsto> head))))))))))))"

section \<open>OccFormer: the shapes of the forward pass\<close>

text \<open>
  For the claims about shapes and about the assertions, \<^verbatim>\<open>OccFormer.forward\<close> and
  \<^verbatim>\<open>OccFormerDecoderLayer.forward\<close> are followed statement by statement on the shapes of
  their tensors: a tensor is the list of its axis sizes, and every operation is the rule
  by which torch computes the shape of its result, or raises.
\<close>

subsection \<open>Shape rules of the torch operations\<close>

text \<open>\<^verbatim>\<open>t.shape[i]\<close> for \<open>i \<ge> 0\<close>.\<close>

definition dim_at :: "nat list \<Rightarrow> nat \<Rightarrow> error + nat" where
  "dim_at s i = (if i < length s then Inr (s ! i) else Inl IndexError)"

text \<open>\<^verbatim>\<open>t.permute(*dims)\<close>: \<open>dims\<close> must be a permutation of the axes.\<close>

definition permute :: "nat list \<Rightarrow> nat list \<Rightarrow> error + nat list" where
  "permute dims s =
     (if length dims = length s \<and> distinct dims \<and> list_all (\<lambda>i. i < length s) dims
      then Inr (map (\<lambda>i. s ! i) dims)
      else Inl RuntimeError)"

text \<open>
  \<^verbatim>\<open>t.reshape(*target)\<close>: at most one entry of the target is \<open>-1\<close>, which is then inferred
  from the number of elements; the number of elements must not change, and a \<open>-1\<close> beside
  a product of zero cannot be inferred.
\<close>

definition reshape :: "int list \<Rightarrow> nat list \<Rightarrow> error + nat list" where
  "reshape target s =
     (let numel = prod_list s;
          known = prod_list (map nat (filter (\<lambda>d. d \<noteq> - 1) target));
          holes = length (filter (\<lambda>d. d = - 1) target)
      in
      if list_ex (\<lambda>d. d < - 1) target \<or> holes > 1 then Inl RuntimeError
      else if holes = 0 then (if known = numel then Inr (map nat target) else Inl RuntimeError)
      else if known = 0 \<or> numel mod known \<noteq> 0 then Inl RuntimeError
      else Inr (map (\<lambda>d. if d = - 1 then numel div known else nat d) target))"

text \<open>Broadcasting of two shapes, aligned at their last axes (\<open>bdim\<close> on each pair).\<close>

fun broadcast_rev :: "nat list \<Rightarrow> nat list \<Rightarrow> error + nat list" where
  "broadcast_rev [] ys = Inr ys"
| "broadcast_rev (x # xs) [] = Inr (x # xs)"
| "broadcast_rev (x # xs) (y # ys) =
     ebind (bdim x y) (\<lambda>d. ebind (broadcast_rev xs ys) (\<lambda>r. Inr (d # r)))"

definition broadcast_shapes :: "nat list \<Rightarrow> nat list \<Rightarrow> error + nat list" where
  "broadcast_shapes a b = ebind (broadcast_rev (rev a) (rev b)) (\<lambda>r. Inr (rev r))"

text \<open>
  \<^verbatim>\<open>torch.matmul(a, b)\<close>: a vector operand is treated as a matrix with one row (left) or
  one column (right), and that axis is dropped from the result; the last axis of \<open>a\<close> must
  be the second-to-last of \<open>b\<close>; the leading (batch) axes are broadcast.
\<close>

definition matmul :: "nat list \<Rightarrow> nat list \<Rightarrow> error + nat list" where
  "matmul a b =
     (if a = [] \<or> b = [] then Inl RuntimeError
      else
        let a' = (if length a = 1 then 1 # a else a);
            b' = (if length b = 1 then b @ [1] else b);
            n = a' ! (length a' - 2); m = last a';
            m' = b' ! (length b' - 2); p = last b'
        in
        if m \<noteq> m' then Inl RuntimeError
        else
          ebind (broadcast_shapes (take (length a' - 2) a') (take (length b' - 2) b'))
            (\<lambda>batch. Inr (batch @ (if length a = 1 then [] else [n])
                               @ (if length b = 1 then [] else [p]))))"

text \<open>
  \<^verbatim>\<open>torch.concat(ts, dim=-1)\<close>: a non-empty list of tensors with at least one axis that
  agree on all axes but the last.
\<close>

definition concat_last :: "nat list list \<Rightarrow> error + nat list" where
  "concat_last ts =
     (case ts of
        [] \<Rightarrow> Inl RuntimeError
      | t # rest \<Rightarrow>
          if t = [] \<or> list_ex (\<lambda>u. u = [] \<or> butlast u \<noteq> butlast t) rest then Inl RuntimeError
          else Inr (butlast t @ [sum_list (map last ts)]))"

text \<open>
  \<^verbatim>\<open>torch.stack(ts, dim=d)\<close>: a non-empty list of tensors of one shape; the new axis has
  the length of the list.
\<close>

definition stack_at :: "nat \<Rightarrow> nat list list \<Rightarrow> error + nat list" where
  "stack_at d ts =
     (case ts of
        [] \<Rightarrow> Inl RuntimeError
      | t # rest \<Rightarrow>
          if list_ex (\<lambda>u. u \<noteq> t) rest then Inl RuntimeError
          else if d > length t then Inl IndexError
          else Inr (take d t @ [length ts] @ drop d t))"

text \<open>
  The scale factor of an \<^verbatim>\<open>nn.Upsample\<close> is a Python float, and the size of its output is
  computed in floating point: the numbers are IEEE 754 doubles, rounded to the nearest
  double with ties to the even significand.  A finite double that is not negative is
  written as the pair \<open>(m, k)\<close>, which stands for \<open>m / 2 ^ k\<close>.

  \<open>bitlen n\<close> is the number of binary digits of \<open>n\<close>, \<open>floor_log2 p q\<close> the integer part of the
  binary logarithm of \<open>p / q\<close>, and \<open>round_half_even n d\<close> the integer nearest to \<open>n / d\<close>.
  \<open>round_double p q\<close> is the double nearest to \<open>p / q\<close>: 53 significant digits, on the grid
  of the subnormal numbers (multiples of \<open>2 ^ - 1074\<close>) below the normal range, and an overflow
  when the rounded value reaches \<open>2 ^ 1024\<close>.
\<close>

type_synonym double = "nat \<times> nat"

fun bitlen :: "nat \<Rightarrow> nat" where
  "bitlen n = (if n = 0 then 0 else Suc (bitlen (n div 2)))"

declare bitlen.simps [simp del]

definition floor_log2 :: "nat \<Rightarrow> nat \<Rightarrow> int" where
  "floor_log2 p q =
     (let d = int (bitlen p) - int (bitlen q) in
      if q * 2 ^ nat d \<le> p * 2 ^ nat (- d) then d else d - 1)"

definition round_half_even :: "nat \<Rightarrow> nat \<Rightarrow> nat" where
  "round_half_even n d =
     (let f = n div d; r = n mod d in
      if 2 * r < d then f
      else if d < 2 * r then f + 1
      else if even f then f else f + 1)"

definition round_double :: "nat \<Rightarrow> nat \<Rightarrow> error + double" where
  "round_double p q =
     (if p = 0 then Inr (0, 0)
      else
        let e = max (floor_log2 p q - 52) (- 1074);
            m = round_half_even (p * 2 ^ nat (- e)) (q * 2 ^ nat e)
        in
        if 1024 < bitlen (m * 2 ^ nat e) then Inl OverflowError
        else Inr (m * 2 ^ nat e, nat (- e)))"

text \<open>
  The scale factor \<open>(num, den)\<close> is the float that Python makes of \<open>num / den\<close>: both
  \<^verbatim>\<open>1 / k\<close> on integers (lines 39 and 176 of occformer.py) and the \<^verbatim>\<open>float(k)\<close> that
  \<^verbatim>\<open>nn.Upsample.__init__\<close> applies to its argument (line 52) are correctly rounded.
  Division by zero raises, and so does the conversion of an integer beyond the doubles.
\<close>

definition py_float :: "nat \<times> nat \<Rightarrow> error + double" where
  "py_float scale_factor =
     (let (num, den) = scale_factor in
      if den = 0 then Inl ZeroDivisionError else round_double num den)"

text \<open>
  The output size of one axis, as torch computes it from the scale factor: the axis size is
  converted to a double, multiplied by the scale (one rounding), and the product is
  truncated to an integer.  (A product beyond the doubles has no integer value; it is an
  overflow here.)
\<close>

definition output_size :: "double \<Rightarrow> nat \<Rightarrow> error + nat" where
  "output_size scale h =
     ebind (round_double h 1) (\<lambda>(hm, hk).
     ebind (round_double (hm * fst scale) (2 ^ (hk + snd scale))) (\<lambda>(pm, pk).
       Inr (pm div 2 ^ pk)))"

definition Upsample_size :: "nat \<times> nat \<Rightarrow> nat \<Rightarrow> error + nat" where
  "Upsample_size scale_factor h =
     ebind (py_float scale_factor) (\<lambda>scale. output_size scale h)"

text \<open>
  \<^verbatim>\<open>nn.Upsample(scale_factor=f, mode="bilinear")\<close> on an input \<open>(N, C, H, W)\<close>: the output is
  \<open>(N, C, H', W')\<close> with the sizes \<open>H'\<close> and \<open>W'\<close> of \<open>output_size\<close>.  A scale factor of zero
  is stored as None, and the call then raises ValueError; torch raises for an input that
  does not have four axes, for an empty channel or spatial axis, and for an output size of
  zero.
\<close>

definition Upsample_bilinear :: "nat \<times> nat \<Rightarrow> nat list \<Rightarrow> error + nat list" where
  "Upsample_bilinear scale_factor s =
     ebind (py_float scale_factor) (\<lambda>scale.
       if fst scale = 0 then Inl ValueError
       else
         case s of
           [n, c, h, w] \<Rightarrow>
             ebind (output_size scale h) (\<lambda>h'.
             ebind (output_size scale w) (\<lambda>w'.
               if c = 0 \<or> h = 0 \<or> w = 0 \<or> h' = 0 \<or> w' = 0 then Inl RuntimeError
               else Inr [n, c, h', w']))
         | _ \<Rightarrow> Inl RuntimeError)"

text \<open>The shape rule of \<open>MaxPool2d\<close> above, for an input with four axes.\<close>

definition MaxPool2d_shape :: "nat \<times> nat \<Rightarrow> nat list \<Rightarrow> error + nat list" where
  "MaxPool2d_shape kernel_size s =
     (let (kh, kw) = kernel_size in
      case s of
        [n, c, h, w] \<Rightarrow>
          if kh = 0 \<or> kw = 0 then Inl RuntimeError
          else if c = 0 \<or> h = 0 \<or> w = 0 then Inl RuntimeError
          else if h < kh \<or> w < kw then Inl RuntimeError
          else Inr [n, c, h - kh + 1, w - kw + 1]
      | _ \<Rightarrow> Inl RuntimeError)"

text \<open>\<^verbatim>\<open>t[..., 0, :]\<close>: the second-to-last axis is removed; it must not be empty.\<close>

definition select0_second_last :: "nat list \<Rightarrow> error + nat list" where
  "select0_second_last s =
     (if length s < 2 then Inl IndexError
      else if s ! (length s - 2) = 0 then Inl IndexError
      else Inr (take (length s - 2) s @ [last s]))"

text \<open>
  \<^verbatim>\<open>torch.masked_fill(t, m, value)\<close>, the function that returns a new tensor: the tensor and
  the mask are broadcast against each other, and the result has the broadcast shape.
\<close>

definition masked_fill :: "nat list \<Rightarrow> nat list \<Rightarrow> error + nat list" where
  "masked_fill t m = broadcast_shapes t m"

subsection \<open>The blocks that are not under src/\<close>

text \<open>
  Modelled from the spec: \<^verbatim>\<open>MultiHeadedAttention\<close> of modules/attentions.py, which is not
  under src/.  The spec: standard multi-head self/cross attention with an optional additive
  mask.  Query, key and value are \<open>(N, L\<^sub>q, E)\<close>, \<open>(N, L\<^sub>k, E)\<close>, \<open>(N, L\<^sub>k, E)\<close> with \<open>E\<close> the
  embedding width of the module; a mask is \<open>(N, L\<^sub>q, L\<^sub>k)\<close>; the result has one vector of
  width \<open>E\<close> for each query.
\<close>

definition MultiHeadedAttention ::
  "nat \<Rightarrow> nat list \<Rightarrow> nat list \<Rightarrow> nat list \<Rightarrow> nat list option \<Rightarrow> error + nat list" where
  "MultiHeadedAttention e q k v attention_mask =
     (case (q, k, v) of
        ([n, lq, eq], [nk, lk, ek], [nv, lv, ev]) \<Rightarrow>
          if eq = e \<and> ek = e \<and> ev = e \<and> nk = n \<and> nv = n \<and> lv = lk \<and>
             (case attention_mask of None \<Rightarrow> True | Some m \<Rightarrow> m = [n, lq, lk])
          then Inr [n, lq, e]
          else Inl RuntimeError
      | _ \<Rightarrow> Inl RuntimeError)"

text \<open>
  Modelled from the spec: \<^verbatim>\<open>AddNorm\<close> of modules/common.py, which is not under src/.  The
  spec: a residual-add-then-normalize block.  The two operands are added (with
  broadcasting) and normalised over the last axis, whose size is the width of the module.
\<close>

definition AddNorm :: "nat \<Rightarrow> nat list \<Rightarrow> nat list \<Rightarrow> error + nat list" where
  "AddNorm input_dim x y =
     ebind (broadcast_shapes x y) (\<lambda>r.
       if r \<noteq> [] \<and> last r = input_dim then Inr r else Inl RuntimeError)"

text \<open>
  Modelled from the spec: \<^verbatim>\<open>SimpleMLP\<close> and \<^verbatim>\<open>TemporalSpecificMLP\<close> of modules/common.py,
  which are not under src/.  The spec: a generic feed-forward MLP, and a family of MLPs
  with one variant of weights for each forecast timestep.  Both map the last axis from
  the input width to the output width; the temporal one has \<open>num_timesteps\<close> variants.
\<close>

definition SimpleMLP :: "nat \<Rightarrow> nat \<Rightarrow> nat list \<Rightarrow> error + nat list" where
  "SimpleMLP in_dim out_dim x =
     (if x \<noteq> [] \<and> last x = in_dim then Inr (butlast x @ [out_dim]) else Inl RuntimeError)"

definition TemporalSpecificMLP :: "nat \<Rightarrow> nat \<Rightarrow> nat \<Rightarrow> nat list \<Rightarrow> nat \<Rightarrow> error + nat list" where
  "TemporalSpecificMLP in_dim out_dim num_timesteps x tidx =
     (if tidx \<ge> num_timesteps then Inl IndexError else SimpleMLP in_dim out_dim x)"

text \<open>
  Modelled from the spec: \<^verbatim>\<open>PosEmbedding1D\<close> called with a tensor of indexes (the table
  modelled above, now at the level of shapes): one row of the table for each index, so a
  new last axis of the embedding width; an index outside the table raises.  \<open>bound\<close> is
  one more than the largest index of the tensor.
\<close>

definition PosEmbedding1D_lookup :: "nat \<Rightarrow> nat \<Rightarrow> nat list \<Rightarrow> nat \<Rightarrow> error + nat list" where
  "PosEmbedding1D_lookup max_len e indexes bound =
     (if bound > max_len then Inl IndexError else Inr (indexes @ [e]))"

text \<open>
  Modelled from the spec: \<^verbatim>\<open>ConvBNorm\<close> and \<^verbatim>\<open>ConvTransposeBNorm\<close> of modules/common.py,
  which are not under src/.  The spec: a convolution (transposed convolution) followed by
  a normalisation.  The shapes are those of \<^verbatim>\<open>nn.Conv2d\<close> and \<^verbatim>\<open>nn.ConvTranspose2d\<close> for
  the given kernel size, stride and padding.
\<close>

definition ConvBNorm :: "nat \<Rightarrow> nat \<Rightarrow> nat \<Rightarrow> nat \<Rightarrow> nat \<Rightarrow> nat list \<Rightarrow> error + nat list" where
  "ConvBNorm in_channels out_channels kernel_size stride padding x =
     (case x of
        [n, c, h, w] \<Rightarrow>
          if c \<noteq> in_channels \<or> stride = 0 \<or> kernel_size = 0 \<or>
             h + 2 * padding < kernel_size \<or> w + 2 * padding < kernel_size
          then Inl RuntimeError
          else Inr [n, out_channels, (h + 2 * padding - kernel_size) div stride + 1,
                    (w + 2 * padding - kernel_size) div stride + 1]
      | _ \<Rightarrow> Inl RuntimeError)"

definition ConvTransposeBNorm ::
  "nat \<Rightarrow> nat \<Rightarrow> nat \<Rightarrow> nat \<Rightarrow> nat \<Rightarrow> nat list \<Rightarrow> error + nat list" where
  "ConvTransposeBNorm in_channels out_channels kernel_size stride padding x =
     (case x of
        [n, c, h, w] \<Rightarrow>
          if c \<noteq> in_channels \<or> stride = 0 \<or> kernel_size = 0 \<or> h = 0 \<or> w = 0 \<or>
             (h - 1) * stride + kernel_size \<le> 2 * padding \<or>
             (w - 1) * stride + kernel_size \<le> 2 * padding
          then Inl RuntimeError
          else Inr [n, out_channels, (h - 1) * stride + kernel_size - 2 * padding,
                    (w - 1) * stride + kernel_size - 2 * padding]
      | _ \<Rightarrow> Inl RuntimeError)"

subsection \<open>OccFormerDecoderLayer\<close>

text \<open>
  The fields carry a suffix where the name is a field of the TrackFormer records already.
  The attention and normalisation blocks are fields: functions on shapes.
\<close>

record OccFormerDecoderLayer =
  embed_dim_ol :: nat
  dense_feature_shape :: "nat \<times> nat"
  op_attn_scale :: nat
  self_attention_o :: "nat list \<Rightarrow> nat list \<Rightarrow> nat list \<Rightarrow> error + nat list"
  addnorm1_o :: "nat list \<Rightarrow> nat list \<Rightarrow> error + nat list"
  cross_attention :: "nat list \<Rightarrow> nat list \<Rightarrow> nat list \<Rightarrow> nat list \<Rightarrow> error + nat list"
  addnorm2_o :: "nat list \<Rightarrow> nat list \<Rightarrow> error + nat list"

text \<open>A padding mask argument: its shape, and whether its dtype is \<^verbatim>\<open>torch.bool\<close>.\<close>

record pad_mask_arg =
  pm_shape :: "nat list"
  pm_is_bool :: bool

definition OccFormerDecoderLayer_forward ::
  "OccFormerDecoderLayer \<Rightarrow> nat list \<Rightarrow> nat list \<Rightarrow> nat list \<Rightarrow> bool \<Rightarrow> pad_mask_arg option \<Rightarrow>
   error + (nat list \<times> nat list option)" where
  "OccFormerDecoderLayer_forward self dense_features agent_features mask_features
     return_attn_mask pad_mask =
     ebind (dim_at dense_features 0) (\<lambda>batch_size.
     if op_attn_scale self = 0 then Inl ZeroDivisionError
     else
       let ds_shape = (fst (dense_feature_shape self) div op_attn_scale self,
                       snd (dense_feature_shape self) div op_attn_scale self)
       in
       ebind (Upsample_bilinear (1, op_attn_scale self) dense_features) (\<lambda>ds_dense_features.
       ebind (permute [0, 2, 3, 1] ds_dense_features) (\<lambda>ds_dense_features.
       ebind (reshape [int batch_size, int (fst ds_shape * snd ds_shape),
                       int (embed_dim_ol self)] ds_dense_features) (\<lambda>ds_dense_features.
       ebind (self_attention_o self ds_dense_features ds_dense_features ds_dense_features)
         (\<lambda>out1.
       ebind (addnorm1_o self ds_dense_features out1) (\<lambda>out2.
       ebind (permute [0, 2, 1] mask_features) (\<lambda>mask_features_t.
       ebind (matmul out2 mask_features_t) (\<lambda>mask.
       ebind (case pad_mask of
                None \<Rightarrow> Inr mask
              | Some pm \<Rightarrow>
                  if \<not> (length (pm_shape pm) = 2 \<and> pm_is_bool pm) then Inl (AssertionError 102)
                  else masked_fill mask [pm_shape pm ! 0, 1, pm_shape pm ! 1]) (\<lambda>mask.
       ebind (cross_attention self out2 agent_features agent_features mask) (\<lambda>out3.
       ebind (addnorm2_o self out2 out3) (\<lambda>out4.
       ebind (permute [0, 2, 1] out4) (\<lambda>out4.
       ebind (reshape [int batch_size, int (embed_dim_ol self), int (fst ds_shape),
                       int (snd ds_shape)] out4) (\<lambda>out4.
       ebind (Upsample_bilinear (op_attn_scale self, 1) out4) (\<lambda>up.
       ebind (broadcast_shapes up dense_features) (\<lambda>out5.
         if return_attn_mask then
           ebind (permute [0, 2, 1] mask) (\<lambda>mask.
           ebind (reshape [int batch_size, - 1, int (fst ds_shape), int (snd ds_shape)] mask)
             (\<lambda>mask. Inr (out5, Some mask)))
         else Inr (out5, None))))))))))))))))"

subsection \<open>OccFormer\<close>

text \<open>
  \<^verbatim>\<open>inference_mode\<close> is an attribute of \<^verbatim>\<open>BaseFormer\<close> (modules/base.py, not under src/).
  The pooling module and the downsampler are torch's; the other modules are fields.
\<close>

record OccFormer =
  embed_dim_o :: nat
  num_layers_o :: nat
  num_modes :: nat
  bev_feature_hw :: "nat \<times> nat"
  bev_downsmaple_scale :: nat
  inference_mode :: bool
  agent_pos_emb :: "nat list \<Rightarrow> nat \<Rightarrow> error + nat list"
  temporal_mlp :: "nat list \<Rightarrow> nat \<Rightarrow> error + nat list"
  mask_features_mlp :: "nat list \<Rightarrow> error + nat list"
  occ_features_mlp :: "nat list \<Rightarrow> error + nat list"
  conv_transpose :: "nat list \<Rightarrow> error + nat list"
  decoder_modules_o :: "OccFormerDecoderLayer list"

text \<open>
  The body of the loop over the forecast timesteps, lines 257 to 281, on the state
  (dense features, occupancies, attention masks).
\<close>

definition occ_step ::
  "OccFormer \<Rightarrow> nat list \<Rightarrow> pad_mask_arg option \<Rightarrow> nat \<Rightarrow> nat \<Rightarrow> nat \<Rightarrow>
   nat list \<times> nat list list \<times> nat list list \<Rightarrow>
   error + (nat list \<times> nat list list \<times> nat list list)" where
  "occ_step self sparse_features pad_mask batch_size num_agents tidx state =
     (let (dense_features, occupancies, all_attn_masks) = state in
      ebind (temporal_mlp self sparse_features tidx) (\<lambda>agent_features.
      ebind (mask_features_mlp self agent_features) (\<lambda>mask_features.
      if tidx \<ge> length (decoder_modules_o self) then Inl IndexError
      else
        ebind (OccFormerDecoderLayer_forward (decoder_modules_o self ! tidx) dense_features
                 agent_features mask_features (\<not> inference_mode self) pad_mask)
          (\<lambda>(dense_features, attn_masks).
        let all_attn_masks =
              (case attn_masks of None \<Rightarrow> all_attn_masks | Some m \<Rightarrow> all_attn_masks @ [m])
        in
        ebind (occ_features_mlp self mask_features) (\<lambda>occ_features.
        ebind (conv_transpose self dense_features) (\<lambda>proba_map.
        ebind (permute [0, 2, 1, 3] proba_map) (\<lambda>proba_map.
        ebind (reshape [int batch_size, - 1, int (embed_dim_o self)] proba_map) (\<lambda>proba_map.
        ebind (permute [0, 2, 1] proba_map) (\<lambda>proba_map_t.
        ebind (matmul occ_features proba_map_t) (\<lambda>occupancy.
        ebind (permute [0, 2, 1] occupancy) (\<lambda>occupancy.
        ebind (reshape [int batch_size, int num_agents, int (fst (bev_feature_hw self)),
                        int (snd (bev_feature_hw self))] occupancy) (\<lambda>occupancy.
          Inr (dense_features, occupancies @ [occupancy], all_attn_masks)))))))))))))"

fun occ_loop ::
  "OccFormer \<Rightarrow> nat list \<Rightarrow> pad_mask_arg option \<Rightarrow> nat \<Rightarrow> nat \<Rightarrow> nat list \<Rightarrow>
   nat list \<times> nat list list \<times> nat list list \<Rightarrow>
   error + (nat list \<times> nat list list \<times> nat list list)" where
  "occ_loop self sparse_features pad_mask batch_size num_agents [] state = Inr state"
| "occ_loop self sparse_features pad_mask batch_size num_agents (tidx # rest) state =
     ebind (occ_step self sparse_features pad_mask batch_size num_agents tidx state)
       (\<lambda>state. occ_loop self sparse_features pad_mask batch_size num_agents rest state)"

definition OccFormer_forward ::
  "OccFormer \<Rightarrow> nat list \<Rightarrow> nat list \<Rightarrow> nat list \<Rightarrow> pad_mask_arg option \<Rightarrow>
   error + (nat list \<times> nat list option)" where
  "OccFormer_forward self bev_features track_queries motion_queries pad_mask =
     ebind (dim_at track_queries 1) (\<lambda>t1.
     ebind (dim_at motion_queries 1) (\<lambda>m1.
     if t1 \<noteq> m1 then Inl (AssertionError 234)
     else
     ebind (dim_at track_queries 2) (\<lambda>t2.
     ebind (dim_at motion_queries 3) (\<lambda>m3.
     if \<not> (t2 = m3 \<and> m3 = embed_dim_o self) then Inl (AssertionError 235)
     else
     ebind (dim_at motion_queries 2) (\<lambda>m2.
     if m2 \<noteq> num_modes self then Inl (AssertionError 236)
     else
     ebind (dim_at bev_features 2) (\<lambda>b2.
     if b2 \<noteq> embed_dim_o self then Inl (AssertionError 237)
     else
       let batch_size = track_queries ! 0; num_agents = track_queries ! 1 in
       ebind (MaxPool2d_shape (num_modes self, 1) motion_queries) (\<lambda>x_queries.
       ebind (select0_second_last x_queries) (\<lambda>x_queries.
       let pos_indexes = [batch_size, num_agents] in
       ebind (agent_pos_emb self pos_indexes num_agents) (\<lambda>pos_emb.
       ebind (concat_last [track_queries, pos_emb, x_queries]) (\<lambda>sparse_features.
       ebind (permute [0, 2, 1] bev_features) (\<lambda>bev_features.
       ebind (reshape [int batch_size, int (embed_dim_o self),
                       int (fst (bev_feature_hw self)), int (snd (bev_feature_hw self))]
                bev_features) (\<lambda>bev_features.
       ebind (Upsample_bilinear (1, bev_downsmaple_scale self) bev_features)
         (\<lambda>dense_features.
       ebind (occ_loop self sparse_features pad_mask batch_size num_agents
                [0..<num_layers_o self] (dense_features, [], []))
         (\<lambda>(dense_features, occupancies, all_attn_masks).
       ebind (stack_at 2 occupancies) (\<lambda>occupancies.
         if length all_attn_masks > 0 then
           ebind (stack_at 2 all_attn_masks) (\<lambda>all_attn_masks.
             Inr (occupancies, Some all_attn_masks))
         else Inr (occupancies, None))))))))))))))))"

text \<open>
  \<^verbatim>\<open>OccFormer.__init__\<close> with the blocks as the spec has them, lines 140 to 207 (the
  arguments that do not bear on a shape are left out).  The decoder layers are built by
  \<^verbatim>\<open>_create_decoder_layers\<close>, one for each timestep; their constructor divides 1 by
  \<open>op_attn_scale\<close> for the downsampler and hands \<open>op_attn_scale\<close> to the upsampler, which
  converts it to a float.
\<close>

definition OccFormerDecoderLayer_init :: "nat \<Rightarrow> nat \<times> nat \<Rightarrow> nat \<Rightarrow> OccFormerDecoderLayer" where
  "OccFormerDecoderLayer_init e shape scale =
     \<lparr>embed_dim_ol = e, dense_feature_shape = shape, op_attn_scale = scale,
        self_attention_o = (\<lambda>q k v. MultiHeadedAttention e q k v None),
        addnorm1_o = AddNorm e,
        cross_attention = (\<lambda>q k v m. MultiHeadedAttention e q k v (Some m)),
        addnorm2_o = AddNorm e\<rparr>"

definition OccFormer_init ::
  "nat \<Rightarrow> nat \<Rightarrow> nat \<Rightarrow> nat \<Rightarrow> nat \<Rightarrow> nat \<times> nat \<Rightarrow> nat \<Rightarrow> nat \<Rightarrow> error + OccFormer" where
  "OccFormer_init max_num_agents e modes pred_horizon dim_feedforward hw scale attn_scale =
     (if scale = 0 then Inl (AssertionError 142)
      else if pred_horizon > 0 \<and> attn_scale = 0 then Inl ZeroDivisionError
      else if pred_horizon > 0 \<and> isl (py_float (attn_scale, 1)) then Inl OverflowError
      else
        Inr \<lparr>embed_dim_o = e, num_layers_o = pred_horizon, num_modes = modes,
             bev_feature_hw = hw, bev_downsmaple_scale = scale, inference_mode = False,
             agent_pos_emb = PosEmbedding1D_lookup max_num_agents e,
             temporal_mlp = TemporalSpecificMLP (e * 3) e pred_horizon,
             mask_features_mlp = SimpleMLP e e,
             occ_features_mlp = SimpleMLP e e,
             conv_transpose = (\<lambda>x.
               ebind (ConvBNorm e e 1 1 0 x) (\<lambda>x.
               ebind (ConvTransposeBNorm e e scale scale 0 x) (\<lambda>x.
               ConvBNorm e e 1 1 0 x))),
             decoder_modules_o =
               map (\<lambda>k. OccFormerDecoderLayer_init e (fst hw div scale, snd hw div scale)
                          attn_scale)
                 [0..<pred_horizon]\<rparr>)"

section \<open>Properties of the gather-and-pad step\<close>

lemma ebind_Inr [simp]: "ebind (Inr x) f = f x"
  by (simp add: ebind_def)

lemma ebind_Inl [simp]: "ebind (Inl e) f = Inl e"
  by (simp add: ebind_def)

lemma mapM_err_all_Inr:
  "(\<And>x. x \<in> set xs \<Longrightarrow> f x = Inr (g x)) \<Longrightarrow> mapM_err f xs = Inr (map g xs)"
  by (induction xs) simp_all

lemma max_list_Max: "xs \<noteq> [] \<Longrightarrow> max_list xs = Inr (Max (set xs))"
proof (cases xs)
  case Nil
  assume "xs \<noteq> []"
  with Nil show ?thesis by simp
next
  case (Cons a list)
  have "Max (set (a # list)) = fold max list a"
    by (rule Max.set_eq_fold)
  with Cons show ?thesis by simp
qed

lemma true_positions_Cons:
  "{j. j < Suc n \<and> (b # bs) ! j} =
     (if b then insert 0 (Suc ` {j. j < n \<and> bs ! j}) else Suc ` {j. j < n \<and> bs ! j})"
proof -
  have "{j. j < Suc n \<and> (b # bs) ! j} =
        {j. j = 0 \<and> b} \<union> Suc ` {j. j < n \<and> bs ! j}"
  proof (rule set_eqI)
    fix j
    show "j \<in> {j. j < Suc n \<and> (b # bs) ! j} \<longleftrightarrow>
          j \<in> {j. j = 0 \<and> b} \<union> Suc ` {j. j < n \<and> bs ! j}"
      by (cases j) auto
  qed
  then show ?thesis by auto
qed

lemma bool_index_nths:
  "length xs = length bs \<Longrightarrow> bool_index xs bs = nths xs {j. j < length bs \<and> bs ! j}"
proof (induction xs bs rule: bool_index.induct)
  case (1 x xs b bs)
  have "{j. Suc j \<in> {j. j < Suc (length bs) \<and> (b # bs) ! j}} = {j. j < length bs \<and> bs ! j}"
    by auto
  with 1 show ?case by (simp add: nths_Cons)
qed simp_all

lemma length_bool_index: "length xs = length bs \<Longrightarrow> length (bool_index xs bs) = mask_row_sum bs"
  by (induction xs bs rule: bool_index.induct) (simp_all add: mask_row_sum_def)

lemma mask_row_sum_card: "mask_row_sum bs = card {j. j < length bs \<and> bs ! j}"
proof (induction bs)
  case Nil
  show ?case by (simp add: mask_row_sum_def)
next
  case (Cons b bs)
  have fin: "finite {j. j < length bs \<and> bs ! j}" by simp
  have "card {j. j < Suc (length bs) \<and> (b # bs) ! j} =
        (if b then Suc (card {j. j < length bs \<and> bs ! j}) else card {j. j < length bs \<and> bs ! j})"
    unfolding true_positions_Cons using fin
    by (auto simp: card_image card_insert_if)
  with Cons show ?case by (simp add: mask_row_sum_def)
qed

lemma mask_row_sum_le: "mask_row_sum bs \<le> length bs"
  by (simp add: mask_row_sum_def)

lemma mask_row_sum_all_True: "list_all (\<lambda>b. b) bs \<Longrightarrow> mask_row_sum bs = length bs"
  by (induction bs) (simp_all add: mask_row_sum_def)

lemma bool_index_all_True:
  "length xs = length bs \<Longrightarrow> list_all (\<lambda>b. b) bs \<Longrightarrow> bool_index xs bs = xs"
  by (induction xs bs rule: bool_index.induct) simp_all

lemma wf3_row: "wf3 t \<Longrightarrow> i < dim0 t \<Longrightarrow> length (vals t ! i) = dim1 t"
  by (simp add: wf3_def list_all_length)

lemma wf3_cell: "wf3 t \<Longrightarrow> i < dim0 t \<Longrightarrow> j < dim1 t \<Longrightarrow> length (vals t ! i ! j) = dim2 t"
  by (simp add: wf3_def list_all_length)

lemma wf2_row: "wf2 t \<Longrightarrow> i < rows t \<Longrightarrow> length (vals2 t ! i) = cols t"
  by (simp add: wf2_def list_all_length)

lemma row_sum_le_batch_max:
  assumes "wf2 tm" "i < rows tm"
  shows "mask_row_sum (vals2 tm ! i) \<le> batch_max tm"
proof -
  from assms have "i < length (vals2 tm)" by (simp add: wf2_def)
  then have "mask_row_sum (vals2 tm ! i) \<in> set (map mask_row_sum (vals2 tm))"
    by (metis length_map nth_map nth_mem)
  then show ?thesis unfolding batch_max_def by (simp add: Max_ge)
qed

lemma pad_one_Inr:
  assumes "wf3 tq" "wf2 tm" "dim0 tq = rows tm" "dim1 tq = cols tm" "i < rows tm"
  shows "pad_one tq tm (batch_max tm) i = Inr (padded_tracks tq tm i, padded_mask tm i)"
proof -
  let ?c = "mask_row_sum (vals2 tm ! i)"
  have len: "length (vals tq ! i) = length (vals2 tm ! i)"
    using assms by (simp add: wf3_row wf2_row)
  have c: "length (bool_index (vals tq ! i) (vals2 tm ! i)) = ?c"
    using len by (rule length_bool_index)
  have le: "?c \<le> batch_max tm"
    using assms by (simp add: row_sum_le_batch_max)
  have pad: "F_pad_rows (bool_index (vals tq ! i) (vals2 tm ! i)) (dim2 tq)
               (int (batch_max tm) - int ?c) = padded_tracks tq tm i"
    using le by (simp add: F_pad_rows_def padded_tracks_def nat_diff_distrib')
  have msk: "set_prefix_True (replicate (batch_max tm) False) ?c = padded_mask tm i"
    using le by (simp add: set_prefix_True_def padded_mask_def min_def)
  show ?thesis
    using assms c pad msk by (simp add: pad_one_def Let_def)
qed

lemma pad_track_queries_Inr:
  assumes "wf3 tq" "wf2 tm" "dim0 tq = n" "rows tm = n" "0 < n"
    and "dim2 tq = e" "dim1 tq = cols tm"
  shows "pad_track_queries e n tq tm =
           Inr (\<lparr>dim0 = n, dim1 = batch_max tm, dim2 = e,
                  vals = map (padded_tracks tq tm) [0..<n]\<rparr>,
                \<lparr>rows = n, cols = batch_max tm, vals2 = map (padded_mask tm) [0..<n]\<rparr>)"
proof -
  have ne: "map mask_row_sum (vals2 tm) \<noteq> []"
    using assms by (auto simp: wf2_def)
  have mx: "max_list (map mask_row_sum (vals2 tm)) = Inr (batch_max tm)"
    unfolding batch_max_def using ne by (rule max_list_Max)
  have loop: "mapM_err (pad_one tq tm (batch_max tm)) [0..<n] =
              Inr (map (\<lambda>i. (padded_tracks tq tm i, padded_mask tm i)) [0..<n])"
    by (rule mapM_err_all_Inr) (use assms in \<open>simp add: pad_one_Inr\<close>)
  show ?thesis
    using assms mx loop by (simp add: pad_track_queries_def comp_def)
qed


lemma image_set_nth: "f ` set xs = (\<lambda>i. f (xs ! i)) ` {..<length xs}"
proof (rule set_eqI)
  fix y
  show "y \<in> f ` set xs \<longleftrightarrow> y \<in> (\<lambda>i. f (xs ! i)) ` {..<length xs}"
    by (auto simp: in_set_conv_nth intro: imageI nth_mem)
qed

lemma batch_max_card:
  assumes "wf2 tm" "rows tm = n"
  shows "batch_max tm = Max ((\<lambda>i. card {j. j < cols tm \<and> vals2 tm ! i ! j}) ` {..<n})"
proof -
  have len: "length (vals2 tm) = n" using assms by (simp add: wf2_def)
  have "set (map mask_row_sum (vals2 tm)) = (\<lambda>i. mask_row_sum (vals2 tm ! i)) ` {..<n}"
    using len by (simp add: image_set_nth)
  also have "\<dots> = (\<lambda>i. card {j. j < cols tm \<and> vals2 tm ! i ! j}) ` {..<n}"
  proof (rule image_cong)
    fix i assume "i \<in> {..<n}"
    then have "length (vals2 tm ! i) = cols tm"
      using assms by (simp add: wf2_row)
    then show "mask_row_sum (vals2 tm ! i) = card {j. j < cols tm \<and> vals2 tm ! i ! j}"
      by (simp add: mask_row_sum_card)
  qed simp
  finally show ?thesis by (simp add: batch_max_def)
qed

text \<open>
  Claim C1.  When track queries and their mask are supplied (a batch of \<open>n \<ge> 1\<close> elements,
  \<open>Q\<close> track queries of width \<open>e\<close> each, a mask of the same batch size and length), the
  gather-and-pad step of \<^verbatim>\<open>TrackFormer.forward\<close> succeeds, and for every batch element
  \<open>i\<close>: the gathered rows are exactly the rows of \<open>track_queries[i]\<close> at the positions where
  \<open>track_queries_mask[i]\<close> is True, in their original order (\<open>nths\<close> selects the
  subsequence at a set of positions); they are followed by zero rows up to \<open>m\<close>, the largest
  number of True entries of any mask row of the batch; and the rebuilt mask is True on the
  first \<open>num_valid_tracks\<close> positions and False on the padding.
\<close>

theorem gather_pad_correct:
  fixes tq :: "'a::zero tensor3"
  assumes "wf3 tq" "wf2 tm" "dim0 tq = n" "rows tm = n" "0 < n"
    and "dim2 tq = e" "dim1 tq = cols tm"
  defines "valid \<equiv> \<lambda>i. {j. j < cols tm \<and> vals2 tm ! i ! j}"
  defines "m \<equiv> Max ((\<lambda>i. card (valid i)) ` {..<n})"
  shows "\<exists>tq' tm'. pad_track_queries e n tq tm = Inr (tq', tm') \<and>
           dim0 tq' = n \<and> dim1 tq' = m \<and> dim2 tq' = e \<and> rows tm' = n \<and> cols tm' = m \<and>
           length (vals tq') = n \<and> length (vals2 tm') = n \<and>
           (\<forall>i<n. vals tq' ! i =
                      nths (vals tq ! i) (valid i) @
                      replicate (m - card (valid i)) (replicate e 0) \<and>
                   vals2 tm' ! i =
                      replicate (card (valid i)) True @
                      replicate (m - card (valid i)) False)"
proof -
  have m: "batch_max tm = m"
    unfolding m_def valid_def using assms(2,4) by (rule batch_max_card)
  have row: "padded_tracks tq tm i =
               nths (vals tq ! i) (valid i) @ replicate (m - card (valid i)) (replicate e 0) \<and>
             padded_mask tm i =
               replicate (card (valid i)) True @ replicate (m - card (valid i)) False"
    if "i < n" for i
  proof -
    have l2: "length (vals2 tm ! i) = cols tm"
      using assms that by (simp add: wf2_row)
    have l3: "length (vals tq ! i) = length (vals2 tm ! i)"
      using assms that l2 by (simp add: wf3_row)
    have c: "mask_row_sum (vals2 tm ! i) = card (valid i)"
      using l2 by (simp add: mask_row_sum_card valid_def)
    have g: "bool_index (vals tq ! i) (vals2 tm ! i) = nths (vals tq ! i) (valid i)"
      using bool_index_nths [OF l3] l2 by (simp add: valid_def)
    show ?thesis
      using c g m assms(6) by (simp add: padded_tracks_def padded_mask_def)
  qed
  show ?thesis
    unfolding pad_track_queries_Inr [OF assms(1-7)] using m row by simp
qed

text \<open>
  A batch of two elements with masks \<open>[True, False, True]\<close> and \<open>[False, True, False]\<close>:
  element 0 keeps its rows 0 and 2 (never row 1), element 1 keeps its row 1 and gets one
  zero row; the masks become \<open>[True, True]\<close> and \<open>[True, False]\<close>.
\<close>

theorem gather_pad_correct_witness:
  "\<exists>tq' tm'.
     pad_track_queries 2 2
       \<lparr>dim0 = 2, dim1 = 3, dim2 = 2,
          vals = [[[1, 2], [3, 4], [5, 6]], [[7, 8], [9, 10], [11, 12 :: int]]]\<rparr>
       \<lparr>rows = 2, cols = 3, vals2 = [[True, False, True], [False, True, False]]\<rparr>
       = Inr (tq', tm') \<and>
     dim1 tq' = 2 \<and> cols tm' = 2 \<and>
     vals tq' ! 0 = [[1, 2], [5, 6]] \<and> vals tq' ! 1 = [[9, 10], [0, 0]] \<and>
     vals2 tm' ! 0 = [True, True] \<and> vals2 tm' ! 1 = [True, False]"
proof -
  let ?tq = "\<lparr>dim0 = 2, dim1 = 3, dim2 = 2,
          vals = [[[1, 2], [3, 4], [5, 6]], [[7, 8], [9, 10], [11, 12 :: int]]]\<rparr>"
  let ?tm = "\<lparr>rows = 2, cols = 3, vals2 = [[True, False, True], [False, True, False]]\<rparr>"
  have v0: "{j. j < 3 \<and> [True, False, True] ! j} = {0, 2}"
    by (auto simp: nth_Cons' less_Suc_eq numeral_3_eq_3)
  have v1: "{j. j < 3 \<and> [False, True, False] ! j} = {Suc 0}"
    by (auto simp: nth_Cons' less_Suc_eq numeral_3_eq_3)
  have lt2: "{..<2::nat} = {0, Suc 0}" by auto
  have n0: "nths [[1, 2], [3, 4], [5, 6::int]] {0, 2} = [[1, 2], [5, 6]]"
    by (simp add: nths_Cons)
  have n1: "nths [[7, 8], [9, 10], [11, 12 :: int]] {Suc 0} = [[9, 10]]"
    by (simp add: nths_Cons)
  have all2: "(\<forall>i<2. P i) \<longleftrightarrow> P 0 \<and> P (Suc 0)" for P
    by (auto simp: less_Suc_eq numeral_2_eq_2)
  show ?thesis
    using gather_pad_correct [of ?tq ?tm 2 2]
    by (simp add: wf3_def wf2_def v0 v1 lt2 n0 n1 all2) (auto simp: numeral_2_eq_2)
qed

text \<open>
  Claim C10.  If every entry of the supplied mask is True, the gather-and-pad step returns
  a mask of the original length \<open>Q\<close> whose entries are all True: the rebuilt mask is the
  supplied one (and the track queries come back unchanged as well).
\<close>

theorem all_valid_mask_identity:
  fixes tq :: "'a::zero tensor3"
  assumes "wf3 tq" "wf2 tm" "dim0 tq = n" "rows tm = n" "0 < n"
    and "dim2 tq = e" "dim1 tq = cols tm"
    and "list_all (list_all (\<lambda>b. b)) (vals2 tm)"
  shows "\<exists>tq' tm'. pad_track_queries e n tq tm = Inr (tq', tm') \<and>
           cols tm' = dim1 tq \<and> length (vals2 tm') = n \<and>
           list_all (\<lambda>r. length r = dim1 tq \<and> list_all (\<lambda>b. b) r) (vals2 tm') \<and>
           tm' = tm \<and> tq' = tq"
proof -
  have len2: "length (vals2 tm) = n" and len3: "length (vals tq) = n"
    using assms by (simp_all add: wf2_def wf3_def)
  have allT: "list_all (\<lambda>b. b) (vals2 tm ! i)" if "i < n" for i
    using assms(8) that len2 by (simp add: list_all_length)
  have l2: "length (vals2 tm ! i) = cols tm" if "i < n" for i
    using assms that by (simp add: wf2_row)
  have l3: "length (vals tq ! i) = cols tm" if "i < n" for i
    using assms that by (simp add: wf3_row)
  have c: "mask_row_sum (vals2 tm ! i) = cols tm" if "i < n" for i
    using mask_row_sum_all_True [OF allT [OF that]] l2 [OF that] by simp
  have "(\<lambda>i. mask_row_sum (vals2 tm ! i)) ` {..<n} = (\<lambda>i. cols tm) ` {..<n}"
    by (rule image_cong) (simp_all add: c)
  then have "set (map mask_row_sum (vals2 tm)) = {cols tm}"
    using len2 assms(5) by (auto simp add: image_set_nth)
  then have m: "batch_max tm = cols tm" by (simp add: batch_max_def)
  have pm: "padded_mask tm i = vals2 tm ! i" if "i < n" for i
  proof -
    have "vals2 tm ! i = replicate (cols tm) True"
      using allT [OF that] l2 [OF that]
      by (auto simp: list_eq_iff_nth_eq list_all_length)
    then show ?thesis using c [OF that] m by (simp add: padded_mask_def)
  qed
  have pt: "padded_tracks tq tm i = vals tq ! i" if "i < n" for i
    using bool_index_all_True [of "vals tq ! i" "vals2 tm ! i"] allT [OF that]
      l2 [OF that] l3 [OF that] c [OF that] m
    by (simp add: padded_tracks_def)
  have v2: "map (padded_mask tm) [0..<n] = vals2 tm"
    using pm len2 by (simp add: list_eq_iff_nth_eq)
  have v3: "map (padded_tracks tq tm) [0..<n] = vals tq"
    using pt len3 by (simp add: list_eq_iff_nth_eq)
  have wfr: "list_all (\<lambda>r. length r = cols tm \<and> list_all (\<lambda>b. b) r) (vals2 tm)"
    using allT l2 len2 by (simp add: list_all_length)
  show ?thesis
    unfolding pad_track_queries_Inr [OF assms(1-7)] v2 v3 m
    using assms len2 wfr by simp
qed

text \<open>One batch element with two track queries, both valid.\<close>

theorem all_valid_mask_identity_witness:
  "pad_track_queries 2 1
     \<lparr>dim0 = 1, dim1 = 2, dim2 = 2, vals = [[[1, 2], [3, 4 :: int]]]\<rparr>
     \<lparr>rows = 1, cols = 2, vals2 = [[True, True]]\<rparr>
   = Inr (\<lparr>dim0 = 1, dim1 = 2, dim2 = 2, vals = [[[1, 2], [3, 4]]]\<rparr>,
          \<lparr>rows = 1, cols = 2, vals2 = [[True, True]]\<rparr>)"
  using all_valid_mask_identity
    [of "\<lparr>dim0 = 1, dim1 = 2, dim2 = 2, vals = [[[1, 2], [3, 4 :: int]]]\<rparr>"
        "\<lparr>rows = 1, cols = 2, vals2 = [[True, True]]\<rparr>" 1 2]
  by (simp add: wf3_def wf2_def)

section \<open>Properties of the mode pooling\<close>

lemma wf4_plane:
  "wf4 t \<Longrightarrow> n < dim4_0 t \<Longrightarrow> a < dim4_1 t \<Longrightarrow> length (vals4 t ! n ! a) = dim4_2 t"
  by (simp add: wf4_def list_all_length)

lemma wf4_chan: "wf4 t \<Longrightarrow> n < dim4_0 t \<Longrightarrow> length (vals4 t ! n) = dim4_1 t"
  by (simp add: wf4_def list_all_length)

lemma window_column: "window plane kh (Suc 0) i j = map (\<lambda>di. plane ! (i + di) ! j) [0..<kh]"
  by (simp add: window_def)

lemma fold_max_Max: "w \<noteq> [] \<Longrightarrow> fold max (tl w) (hd w) = Max (set w)"
proof -
  assume "w \<noteq> []"
  then have w: "w = hd w # tl w" by simp
  have "Max (set (hd w # tl w)) = fold max (tl w) (hd w)"
    by (rule Max.set_eq_fold)
  with w show ?thesis by simp
qed

lemma window_max_column:
  assumes "0 < kh"
  shows "window_max plane kh (Suc 0) 0 j = Max ((\<lambda>m. plane ! m ! j) ` {..<kh})"
proof -
  have ne: "window plane kh (Suc 0) 0 j \<noteq> []"
    using assms by (simp add: window_column)
  have "set (window plane kh (Suc 0) 0 j) = (\<lambda>m. plane ! m ! j) ` {..<kh}"
    by (simp add: window_column atLeast0LessThan)
  with fold_max_Max [OF ne] show ?thesis
    by (simp add: window_max_def Let_def)
qed

text \<open>
  Claim C9.  For motion queries of shape \<open>(batch, agents, num_modes, embed_dim)\<close> (the mode count
  is the configured \<open>num_modes\<close>, as the assertion of line 236 demands), the pooling step
  returns a tensor of shape \<open>(batch, agents, embed_dim)\<close> whose entry for batch element \<open>b\<close>,
  agent \<open>a\<close> and channel \<open>c\<close> is the maximum over all \<open>num_modes\<close> modes of that channel's
  values.
\<close>

theorem mode_pool_is_max_over_modes:
  fixes motion_queries :: "'a::linorder tensor4"
  assumes "wf4 motion_queries"
    and "dim4_0 motion_queries = n" "dim4_1 motion_queries = agents"
    and "dim4_2 motion_queries = k" "dim4_3 motion_queries = e"
    and "0 < agents" "0 < k" "0 < e"
  shows "\<exists>x_queries. mode_pool k motion_queries = Inr x_queries \<and>
           dim0 x_queries = n \<and> dim1 x_queries = agents \<and> dim2 x_queries = e \<and>
           wf3 x_queries \<and>
           (\<forall>b<n. \<forall>a<agents. \<forall>c<e.
              vals x_queries ! b ! a ! c =
                Max ((\<lambda>m. vals4 motion_queries ! b ! a ! m ! c) ` {..<k}))"
proof -
  let ?pool = "\<lambda>plane. map (\<lambda>j. window_max plane k 1 0 j) [0..<e]"
  let ?x = "\<lparr>dim0 = n, dim1 = agents, dim2 = e,
             vals = map (map ?pool) (vals4 motion_queries)\<rparr>"
  have plane: "max_pool_plane k (Suc 0) k e p ! 0 = ?pool p"
    for p :: "'a list list"
    using assms(7,8) by (simp add: max_pool_plane_def del: upt_Suc)
  have eq: "mode_pool k motion_queries = Inr ?x"
    using assms by (simp add: mode_pool_def MaxPool2d_def select_row0_def plane comp_def)
  have len: "length (vals4 motion_queries) = n"
    using assms by (simp add: wf4_def)
  have wf: "wf3 ?x"
    using assms by (simp add: wf3_def wf4_def list_all_length)
  have cell: "vals ?x ! b ! a ! c =
                Max ((\<lambda>m. vals4 motion_queries ! b ! a ! m ! c) ` {..<k})"
    if "b < n" "a < agents" "c < e" for b a c
    using that assms len wf4_chan [of motion_queries b]
    by (simp add: window_max_column)
  show ?thesis
    using eq wf cell by (intro exI [of _ ?x]) simp
qed

text \<open>One agent with three modes \<open>[1, 9]\<close>, \<open>[7, 2]\<close>, \<open>[4, 5]\<close>: the pooled vector is \<open>[7, 9]\<close>.\<close>

theorem mode_pool_is_max_over_modes_witness:
  "\<exists>x. mode_pool 3 \<lparr>dim4_0 = 1, dim4_1 = 1, dim4_2 = 3, dim4_3 = 2,
                      vals4 = [[[[1, 9], [7, 2], [4, 5 :: int]]]]\<rparr> = Inr x \<and>
       vals x = [[[7, 9]]]"
proof -
  let ?mq = "\<lparr>dim4_0 = 1, dim4_1 = 1, dim4_2 = 3, dim4_3 = 2,
               vals4 = [[[[1, 9], [7, 2], [4, 5 :: int]]]]\<rparr>"
  have lt3: "{..<3::nat} = {0, 1, 2}" by auto
  have lt2: "(\<forall>c<2. P c) \<longleftrightarrow> P 0 \<and> P (Suc 0)" for P
    by (auto simp: less_Suc_eq numeral_2_eq_2)
  from mode_pool_is_max_over_modes [of ?mq 1 1 3 2]
  obtain x where x: "mode_pool 3 ?mq = Inr x" "wf3 x" "dim0 x = 1" "dim1 x = 1" "dim2 x = 2"
    "vals x ! 0 ! 0 ! 0 = 7" "vals x ! 0 ! 0 ! Suc 0 = 9"
    by (auto simp: wf4_def lt3 lt2)
  from x(2-5) have "length (vals x) = 1" "length (vals x ! 0) = 1" "length (vals x ! 0 ! 0) = 2"
    by (simp_all add: wf3_def list_all_length)
  with x(6,7) have "vals x = [[[7, 9]]]"
    by (simp add: list_eq_iff_nth_eq less_Suc_eq numeral_2_eq_2)
  with x(1) show ?thesis by blast
qed

section \<open>Properties of the decoder layer\<close>

lemma bdim_same [simp]: "bdim a a = Inr a"
  by (simp add: bdim_def)

lemma bzip_same_length: "length xs = length ys \<Longrightarrow> bzip f xs ys = map2 f xs ys"
  by (simp add: bzip_def)

lemma tensor_add_same_shape:
  assumes "wf3 a" "wf3 b" "dim0 b = dim0 a" "dim1 b = dim1 a" "dim2 b = dim2 a"
  shows "\<exists>s. tensor_add a b = Inr s \<and> wf3 s \<and>
           dim0 s = dim0 a \<and> dim1 s = dim1 a \<and> dim2 s = dim2 a \<and>
           (\<forall>n<dim0 a. \<forall>j<dim1 a. vals s ! n ! j = map2 (+) (vals a ! n ! j) (vals b ! n ! j))"
proof -
  let ?v = "bzip (bzip (bzip (+))) (vals a) (vals b)"
  have la: "length (vals a) = dim0 a" and lb: "length (vals b) = dim0 a"
    using assms by (simp_all add: wf3_def)
  have ra: "length (vals a ! n) = dim1 a" and rb: "length (vals b ! n) = dim1 a"
    if "n < dim0 a" for n
    using assms that by (simp_all add: wf3_row)
  have ca: "length (vals a ! n ! j) = dim2 a" and cb: "length (vals b ! n ! j) = dim2 a"
    if "n < dim0 a" "j < dim1 a" for n j
    using assms that by (simp_all add: wf3_cell)
  have lv: "length ?v = dim0 a"
    using la lb by (simp add: bzip_same_length)
  have vn: "?v ! n = map2 (bzip (+)) (vals a ! n) (vals b ! n)" if "n < dim0 a" for n
    using that la lb ra rb by (simp add: bzip_same_length)
  have vnj: "?v ! n ! j = map2 (+) (vals a ! n ! j) (vals b ! n ! j)"
    if "n < dim0 a" "j < dim1 a" for n j
    using that vn ra rb ca cb by (simp add: bzip_same_length)
  have wf: "wf3 \<lparr>dim0 = dim0 a, dim1 = dim1 a, dim2 = dim2 a, vals = ?v\<rparr>"
    using lv vn vnj ra rb ca cb by (simp add: wf3_def list_all_length)
  show ?thesis
    using assms(3-5) wf vnj by (simp add: tensor_add_def)
qed


lemma wf3I:
  assumes "length (vals t) = dim0 t"
    and "\<And>n. n < dim0 t \<Longrightarrow> length (vals t ! n) = dim1 t"
    and "\<And>n j. n < dim0 t \<Longrightarrow> j < dim1 t \<Longrightarrow> length (vals t ! n ! j) = dim2 t"
  shows "wf3 t"
  using assms by (simp add: wf3_def list_all_length)

lemma wf3_drop_dim1: "wf3 x \<Longrightarrow> wf3 (drop_dim1 k x)"
  by (simp add: wf3_def drop_dim1_def list_all_length)

lemma wf3_take_dim1: "wf3 x \<Longrightarrow> wf3 (take_dim1 k x)"
  by (simp add: wf3_def take_dim1_def list_all_length min.commute)

lemma reinject_trailing:
  fixes x :: "'a::plus tensor3"
  assumes "wf3 x" "wf3 og" "dim0 og = dim0 x" "dim2 og = dim2 x" "dim1 og \<le> dim1 x"
  defines "k \<equiv> dim1 x - dim1 og"
  shows "\<exists>y. reinject (int (dim1 x) - int (dim1 og)) x og = Inr y \<and> wf3 y \<and>
           dim0 y = dim0 x \<and> dim1 y = dim1 x \<and> dim2 y = dim2 x \<and>
           (\<forall>n<dim0 x. \<forall>j<dim1 x.
              vals y ! n ! j =
                (if j < k then vals x ! n ! j
                 else map2 (+) (vals x ! n ! j) (vals og ! n ! (j - k))))"
proof (cases "0 < k")
  case False
  then have eq: "dim1 og = dim1 x" and k0: "k = 0"
    using assms(5) by (simp_all add: k_def)
  from tensor_add_same_shape [OF assms(1,2,3) eq assms(4)]
  show ?thesis using eq k0 by (simp add: reinject_def)
next
  case True
  let ?d = "drop_dim1 k x" and ?t = "take_dim1 k x"
  have nt: "int (dim1 x) - int (dim1 og) = int k" "nat (int k) = k"
    using assms(5) by (simp_all add: k_def)
  have dd: "dim0 ?d = dim0 x" "dim1 ?d = dim1 og" "dim2 ?d = dim2 x"
    using assms(5) by (simp_all add: drop_dim1_def k_def)
  have "\<exists>s. tensor_add ?d og = Inr s \<and> wf3 s \<and>
           dim0 s = dim0 ?d \<and> dim1 s = dim1 ?d \<and> dim2 s = dim2 ?d \<and>
           (\<forall>n<dim0 ?d. \<forall>j<dim1 ?d. vals s ! n ! j = map2 (+) (vals ?d ! n ! j) (vals og ! n ! j))"
    by (rule tensor_add_same_shape) (use assms dd in \<open>simp_all add: wf3_drop_dim1\<close>)
  then obtain s where s: "tensor_add ?d og = Inr s" "wf3 s"
    "dim0 s = dim0 x" "dim1 s = dim1 og" "dim2 s = dim2 x"
    and sv: "\<And>n j. n < dim0 x \<Longrightarrow> j < dim1 og \<Longrightarrow>
               vals s ! n ! j = map2 (+) (vals ?d ! n ! j) (vals og ! n ! j)"
    using dd by auto
  let ?y = "\<lparr>dim0 = dim0 x, dim1 = k + dim1 og, dim2 = dim2 x,
             vals = map2 (@) (vals ?t) (vals s)\<rparr>"
  have lx: "length (vals x) = dim0 x" and ls: "length (vals s) = dim0 x"
    using assms(1) s by (simp_all add: wf3_def)
  have kle: "k \<le> dim1 x" by (simp add: k_def)
  have y: "reinject (int (dim1 x) - int (dim1 og)) x og = Inr ?y"
    using True s kle by (simp add: reinject_def nt concat_dim1_def take_dim1_def min_def)
  have row: "vals ?y ! n = take k (vals x ! n) @ vals s ! n" if "n < dim0 x" for n
    using that lx ls by (simp add: take_dim1_def)
  have lrow: "length (vals x ! n) = dim1 x" "length (vals s ! n) = dim1 og" if "n < dim0 x" for n
    using that assms(1) s by (simp_all add: wf3_row)
  have cell: "vals ?y ! n ! j =
                (if j < k then vals x ! n ! j
                 else map2 (+) (vals x ! n ! j) (vals og ! n ! (j - k)))"
    if "n < dim0 x" "j < dim1 x" for n j
  proof (cases "j < k")
    case True
    then show ?thesis using that row lrow kle by (simp add: nth_append)
  next
    case False
    then have jk: "j - k < dim1 og" using that assms(5) by (simp add: k_def)
    have "vals ?y ! n ! j = vals s ! n ! (j - k)"
      using False that row lrow kle by (simp add: nth_append min_def)
    also have "\<dots> = map2 (+) (vals ?d ! n ! (j - k)) (vals og ! n ! (j - k))"
      using sv that jk by simp
    also have "vals ?d ! n ! (j - k) = vals x ! n ! j"
      using False that lx lrow by (simp add: drop_dim1_def)
    finally show ?thesis using False by simp
  qed
  have q: "k + dim1 og = dim1 x" using assms(5) by (simp add: k_def)
  have wfy: "wf3 ?y"
  proof (rule wf3I)
    show "length (vals ?y) = dim0 ?y" using lx ls by (simp add: take_dim1_def)
  next
    fix n assume "n < dim0 ?y"
    then have n: "n < dim0 x" by simp
    show "length (vals ?y ! n) = dim1 ?y"
      using row [OF n] lrow [OF n] kle by (simp add: min_def)
  next
    fix n j assume "n < dim0 ?y" "j < dim1 ?y"
    then have n: "n < dim0 x" and j: "j < dim1 x" using q by simp_all
    have "length (vals x ! n ! j) = dim2 x"
      using assms(1) n j by (simp add: wf3_cell)
    moreover have "\<not> j < k \<Longrightarrow> length (vals og ! n ! (j - k)) = dim2 x"
      using assms(2-5) n j by (simp add: wf3_cell k_def)
    ultimately show "length (vals ?y ! n ! j) = dim2 ?y"
      unfolding cell [OF n j] by simp
  qed
  show ?thesis
    using y wfy cell q by (intro exI [of _ ?y]) simp
qed


lemma tensor3_eqI:
  fixes a b :: "'a tensor3"
  assumes "wf3 a" "wf3 b" "dim0 a = dim0 b" "dim1 a = dim1 b" "dim2 a = dim2 b"
    and "\<And>n j. n < dim0 b \<Longrightarrow> j < dim1 b \<Longrightarrow> vals a ! n ! j = vals b ! n ! j"
  shows "a = b"
proof -
  have "vals a = vals b"
  proof (rule nth_equalityI)
    show "length (vals a) = length (vals b)"
      using assms by (simp add: wf3_def)
  next
    fix n assume "n < length (vals a)"
    then have n: "n < dim0 b" using assms by (simp add: wf3_def)
    show "vals a ! n = vals b ! n"
    proof (rule nth_equalityI)
      show "length (vals a ! n) = length (vals b ! n)"
        using assms n by (simp add: wf3_row)
    next
      fix j assume "j < length (vals a ! n)"
      then have "j < dim1 b" using assms n by (simp add: wf3_row)
      then show "vals a ! n ! j = vals b ! n ! j" using assms(6) n by simp
    qed
  qed
  with assms(3-5) show ?thesis by simp
qed

text \<open>
  Claim C4.  On a call of \<^verbatim>\<open>TrackFormerDecoderLayer.forward\<close> whose assertions pass, with
  \<open>num_detections\<close> detection queries among the \<open>num_queries\<close> queries, and with a first
  normalisation block that keeps the shape of its residual input, the layer computes
  \<open>addnorm3 out4 (mlp out4)\<close> where the detection queries enter exactly twice: in
  \<open>q_and_k\<close>, the query and key operand of the self-attention, and in \<open>aug_out2\<close>, the
  query operand of the deformable attention.  Each of the two is a new tensor of the shape
  of the tensor it is built from (\<open>queries\<close>, resp. \<open>out2\<close>), equal to it on the leading
  \<open>num_tracks\<close> positions and equal to its sum with the detection queries on the trailing
  \<open>num_detections\<close> positions.  The tensors the re-injection was built from are not
  changed by it: the value operand of the self-attention and the residual operand of
  \<open>addnorm1\<close> are \<open>queries\<close> itself, and the residual operand of \<open>addnorm2\<close> is \<open>out2\<close>
  itself.
\<close>

theorem decoder_layer_reinjection:
  fixes self :: "('a::plus, 'r) TrackFormerDecoderLayer"
  assumes "wf3 queries" "wf3 og_det_queries"
    and "dim0 og_det_queries = dim0 queries" "dim2 og_det_queries = dim2 queries"
    and "dim1 og_det_queries \<le> dim1 queries"
    and "dim1 bev_features = fst (bev_feature_shape_l self) * snd (bev_feature_shape_l self)"
    and "dim2 bev_features = dim2 queries" "dim2 queries = embed_dim_l self"
    and "\<And>x y. wf3 x \<Longrightarrow>
           wf3 (addnorm1 self x y) \<and> dim0 (addnorm1 self x y) = dim0 x \<and>
           dim1 (addnorm1 self x y) = dim1 x \<and> dim2 (addnorm1 self x y) = dim2 x"
  defines "num_tracks \<equiv> dim1 queries - dim1 og_det_queries"
  defines "injected \<equiv> \<lambda>x y.
             wf3 y \<and> dim0 y = dim0 x \<and> dim1 y = dim1 x \<and> dim2 y = dim2 x \<and>
             (\<forall>n<dim0 x. \<forall>j<dim1 x.
                vals y ! n ! j =
                  (if j < num_tracks then vals x ! n ! j
                   else map2 (+) (vals x ! n ! j) (vals og_det_queries ! n ! (j - num_tracks))))"
  shows "\<exists>q_and_k out1 out2 aug_out2 out3 out4.
           TrackFormerDecoderLayer_forward self queries bev_features ref_points og_det_queries
             padding_mask = Inr (addnorm3 self out4 (mlp self out4)) \<and>
           out4 = addnorm2 self out2 out3 \<and>
           out3 = deform_attention self aug_out2 ref_points bev_features
                    [[fst (bev_feature_shape_l self), snd (bev_feature_shape_l self)]]
                    (unsqueeze_last padding_mask) \<and>
           injected out2 aug_out2 \<and>
           out2 = addnorm1 self queries out1 \<and>
           out1 = self_attention self q_and_k q_and_k queries padding_mask \<and>
           injected queries q_and_k"
proof -
  let ?nt = "int (dim1 queries) - int (dim1 og_det_queries)"
  from reinject_trailing [OF assms(1-5)]
  obtain q_and_k where qk: "reinject ?nt queries og_det_queries = Inr q_and_k"
    and iqk: "injected queries q_and_k"
    unfolding injected_def num_tracks_def by blast
  define out1 where "out1 = self_attention self q_and_k q_and_k queries padding_mask"
  define out2 where "out2 = addnorm1 self queries out1"
  have o2: "wf3 out2" "dim0 out2 = dim0 queries" "dim1 out2 = dim1 queries"
    "dim2 out2 = dim2 queries"
    using assms(9) [OF assms(1)] by (simp_all add: out2_def)
  have "\<exists>y. reinject (int (dim1 out2) - int (dim1 og_det_queries)) out2 og_det_queries = Inr y \<and>
          wf3 y \<and> dim0 y = dim0 out2 \<and> dim1 y = dim1 out2 \<and> dim2 y = dim2 out2 \<and>
          (\<forall>n<dim0 out2. \<forall>j<dim1 out2.
             vals y ! n ! j =
               (if j < dim1 out2 - dim1 og_det_queries then vals out2 ! n ! j
                else map2 (+) (vals out2 ! n ! j)
                       (vals og_det_queries ! n ! (j - (dim1 out2 - dim1 og_det_queries)))))"
    by (rule reinject_trailing) (use assms(2-5) o2 in simp_all)
  then obtain aug_out2 where aug: "reinject ?nt out2 og_det_queries = Inr aug_out2"
    and iaug: "injected out2 aug_out2"
    unfolding injected_def num_tracks_def o2 by blast
  have "TrackFormerDecoderLayer_forward self queries bev_features ref_points og_det_queries
          padding_mask =
        Inr (let out3 = deform_attention self aug_out2 ref_points bev_features
                    [[fst (bev_feature_shape_l self), snd (bev_feature_shape_l self)]]
                    (unsqueeze_last padding_mask);
                 out4 = addnorm2 self out2 out3
             in addnorm3 self out4 (mlp self out4))"
    using assms(6-8) qk aug
    by (simp add: TrackFormerDecoderLayer_forward_def Let_def split_beta out1_def out2_def)
  then show ?thesis
    using iqk iaug out1_def out2_def by (auto simp: Let_def)
qed


text \<open>
  One track query \<open>[1]\<close> followed by two detection slots \<open>[2]\<close>, \<open>[3]\<close>, detection queries
  \<open>[10]\<close>, \<open>[20]\<close>, and blocks that pass their first operand on (\<open>addnorm2\<close> its second):
  the layer returns \<open>aug_out2\<close>, whose track position is untouched.
\<close>

theorem decoder_layer_reinjection_witness:
  "TrackFormerDecoderLayer_forward
     \<lparr>embed_dim_l = 1, bev_feature_shape_l = (1, 1),
        self_attention = (\<lambda>q k v m. q), addnorm1 = (\<lambda>x y. x),
        deform_attention = (\<lambda>q r b s m. q), addnorm2 = (\<lambda>x y. y),
        mlp = (\<lambda>x. x), addnorm3 = (\<lambda>x y. x)\<rparr>
     \<lparr>dim0 = 1, dim1 = 3, dim2 = 1, vals = [[[1], [2], [3 :: int]]]\<rparr>
     \<lparr>dim0 = 1, dim1 = 1, dim2 = 1, vals = [[[0]]]\<rparr>
     ()
     \<lparr>dim0 = 1, dim1 = 2, dim2 = 1, vals = [[[10], [20]]]\<rparr>
     \<lparr>rows = 1, cols = 3, vals2 = [[True, True, True]]\<rparr>
   = Inr \<lparr>dim0 = 1, dim1 = 3, dim2 = 1, vals = [[[1], [12], [23]]]\<rparr>"
proof -
  let ?L = "\<lparr>embed_dim_l = 1, bev_feature_shape_l = (1, 1),
        self_attention = (\<lambda>q k v m. q), addnorm1 = (\<lambda>x y. x),
        deform_attention = (\<lambda>q r b s m. q), addnorm2 = (\<lambda>x y. y),
        mlp = (\<lambda>x. x), addnorm3 = (\<lambda>x y. x)\<rparr>
        :: (int, unit) TrackFormerDecoderLayer"
  let ?q = "\<lparr>dim0 = 1, dim1 = 3, dim2 = 1, vals = [[[1], [2], [3 :: int]]]\<rparr>"
  let ?bev = "\<lparr>dim0 = 1, dim1 = 1, dim2 = 1, vals = [[[0 :: int]]]\<rparr>"
  let ?og = "\<lparr>dim0 = 1, dim1 = 2, dim2 = 1, vals = [[[10], [20 :: int]]]\<rparr>"
  let ?pm = "\<lparr>rows = 1, cols = 3, vals2 = [[True, True, True]]\<rparr>"
  let ?r = "\<lparr>dim0 = 1, dim1 = 3, dim2 = 1, vals = [[[1], [12], [23 :: int]]]\<rparr>"
  have lt3: "(\<forall>j<3. P j) \<longleftrightarrow> P 0 \<and> P (Suc 0) \<and> P (Suc (Suc 0))" for P
    by (auto simp: less_Suc_eq numeral_3_eq_3)
  from decoder_layer_reinjection [of ?q ?og ?bev ?L "()" ?pm]
  obtain aug where f: "TrackFormerDecoderLayer_forward ?L ?q ?bev () ?og ?pm = Inr aug"
    and wf: "wf3 aug" and d: "dim0 aug = 1" "dim1 aug = 3" "dim2 aug = 1"
    and c: "vals aug ! 0 ! 0 = [1]" "vals aug ! 0 ! Suc 0 = [12]"
      "vals aug ! 0 ! Suc (Suc 0) = [23]"
    by (auto simp: wf3_def lt3)
  have "aug = ?r"
    by (rule tensor3_eqI) (use wf d c in \<open>auto simp: wf3_def less_Suc_eq numeral_3_eq_3\<close>)
  with f show ?thesis by simp
qed

section \<open>Properties of TrackFormer.forward\<close>

lemma wf2I:
  assumes "length (vals2 t) = rows t" and "\<And>n. n < rows t \<Longrightarrow> length (vals2 t ! n) = cols t"
  shows "wf2 t"
  using assms by (simp add: wf2_def list_all_length)

lemma set_bool_index: "set (bool_index xs bs) \<subseteq> set xs"
  by (induction xs bs rule: bool_index.induct) auto

lemma padded_tracks_row:
  assumes "wf3 tq" "wf2 tm" "dim0 tq = rows tm" "dim1 tq = cols tm" "i < rows tm"
  shows "length (padded_tracks tq tm i) = batch_max tm"
    and "\<forall>v \<in> set (padded_tracks tq tm i). length v = dim2 tq"
proof -
  have len: "length (vals tq ! i) = length (vals2 tm ! i)"
    using assms by (simp add: wf3_row wf2_row)
  have le: "mask_row_sum (vals2 tm ! i) \<le> batch_max tm"
    using assms by (simp add: row_sum_le_batch_max)
  show "length (padded_tracks tq tm i) = batch_max tm"
    using le length_bool_index [OF len] by (simp add: padded_tracks_def)
  have "vals tq ! i \<in> set (vals tq)"
    using assms by (simp add: wf3_def)
  then have "\<forall>v \<in> set (vals tq ! i). length v = dim2 tq"
    using assms(1) by (simp add: wf3_def list_all_iff)
  then have "\<forall>v \<in> set (bool_index (vals tq ! i) (vals2 tm ! i)). length v = dim2 tq"
    using set_bool_index [of "vals tq ! i" "vals2 tm ! i"] by auto
  then show "\<forall>v \<in> set (padded_tracks tq tm i). length v = dim2 tq"
    by (auto simp: padded_tracks_def)
qed

lemma padded_mask_length:
  assumes "wf2 tm" "i < rows tm"
  shows "length (padded_mask tm i) = batch_max tm"
  using row_sum_le_batch_max [OF assms] by (simp add: padded_mask_def)

lemma pad_track_queries_wf:
  assumes "wf3 tq" "wf2 tm" "dim0 tq = n" "rows tm = n" "0 < n"
    and "dim2 tq = e" "dim1 tq = cols tm"
  shows "\<exists>tq' tm'. pad_track_queries e n tq tm = Inr (tq', tm') \<and> wf3 tq' \<and> wf2 tm' \<and>
           dim0 tq' = n \<and> dim1 tq' = batch_max tm \<and> dim2 tq' = e \<and>
           rows tm' = n \<and> cols tm' = batch_max tm"
proof -
  let ?tq = "\<lparr>dim0 = n, dim1 = batch_max tm, dim2 = e,
               vals = map (padded_tracks tq tm) [0..<n]\<rparr>"
  let ?tm = "\<lparr>rows = n, cols = batch_max tm, vals2 = map (padded_mask tm) [0..<n]\<rparr>"
  have a: "wf3 ?tq"
  proof (rule wf3I)
    show "length (vals ?tq) = dim0 ?tq" by simp
  next
    fix i assume "i < dim0 ?tq"
    then show "length (vals ?tq ! i) = dim1 ?tq"
      using assms by (simp add: padded_tracks_row)
  next
    fix i j assume "i < dim0 ?tq" "j < dim1 ?tq"
    then have i: "i < rows tm" and j: "j < length (padded_tracks tq tm i)"
      using assms by (simp_all add: padded_tracks_row)
    have "\<forall>v \<in> set (padded_tracks tq tm i). length v = dim2 tq"
      using assms i by (intro padded_tracks_row) simp_all
    then show "length (vals ?tq ! i ! j) = dim2 ?tq"
      using i j assms by simp
  qed
  have b: "wf2 ?tm"
    by (rule wf2I) (use assms in \<open>simp_all add: padded_mask_length\<close>)
  show ?thesis
    unfolding pad_track_queries_Inr [OF assms] using a b by simp
qed

lemma wf3_PosEmbedding1D_call: "wf3 (PosEmbedding1D_call pe)"
  by (simp add: wf3_def PosEmbedding1D_call_def list_all_length)

lemma wf3_tile_batch: "wf3 t \<Longrightarrow> wf3 (tile_batch n t)"
proof (induction n)
  case 0
  then show ?case by (simp add: wf3_def tile_batch_def)
next
  case (Suc n)
  then show ?case by (simp add: wf3_def tile_batch_def)
qed

lemma wf2_ones_mask: "wf2 (ones_mask n d)"
  by (simp add: wf2_def ones_mask_def list_all_length)

lemma concat_dim1_wf:
  assumes "wf3 a" "wf3 b" "dim0 a = dim0 b" "dim2 a = dim2 b"
  shows "\<exists>c. concat_dim1 a b = Inr c \<and> wf3 c \<and> dim0 c = dim0 a \<and>
           dim1 c = dim1 a + dim1 b \<and> dim2 c = dim2 a"
proof -
  let ?c = "\<lparr>dim0 = dim0 a, dim1 = dim1 a + dim1 b, dim2 = dim2 a,
              vals = map2 (@) (vals a) (vals b)\<rparr>"
  have la: "length (vals a) = dim0 a" and lb: "length (vals b) = dim0 a"
    using assms by (simp_all add: wf3_def)
  have "wf3 ?c"
  proof (rule wf3I)
    show "length (vals ?c) = dim0 ?c" using la lb by simp
  next
    fix n assume "n < dim0 ?c"
    then show "length (vals ?c ! n) = dim1 ?c"
      using assms la lb by (simp add: wf3_row)
  next
    fix n j assume "n < dim0 ?c" "j < dim1 ?c"
    then show "length (vals ?c ! n ! j) = dim2 ?c"
      using assms la lb by (simp add: wf3_row wf3_cell nth_append)
  qed
  then show ?thesis using assms by (simp add: concat_dim1_def)
qed

lemma concat_dim1_mask_wf:
  assumes "wf2 a" "wf2 b" "rows a = rows b"
  shows "\<exists>c. concat_dim1_mask a b = Inr c \<and> wf2 c \<and> rows c = rows a \<and>
           cols c = cols a + cols b"
proof -
  let ?c = "\<lparr>rows = rows a, cols = cols a + cols b, vals2 = map2 (@) (vals2 a) (vals2 b)\<rparr>"
  have "wf2 ?c"
    by (rule wf2I) (use assms in \<open>simp_all add: wf2_def list_all_length\<close>)
  then show ?thesis using assms by (simp add: concat_dim1_mask_def)
qed


lemma dims_detection_queries:
  "dim0 (tile_batch n (PosEmbedding1D_call (PosEmbedding1D_init d e wt))) = n"
  "dim1 (tile_batch n (PosEmbedding1D_call (PosEmbedding1D_init d e wt))) = d"
  "dim2 (tile_batch n (PosEmbedding1D_call (PosEmbedding1D_init d e wt))) = e"
  by (simp_all add: tile_batch_def PosEmbedding1D_call_def PosEmbedding1D_init_def)

lemma ref_points_count:
  "length (unsqueeze_points (generate_standard_ref_points grid hw n q)) = n"
  "list_all (\<lambda>ps. length ps = q) (unsqueeze_points (generate_standard_ref_points grid hw n q))"
  by (simp_all add: unsqueeze_points_def generate_standard_ref_points_def list_all_length)

text \<open>
  Claim C2.  For a TrackFormer built by \<^verbatim>\<open>__init__\<close> (embedding width \<open>e\<close>, \<open>d\<close>
  detection slots) and BEV features of channel width \<open>e\<close>: without track queries the
  working query set and its padding mask have length \<open>d = max_detections\<close>; with track
  queries and a mask supplied (well-formed, of the batch size of the BEV features, which is
  at least 1) they have length \<open>m + d\<close>, where \<open>m\<close> is the largest number of True entries of
  any mask row of the batch.  In both cases one list of reference points is generated for
  each batch element, and the number of its points is the length of the query set.
\<close>

theorem query_set_length:
  fixes w :: "('a::zero, 'p) TrackFormer_weights" and tq bev :: "'a tensor3"
    and tm :: "bool tensor2" and e d :: nat and l :: int and hw :: "nat \<times> nat"
  defines "self \<equiv> TrackFormer_init e l d hw w"
  defines "m \<equiv> Max ((\<lambda>i. card {j. j < cols tm \<and> vals2 tm ! i ! j}) ` {..<dim0 bev})"
  assumes "dim2 bev = e"
  shows "(\<exists>queries padding_mask dq ref_points.
            TrackFormer_queries grid self bev None tmo = Inr (queries, padding_mask, dq, ref_points) \<and>
            wf3 queries \<and> wf2 padding_mask \<and>
            dim0 queries = dim0 bev \<and> rows padding_mask = dim0 bev \<and>
            dim1 queries = d \<and> cols padding_mask = d \<and>
            length ref_points = dim0 bev \<and>
            list_all (\<lambda>ps. length ps = dim1 queries) ref_points) \<and>
         (wf3 tq \<and> wf2 tm \<and> dim0 tq = dim0 bev \<and> rows tm = dim0 bev \<and> 0 < dim0 bev \<and>
          dim2 tq = e \<and> dim1 tq = cols tm \<longrightarrow>
          (\<exists>queries padding_mask dq ref_points.
            TrackFormer_queries grid self bev (Some tq) (Some tm) =
              Inr (queries, padding_mask, dq, ref_points) \<and>
            wf3 queries \<and> wf2 padding_mask \<and>
            dim0 queries = dim0 bev \<and> rows padding_mask = dim0 bev \<and>
            dim1 queries = m + d \<and> cols padding_mask = m + d \<and>
            length ref_points = dim0 bev \<and>
            list_all (\<lambda>ps. length ps = dim1 queries) ref_points))"
proof (intro conjI impI)
  let ?n = "dim0 bev"
  let ?dq = "tile_batch ?n (PosEmbedding1D_call (PosEmbedding1D_init d e (w_pos_emb w)))"
  have wfdq: "wf3 ?dq"
    by (intro wf3_tile_batch wf3_PosEmbedding1D_call)
  have self: "embed_dim self = e" "bev_feature_shape self = hw"
    "detection_pos_emb self = PosEmbedding1D_init d e (w_pos_emb w)"
    by (simp_all add: self_def TrackFormer_init_def)
  show "\<exists>queries padding_mask dq ref_points.
            TrackFormer_queries grid self bev None tmo = Inr (queries, padding_mask, dq, ref_points) \<and>
            wf3 queries \<and> wf2 padding_mask \<and>
            dim0 queries = dim0 bev \<and> rows padding_mask = dim0 bev \<and>
            dim1 queries = d \<and> cols padding_mask = d \<and>
            length ref_points = dim0 bev \<and>
            list_all (\<lambda>ps. length ps = dim1 queries) ref_points"
    using assms(3) wfdq
    by (simp add: TrackFormer_queries_def self Let_def dims_detection_queries
        wf2_ones_mask ref_points_count) (simp add: ones_mask_def)
next
  let ?n = "dim0 bev"
  let ?dq = "tile_batch ?n (PosEmbedding1D_call (PosEmbedding1D_init d e (w_pos_emb w)))"
  let ?pm = "ones_mask ?n d"
  assume a: "wf3 tq \<and> wf2 tm \<and> dim0 tq = dim0 bev \<and> rows tm = dim0 bev \<and> 0 < dim0 bev \<and>
          dim2 tq = e \<and> dim1 tq = cols tm"
  have wfdq: "wf3 ?dq"
    by (intro wf3_tile_batch wf3_PosEmbedding1D_call)
  have self: "embed_dim self = e" "bev_feature_shape self = hw"
    "detection_pos_emb self = PosEmbedding1D_init d e (w_pos_emb w)"
    by (simp_all add: self_def TrackFormer_init_def)
  have m: "batch_max tm = m"
    unfolding m_def using a by (intro batch_max_card) simp_all
  from a have "\<exists>tq' tm'. pad_track_queries e ?n tq tm = Inr (tq', tm') \<and> wf3 tq' \<and> wf2 tm' \<and>
           dim0 tq' = ?n \<and> dim1 tq' = batch_max tm \<and> dim2 tq' = e \<and>
           rows tm' = ?n \<and> cols tm' = batch_max tm"
    by (intro pad_track_queries_wf) simp_all
  then obtain tq' tm' where p: "pad_track_queries e ?n tq tm = Inr (tq', tm')"
    "wf3 tq'" "wf2 tm'" "dim0 tq' = ?n" "dim1 tq' = m" "dim2 tq' = e"
    "rows tm' = ?n" "cols tm' = m"
    using m by auto
  have "\<exists>c. concat_dim1 tq' ?dq = Inr c \<and> wf3 c \<and> dim0 c = dim0 tq' \<and>
           dim1 c = dim1 tq' + dim1 ?dq \<and> dim2 c = dim2 tq'"
    by (rule concat_dim1_wf) (use p wfdq in \<open>simp_all add: dims_detection_queries\<close>)
  then obtain queries where q: "concat_dim1 tq' ?dq = Inr queries" "wf3 queries"
    "dim0 queries = ?n" "dim1 queries = m + d"
    using p by (auto simp: dims_detection_queries)
  have "\<exists>c. concat_dim1_mask tm' ?pm = Inr c \<and> wf2 c \<and> rows c = rows tm' \<and>
           cols c = cols tm' + cols ?pm"
    by (rule concat_dim1_mask_wf) (use p in \<open>simp_all add: wf2_ones_mask\<close>, simp add: ones_mask_def)
  then obtain pm where pm: "concat_dim1_mask tm' ?pm = Inr pm" "wf2 pm"
    "rows pm = ?n" "cols pm = m + d"
    using p by (auto simp: ones_mask_def)
  show "\<exists>queries padding_mask dq ref_points.
            TrackFormer_queries grid self bev (Some tq) (Some tm) =
              Inr (queries, padding_mask, dq, ref_points) \<and>
            wf3 queries \<and> wf2 padding_mask \<and>
            dim0 queries = dim0 bev \<and> rows padding_mask = dim0 bev \<and>
            dim1 queries = m + d \<and> cols padding_mask = m + d \<and>
            length ref_points = dim0 bev \<and>
            list_all (\<lambda>ps. length ps = dim1 queries) ref_points"
    using assms(3) p(1) q pm
    by (simp add: TrackFormer_queries_def self Let_def dims_detection_queries ref_points_count)
qed


text \<open>
  Three detection slots, one batch element: without track queries the query set has length
  3; with four track queries under the mask \<open>[True, False, True, True]\<close> it has length
  \<open>3 + 3\<close>.
\<close>

theorem query_set_length_witness:
  "(\<exists>queries padding_mask dq ref_points.
      TrackFormer_queries (\<lambda>hw n k. k)
        (TrackFormer_init 2 1 3 (1, 1)
           \<lparr>w_pos_emb = (\<lambda>i c. int i), w_layer = (\<lambda>k. passthrough_blocks), w_detection = (\<lambda>x. x)\<rparr>)
        \<lparr>dim0 = 1, dim1 = 1, dim2 = 2, vals = [[[0, 0]]]\<rparr> None None
        = Inr (queries, padding_mask, dq, ref_points) \<and>
      dim1 queries = 3 \<and> cols padding_mask = 3 \<and>
      list_all (\<lambda>ps. length ps = dim1 queries) ref_points) \<and>
   (\<exists>queries padding_mask dq ref_points.
      TrackFormer_queries (\<lambda>hw n k. k)
        (TrackFormer_init 2 1 3 (1, 1)
           \<lparr>w_pos_emb = (\<lambda>i c. int i), w_layer = (\<lambda>k. passthrough_blocks), w_detection = (\<lambda>x. x)\<rparr>)
        \<lparr>dim0 = 1, dim1 = 1, dim2 = 2, vals = [[[0, 0]]]\<rparr>
        (Some \<lparr>dim0 = 1, dim1 = 4, dim2 = 2, vals = [[[1, 1], [2, 2], [3, 3], [4, 4]]]\<rparr>)
        (Some \<lparr>rows = 1, cols = 4, vals2 = [[True, False, True, True]]\<rparr>)
        = Inr (queries, padding_mask, dq, ref_points) \<and>
      dim1 queries = 6 \<and> cols padding_mask = 6 \<and>
      list_all (\<lambda>ps. length ps = dim1 queries) ref_points)"
proof -
  have c: "card {j. j < 4 \<and> [True, False, True, True] ! j} = 3"
    using mask_row_sum_card [of "[True, False, True, True]"]
    by (simp add: mask_row_sum_def eval_nat_numeral)
  have l1: "{..<Suc 0} = {0}" by auto
  show ?thesis
    using query_set_length
      [of "\<lparr>dim0 = 1, dim1 = 1, dim2 = 2, vals = [[[0, 0 :: int]]]\<rparr>" 2
          "\<lambda>hw n k. k" 1 3 "(1, 1)"
          "\<lparr>w_pos_emb = (\<lambda>i c. int i), w_layer = (\<lambda>k. passthrough_blocks), w_detection = (\<lambda>x. x)\<rparr>"
          None
          "\<lparr>dim0 = 1, dim1 = 4, dim2 = 2, vals = [[[1, 1], [2, 2], [3, 3], [4, 4]]]\<rparr>"
          "\<lparr>rows = 1, cols = 4, vals2 = [[True, False, True, True]]\<rparr>"]
    by (simp add: wf3_def wf2_def c l1) (elim conjE exE, intro conjI exI, assumption+)
qed

lemma decoder_loop_training:
  assumes "\<And>i. i \<in> set xs \<Longrightarrow> layer i = Inr (out i)"
  shows "decoder_loop layer det True nl xs (outp, lds, calls) =
           Inr (Exhausted (if xs = [] then outp else Some (out (last xs)))
                  (lds @ map (\<lambda>i. det (out i)) xs), calls @ xs)"
  using assms
proof (induction xs arbitrary: outp lds calls)
  case Nil
  show ?case by simp
next
  case (Cons x xs)
  have "layer x = Inr (out x)" using Cons.prems by simp
  moreover have
    "decoder_loop layer det True nl xs (Some (out x), lds @ [det (out x)], calls @ [x]) =
       Inr (Exhausted (if xs = [] then Some (out x) else Some (out (last xs)))
              ((lds @ [det (out x)]) @ map (\<lambda>i. det (out i)) xs), (calls @ [x]) @ xs)"
    by (rule Cons.IH) (simp add: Cons.prems)
  ultimately show ?case by simp
qed

lemma decoder_loop_inference:
  assumes "\<And>i. i \<in> set xs \<Longrightarrow> layer i = Inr (out i)"
    and "\<And>i. i \<in> set xs \<Longrightarrow> int i \<noteq> nl - 1"
    and "layer z = Inr (out z)" "int z = nl - 1"
  shows "decoder_loop layer det False nl (xs @ z # zs) (outp, lds, calls) =
           Inr (Returned (det (out z)), calls @ [z])"
  using assms
proof (induction xs arbitrary: outp)
  case Nil
  then show ?case by simp
next
  case (Cons x xs)
  have "layer x = Inr (out x)" "int x \<noteq> nl - 1"
    using Cons.prems(1,2) by simp_all
  moreover have "decoder_loop layer det False nl (xs @ z # zs) (Some (out x), lds, calls) =
                   Inr (Returned (det (out z)), calls @ [z])"
    by (rule Cons.IH) (simp_all add: Cons.prems)
  ultimately show ?case by simp
qed

lemma stack_dim0_same_shape:
  assumes "ts \<noteq> []"
    and "\<And>u. u \<in> set ts \<Longrightarrow> dim0 u = a \<and> dim1 u = b \<and> dim2 u = c"
  shows "stack_dim0 ts =
           Inr \<lparr>dim4_0 = length ts, dim4_1 = a, dim4_2 = b, dim4_3 = c, vals4 = map vals ts\<rparr>"
proof (cases ts)
  case Nil
  with assms(1) show ?thesis by simp
next
  case (Cons t rest)
  have t: "dim0 t = a" "dim1 t = b" "dim2 t = c"
    using assms(2) [of t] Cons by simp_all
  have "list_all (\<lambda>u. dim0 u = a \<and> dim1 u = b \<and> dim2 u = c) rest"
    unfolding list_all_iff
  proof
    fix u assume "u \<in> set rest"
    then have "u \<in> set ts" using Cons by simp
    then show "dim0 u = a \<and> dim1 u = b \<and> dim2 u = c" by (rule assms(2))
  qed
  then show ?thesis using Cons t by (simp add: stack_dim0_def)
qed

lemma decoder_modules_init:
  "length (decoder_modules (TrackFormer_init e (int l) d hw w)) = l"
  "num_layers (TrackFormer_init e (int l) d hw w) = int l"
  "detection_module (TrackFormer_init e (int l) d hw w) = w_detection w"
  by (simp_all add: TrackFormer_init_def create_decoder_layers_def)

text \<open>
  Claim C3.  For a TrackFormer built with \<open>num_layers = l \<ge> 1\<close>, on a call where the query set
  is built, every decoder layer \<open>i\<close> returns an output \<open>out i\<close>, and the detection head's
  outputs have one shape (so that they can be stacked):
  in training mode the forward pass returns the raw output of the last layer together with
  the stack of exactly \<open>l\<close> detection tensors, one for each layer in order, and the
  detection head was applied to the outputs of the layers \<open>0, \<dots>, l - 1\<close>;
  in inference mode it returns the detections of the last layer, and the detection head was
  applied to the output of layer \<open>l - 1\<close> only.
\<close>

theorem detections_by_mode:
  fixes w :: "('a::{zero,plus}, 'p) TrackFormer_weights" and l :: nat
    and e d :: nat and hw :: "nat \<times> nat"
  defines "self \<equiv> TrackFormer_init e (int l) d hw w"
  assumes "0 < l"
    and "TrackFormer_queries grid self bev tq tm = Inr (queries, padding_mask, dq, ref_points)"
    and "\<forall>i<l. TrackFormerDecoderLayer_forward (decoder_modules self ! i) queries bev
                   ref_points dq padding_mask = Inr (out i)"
    and "\<forall>i<l. dim0 (w_detection w (out i)) = dim0 (w_detection w (out 0)) \<and>
                dim1 (w_detection w (out i)) = dim1 (w_detection w (out 0)) \<and>
                dim2 (w_detection w (out i)) = dim2 (w_detection w (out 0))"
  shows "(\<exists>layers_detections.
            TrackFormer_forward grid self True bev tq tm =
              Inr (OutputAndLayers (out (l - 1)) layers_detections, [0..<l]) \<and>
            dim4_0 layers_detections = l \<and>
            dim4_1 layers_detections = dim0 (w_detection w (out 0)) \<and>
            dim4_2 layers_detections = dim1 (w_detection w (out 0)) \<and>
            dim4_3 layers_detections = dim2 (w_detection w (out 0)) \<and>
            vals4 layers_detections = map (\<lambda>i. vals (w_detection w (out i))) [0..<l]) \<and>
         TrackFormer_forward grid self False bev tq tm =
           Inr (Detections (w_detection w (out (l - 1))), [l - 1])"
proof -
  let ?layer = "\<lambda>i. TrackFormerDecoderLayer_forward (decoder_modules self ! i) queries bev
                   ref_points dq padding_mask"
  let ?det = "w_detection w"
  let ?ts = "map (\<lambda>i. ?det (out i)) [0..<l]"
  have self: "length (decoder_modules self) = l" "num_layers self = int l"
    "detection_module self = ?det"
    by (simp_all add: self_def decoder_modules_init)
  have lay: "?layer i = Inr (out i)" if "i \<in> set [0..<l]" for i
    using that assms(4) by simp
  have last: "last [0..<l] = l - 1" "[0..<l] \<noteq> []"
    using assms(2) by (simp_all add: last_upt)
  have train: "decoder_loop ?layer ?det True (int l) [0..<l] (None, [], []) =
                 Inr (Exhausted (Some (out (l - 1))) ?ts, [0..<l])"
    using decoder_loop_training [of "[0..<l]" ?layer out ?det "int l" None "[]" "[]", OF lay] last
    by simp
  have ne: "?ts \<noteq> []" using assms(2) by simp
  define a b c where "a = dim0 (?det (out 0))" and "b = dim1 (?det (out 0))"
    and "c = dim2 (?det (out 0))"
  have shape: "dim0 u = a \<and> dim1 u = b \<and> dim2 u = c" if "u \<in> set ?ts" for u
  proof -
    from that obtain i where "i < l" "u = ?det (out i)" by auto
    then show ?thesis
      using assms(5) [rule_format, of i] by (simp add: a_def b_def c_def)
  qed
  have st: "stack_dim0 ?ts =
              Inr \<lparr>dim4_0 = length ?ts, dim4_1 = a, dim4_2 = b, dim4_3 = c,
                    vals4 = map vals ?ts\<rparr>"
    using ne shape by (rule stack_dim0_same_shape)
  have split: "[0..<l] = [0..<l - 1] @ (l - 1) # []"
    using assms(2) by (cases l) simp_all
  have inf: "decoder_loop ?layer ?det False (int l) ([0..<l - 1] @ (l - 1) # [])
               (None, [], []) = Inr (Returned (?det (out (l - 1))), [] @ [l - 1])"
  proof (rule decoder_loop_inference)
    fix i assume "i \<in> set [0..<l - 1]"
    then have i: "i < l - 1" by simp
    then show "?layer i = Inr (out i)" using assms(4) by simp
    from i show "int i \<noteq> int l - 1" by simp
  next
    show "?layer (l - 1) = Inr (out (l - 1))" using assms(2,4) by simp
    show "int (l - 1) = int l - 1" using assms(2) by simp
  qed
  have inf': "decoder_loop ?layer ?det False (int l) [0..<l] (None, [], []) =
                Inr (Returned (?det (out (l - 1))), [l - 1])"
    using inf split by simp
  have len: "length ?ts = l" by simp
  show ?thesis
    unfolding TrackFormer_forward_def self assms(3)
    by (simp add: train inf' st comp_def a_def b_def c_def)
qed


text \<open>
  Two layers whose outputs are \<open>[[2], [4]]\<close> and \<open>[[7], [8]]\<close> and a detection head that
  passes them on: training returns the second output and the stack of both, inference
  returns the second output after a single call of the head.
\<close>

theorem detections_by_mode_witness:
  "TrackFormer_forward (\<lambda>hw n k. k)
     (TrackFormer_init 1 2 2 (1, 1)
        \<lparr>w_pos_emb = (\<lambda>i c. int i + 1),
           w_layer = (\<lambda>k. passthrough_blocks
              \<lparr>mlp := (\<lambda>x. if k = 0 then x
                            else \<lparr>dim0 = 1, dim1 = 2, dim2 = 1, vals = [[[7], [8]]]\<rparr>)\<rparr>),
           w_detection = (\<lambda>x. x)\<rparr>)
     True \<lparr>dim0 = 1, dim1 = 1, dim2 = 1, vals = [[[0]]]\<rparr> None None
   = Inr (OutputAndLayers \<lparr>dim0 = 1, dim1 = 2, dim2 = 1, vals = [[[7], [8]]]\<rparr>
            \<lparr>dim4_0 = 2, dim4_1 = 1, dim4_2 = 2, dim4_3 = 1,
               vals4 = [[[[2], [4]]], [[[7], [8]]]]\<rparr>, [0, 1]) \<and>
   TrackFormer_forward (\<lambda>hw n k. k)
     (TrackFormer_init 1 2 2 (1, 1)
        \<lparr>w_pos_emb = (\<lambda>i c. int i + 1),
           w_layer = (\<lambda>k. passthrough_blocks
              \<lparr>mlp := (\<lambda>x. if k = 0 then x
                            else \<lparr>dim0 = 1, dim1 = 2, dim2 = 1, vals = [[[7], [8]]]\<rparr>)\<rparr>),
           w_detection = (\<lambda>x. x)\<rparr>)
     False \<lparr>dim0 = 1, dim1 = 1, dim2 = 1, vals = [[[0]]]\<rparr> None None
   = Inr (Detections \<lparr>dim0 = 1, dim1 = 2, dim2 = 1, vals = [[[7], [8]]]\<rparr>, [1])"
proof -
  let ?c = "\<lparr>dim0 = 1, dim1 = 2, dim2 = 1, vals = [[[7], [8 :: int]]]\<rparr>"
  let ?w = "\<lparr>w_pos_emb = (\<lambda>i c. int i + 1),
           w_layer = (\<lambda>k. passthrough_blocks\<lparr>mlp := (\<lambda>x. if k = 0 then x else ?c)\<rparr>),
           w_detection = (\<lambda>x. x)\<rparr> :: (int, nat) TrackFormer_weights"
  let ?self = "TrackFormer_init 1 2 2 (1, 1) ?w"
  let ?bev = "\<lparr>dim0 = 1, dim1 = 1, dim2 = 1, vals = [[[0 :: int]]]\<rparr>"
  let ?q = "\<lparr>dim0 = 1, dim1 = 2, dim2 = 1, vals = [[[1], [2 :: int]]]\<rparr>"
  let ?pm = "\<lparr>rows = 1, cols = 2, vals2 = [[True, True]]\<rparr>"
  let ?ref = "[[[0], [1 :: nat]]]"
  let ?out = "\<lambda>i :: nat. if i = 0 then \<lparr>dim0 = 1, dim1 = 2, dim2 = 1, vals = [[[2], [4 :: int]]]\<rparr>
                         else ?c"
  have upt2: "[0..<2] = [0, Suc 0]" by (simp add: upt_conv_Cons)
  have q: "TrackFormer_queries (\<lambda>hw n k. k) (TrackFormer_init 1 (int 2) 2 (1, 1) ?w) ?bev
             None None = Inr (?q, ?pm, ?q, ?ref)"
    by (simp add: TrackFormer_queries_def TrackFormer_init_def PosEmbedding1D_init_def
        PosEmbedding1D_call_def tile_batch_def ones_mask_def Let_def upt2
        unsqueeze_points_def generate_standard_ref_points_def numeral_2_eq_2)
  have lay: "\<forall>i<2. TrackFormerDecoderLayer_forward
                 (decoder_modules (TrackFormer_init 1 (int 2) 2 (1, 1) ?w) ! i) ?q ?bev ?ref ?q ?pm
               = Inr (?out i)"
    by (simp add: less_Suc_eq numeral_2_eq_2 TrackFormer_init_def create_decoder_layers_def
        TrackFormerDecoderLayer_init_def passthrough_blocks_def
        TrackFormerDecoderLayer_forward_def reinject_def tensor_add_def bzip_def
        unsqueeze_last_def Let_def)
  have shp: "\<forall>i<2. dim0 (w_detection ?w (?out i)) = dim0 (w_detection ?w (?out 0)) \<and>
                dim1 (w_detection ?w (?out i)) = dim1 (w_detection ?w (?out 0)) \<and>
                dim2 (w_detection ?w (?out i)) = dim2 (w_detection ?w (?out 0))"
    by simp
  have pos: "0 < (2 :: nat)" by simp
  from detections_by_mode [OF pos q lay shp]
  obtain ld where t: "TrackFormer_forward (\<lambda>hw n k. k) ?self True ?bev None None =
      Inr (OutputAndLayers ?c ld, [0, 1])"
    and ld: "dim4_0 ld = 2" "dim4_1 ld = 1" "dim4_2 ld = 2" "dim4_3 ld = 1"
      "vals4 ld = [[[[2], [4]]], [[[7], [8]]]]"
    and i: "TrackFormer_forward (\<lambda>hw n k. k) ?self False ?bev None None =
      Inr (Detections ?c, [1])"
    by (auto simp: upt2)
  have "ld = \<lparr>dim4_0 = 2, dim4_1 = 1, dim4_2 = 2, dim4_3 = 1,
               vals4 = [[[[2], [4]]], [[[7], [8]]]]\<rparr>"
    using ld by simp
  with t i show ?thesis by simp
qed

section \<open>Properties of MapFormer\<close>

lemma einsum_three_axes: "einsum_nast_nshw (Tensor [p, q, r]) y = Inl RuntimeError"
  by (simp add: einsum_nast_nshw_def)

lemma unpack4_tuple2: "unpack4 (Tuple [a, b]) = Inl ValueError"
  by (simp add: unpack4_def)

lemma unpack4_tensor3:
  "unpack4 (Tensor [a, b, c]) =
     (if a = 4 then Inr (Tensor [b, c], Tensor [b, c], Tensor [b, c], Tensor [b, c])
      else Inl ValueError)"
  by (simp add: unpack4_def)

lemma after_unpack_raises:
  "isl (ebind (last_dim (Tensor [b, c])) (\<lambda>d.
        ebind (slice_last_from (Tensor [b, c]) (int d - k)) (\<lambda>mask_coefs.
        ebind (slice_last_to (Tensor [b, c]) (int d - k)) (\<lambda>detections.
        ebind g (\<lambda>bev_features.
        ebind (f bev_features) (\<lambda>protos.
        ebind (index_new_last_axis mask_coefs) (\<lambda>mask_coefs'.
        ebind (einsum_nast_nshw mask_coefs' protos) (\<lambda>masks.
          Inr (x, detections, masks, y, z)))))))))"
  by (cases g; simp add: last_dim_def slice_last_from_def slice_last_to_def
      index_new_last_axis_def einsum_three_axes)
     (cases "f (projr g)"; simp add: einsum_three_axes)

text \<open>
  Claim C5 says that \<^verbatim>\<open>MapFormer.forward\<close> returns the five-tuple (context output, trimmed
  detections, instance masks, recomputed track mask, per-layer outputs) with masks of the
  shape of the BEV grid.  The code does not: line 89 unpacks the parent's return value into
  four names, but the parent returns a pair in training mode and a single tensor in
  inference mode.  The pair has two components, not four.  The tensor is iterated along
  its batch axis: unless the batch size is 4 that fails as well, and if it is 4 the four
  names are bound to matrices, so that the mask coefficients have three axes at the
  \<^verbatim>\<open>einsum\<close> of line 98, which needs four.  Hence, for every object with the attributes the
  method reads, in either mode and for every input, \<^verbatim>\<open>MapFormer.forward\<close> raises.
\<close>

theorem MapFormer_forward_raises:
  "isl (MapFormer_forward grid self training bev_features track_queries track_queries_mask)"
proof (cases "TrackFormer_forward grid self training bev_features track_queries
                track_queries_mask")
  case (Inl e)
  then show ?thesis by (simp add: MapFormer_forward_def)
next
  case (Inr rc)
  obtain result calls where rc: "rc = (result, calls)" by (cases rc)
  show ?thesis
  proof (cases result)
    case (Detections t)
    show ?thesis
    proof (cases "dim0 t = 4")
      case True
      with Inr rc Detections show ?thesis
        by (simp add: MapFormer_forward_def result_shape_def unpack4_tensor3 Let_def
            after_unpack_raises)
    next
      case False
      with Inr rc Detections show ?thesis
        by (simp add: MapFormer_forward_def result_shape_def unpack4_tensor3)
    qed
  next
    case (OutputAndLayers out ld)
    with Inr rc show ?thesis
      by (simp add: MapFormer_forward_def result_shape_def unpack4_tuple2)
  qed
qed


text \<open>
  A call with one batch element: \<^verbatim>\<open>ValueError\<close> at the unpacking, in training and in
  inference mode.
\<close>

theorem MapFormer_forward_raises_witness:
  "MapFormer_forward (\<lambda>hw n k. k)
     (MapFormer_instance
        (TrackFormer_init 1 1 2 (1, 1)
           \<lparr>w_pos_emb = (\<lambda>i c. int i + 1), w_layer = (\<lambda>k. passthrough_blocks),
              w_detection = (\<lambda>x. x)\<rparr>)
        1 \<lparr>conv1 = Inr, conv2 = Inr, conv3 = Inr\<rparr>)
     True \<lparr>dim0 = 1, dim1 = 1, dim2 = 1, vals = [[[0]]]\<rparr> None None = Inl ValueError \<and>
   MapFormer_forward (\<lambda>hw n k. k)
     (MapFormer_instance
        (TrackFormer_init 1 1 2 (1, 1)
           \<lparr>w_pos_emb = (\<lambda>i c. int i + 1), w_layer = (\<lambda>k. passthrough_blocks),
              w_detection = (\<lambda>x. x)\<rparr>)
        1 \<lparr>conv1 = Inr, conv2 = Inr, conv3 = Inr\<rparr>)
     False \<lparr>dim0 = 1, dim1 = 1, dim2 = 1, vals = [[[0]]]\<rparr> None None = Inl ValueError"
proof -
  let ?w = "\<lparr>w_pos_emb = (\<lambda>i c. int i + 1), w_layer = (\<lambda>k. passthrough_blocks),
              w_detection = (\<lambda>x. x)\<rparr> :: (int, nat) TrackFormer_weights"
  let ?m = "MapFormer_instance (TrackFormer_init 1 1 2 (1, 1) ?w) 1
              \<lparr>conv1 = Inr, conv2 = Inr, conv3 = Inr\<rparr>"
  let ?bev = "\<lparr>dim0 = 1, dim1 = 1, dim2 = 1, vals = [[[0 :: int]]]\<rparr>"
  have upt2: "[0..<2] = [0, Suc 0]" by (simp add: upt_conv_Cons)
  have fwd: "TrackFormer_forward (\<lambda>hw n k. k) ?m training ?bev None None =
      (if training
       then Inr (OutputAndLayers \<lparr>dim0 = 1, dim1 = 2, dim2 = 1, vals = [[[2], [4]]]\<rparr>
                   \<lparr>dim4_0 = 1, dim4_1 = 1, dim4_2 = 2, dim4_3 = 1,
                      vals4 = [[[[2], [4]]]]\<rparr>, [0])
       else Inr (Detections \<lparr>dim0 = 1, dim1 = 2, dim2 = 1, vals = [[[2], [4]]]\<rparr>, [0]))"
    for training
    by (simp add: TrackFormer_forward_def TrackFormer_queries_def MapFormer_instance_def
        TrackFormer.extend_def MapFormer.fields_def
        TrackFormer_init_def PosEmbedding1D_init_def
        PosEmbedding1D_call_def tile_batch_def ones_mask_def Let_def upt2
        unsqueeze_points_def generate_standard_ref_points_def numeral_2_eq_2
        create_decoder_layers_def
        TrackFormerDecoderLayer_init_def passthrough_blocks_def
        TrackFormerDecoderLayer_forward_def reinject_def tensor_add_def bzip_def
        unsqueeze_last_def stack_dim0_def)
  have a: "MapFormer_forward (\<lambda>hw n k. k) ?m True ?bev None None = Inl ValueError"
    unfolding MapFormer_forward_def Let_def fwd by (simp add: result_shape_def unpack4_def)
  have b: "MapFormer_forward (\<lambda>hw n k. k) ?m False ?bev None None = Inl ValueError"
    unfolding MapFormer_forward_def Let_def fwd by (simp add: result_shape_def unpack4_def)
  from MapFormer_forward_raises [of "\<lambda>hw n k. k" ?m True ?bev None None] a b
  show ?thesis by simp
qed


lemma ebind_eq_Inr: "ebind m f = Inr y \<longleftrightarrow> (\<exists>x. m = Inr x \<and> f x = Inr y)"
  by (cases m) simp_all

lemma bind_defaults_keys: "bind_defaults ps bound = Inr r \<Longrightarrow> map fst r = map fst ps"
proof (induction ps bound arbitrary: r rule: bind_defaults.induct)
  case (1 bound)
  then show ?case by simp
next
  case (2 p dflt ps bound)
  from "2.prems" obtain v rest where "bind_defaults ps bound = Inr rest" "r = (p, v) # rest"
    by (auto simp: ebind_eq_Inr)
  with "2.IH" show ?case by simp
qed

lemma bind_args_keys: "bind_args params args kwargs = Inr a \<Longrightarrow> map fst a = map fst params"
  by (auto simp: bind_args_def ebind_eq_Inr dest: bind_defaults_keys)

lemma TrackFormer_param_names:
  "map fst TrackFormer_params =
     [''num_heads'', ''embed_dim'', ''num_layers'', ''num_classes'', ''num_ref_points'',
      ''dim_feedforward'', ''dropout'', ''offset_scale'', ''max_detections'',
      ''learnable_pe'', ''bev_feature_shape'', ''track_threshold'', ''det_3d'']"
  by (simp add: TrackFormer_params_def)

lemma TrackFormer_init_attrs_names:
  assumes "TrackFormer_init_attrs new args kwargs = Inr self"
  shows "self ''num_obj_classes'' = None" and "self ''num_classes'' \<noteq> None"
proof -
  from assms obtain a pe layers head where a: "bind_args TrackFormer_params args kwargs = Inr a"
    and self: "self = ([''training'' \<mapsto> PBool True] ++ map_of a)
                 (''detection_pos_emb'' \<mapsto> pe, ''decoder_modules'' \<mapsto> layers,
                  ''detection_module'' \<mapsto> head)"
    by (auto simp: TrackFormer_init_attrs_def ebind_eq_Inr Let_def)
  have keys: "map fst a = map fst TrackFormer_params"
    using a by (rule bind_args_keys)
  have "''num_obj_classes'' \<notin> set (map fst a)"
    unfolding keys TrackFormer_param_names by simp
  then have n: "map_of a ''num_obj_classes'' = None"
    by (simp add: map_of_eq_None_iff)
  have "''num_classes'' \<in> set (map fst a)"
    unfolding keys TrackFormer_param_names by simp
  then have c: "map_of a ''num_classes'' \<noteq> None"
    by (simp add: map_of_eq_None_iff)
  show "self ''num_obj_classes'' = None"
    using n by (simp add: self map_add_def)
  show "self ''num_classes'' \<noteq> None"
    using c by (auto simp: self map_add_def split: option.splits)
qed


lemma mapM_err_Inr: "mapM_err (\<lambda>k. Inr (g k)) xs = Inr (map g xs)"
  by (rule mapM_err_all_Inr) simp

lemma get_attr_None: "self name = None \<Longrightarrow> get_attr self name = Inl (AttributeError name)"
  by (simp add: get_attr_def)

lemma get_attr_cases: "get_attr self name = Inl (AttributeError name) \<or> (\<exists>v. get_attr self name = Inr v)"
  by (simp add: get_attr_def split: option.splits)

text \<open>
  Claim C6.  For every combination of constructor arguments (positional and keyword) and
  whatever the constructors of the external modules do, \<^verbatim>\<open>MapFormer.__init__\<close> raises.  The
  parent's constructor, where it succeeds, leaves an object that has the attribute
  \<^verbatim>\<open>num_classes\<close> and has no attribute \<^verbatim>\<open>num_obj_classes\<close>; and when it succeeds, the
  assertion on \<^verbatim>\<open>num_seg_coeffs\<close> passes and the constructor of \<^verbatim>\<open>ProtoSegModule\<close> does not
  raise, the exception is the AttributeError for \<^verbatim>\<open>num_obj_classes\<close>.
\<close>

theorem MapFormer_construction_raises:
  "isl (MapFormer_init_attrs new args kwargs) \<and>
   (\<forall>self. TrackFormer_init_attrs new args (parent_kwargs kwargs) = Inr self \<longrightarrow>
      self ''num_obj_classes'' = None \<and> self ''num_classes'' \<noteq> None \<and>
      (py_gt_zero (kwarg_or kwargs ''num_seg_coeffs'' (PInt 32)) = Inr True \<and>
       (\<forall>pos kw e. new ''ProtoSegModule'' pos kw \<noteq> Inl e) \<longrightarrow>
       MapFormer_init_attrs new args kwargs = Inl (AttributeError ''num_obj_classes'')))"
proof -
  let ?nsc = "kwarg_or kwargs ''num_seg_coeffs'' (PInt 32)"
  let ?sch = "kwarg_or kwargs ''seg_c_h'' (PInt 256)"
  have tail: "ebind (get_attr s ''embed_dim'') (\<lambda>embed_dim'.
              ebind (get_attr s ''num_obj_classes'') (\<lambda>num_obj_classes. f embed_dim' num_obj_classes))
              = (case get_attr s ''embed_dim'' of Inl e \<Rightarrow> Inl e
                 | Inr v \<Rightarrow> Inl (AttributeError ''num_obj_classes''))"
    if "s ''num_obj_classes'' = None" for s :: pyobj and f :: "pyval \<Rightarrow> pyval \<Rightarrow> error + pyobj"
    using that by (cases "get_attr s ''embed_dim''") (simp_all add: get_attr_None)
  have step: "isl (MapFormer_init_attrs new args kwargs) \<and>
      (py_gt_zero ?nsc = Inr True \<and> (\<forall>pos kw e. new ''ProtoSegModule'' pos kw \<noteq> Inl e) \<longrightarrow>
       MapFormer_init_attrs new args kwargs = Inl (AttributeError ''num_obj_classes''))"
    if self: "TrackFormer_init_attrs new args (parent_kwargs kwargs) = Inr self" for self
  proof -
    have none: "self ''num_obj_classes'' = None" and some: "self ''num_classes'' \<noteq> None"
      using TrackFormer_init_attrs_names [OF self] by simp_all
    let ?s2 = "self(''num_seg_coeffs'' \<mapsto> ?nsc, ''seg_c_h'' \<mapsto> ?sch)"
    obtain ed where ed: "get_attr ?s2 ''embed_dim'' = Inr ed"
    proof -
      from self have "self ''embed_dim'' \<noteq> None"
        by (auto simp: TrackFormer_init_attrs_def ebind_eq_Inr Let_def get_attr_def
            split: option.splits)
      then show ?thesis using that by (auto simp: get_attr_def)
    qed
    let ?proto = "new ''ProtoSegModule'' []
                   [(''in_channels'', ed), (''out_channels'', ?nsc), (''c_h'', ?sch)]"
    have rest: "ebind ?proto (\<lambda>proto.
          ebind (get_attr (?s2(''proto_seg_module'' \<mapsto> proto)) ''embed_dim'') (\<lambda>embed_dim'.
          ebind (get_attr (?s2(''proto_seg_module'' \<mapsto> proto)) ''num_obj_classes'')
            (\<lambda>num_obj_classes. f proto embed_dim' num_obj_classes)))
        = (case ?proto of Inl e \<Rightarrow> Inl e | Inr p \<Rightarrow> Inl (AttributeError ''num_obj_classes''))"
      for f :: "pyval \<Rightarrow> pyval \<Rightarrow> pyval \<Rightarrow> error + pyobj"
    proof (cases ?proto)
      case (Inl e)
      then show ?thesis by simp
    next
      case (Inr p)
      have "get_attr (?s2(''proto_seg_module'' \<mapsto> p)) ''embed_dim'' = Inr ed"
        using ed by (simp add: get_attr_def)
      moreover have "(?s2(''proto_seg_module'' \<mapsto> p)) ''num_obj_classes'' = None"
        using none by simp
      ultimately show ?thesis
        using Inr by (simp add: get_attr_None)
    qed
    have eq: "MapFormer_init_attrs new args kwargs =
        (case py_gt_zero ?nsc of
           Inl e \<Rightarrow> Inl e
         | Inr positive \<Rightarrow>
             if \<not> positive then Inl (AssertionError 37)
             else (case ?proto of Inl e \<Rightarrow> Inl e
                   | Inr p \<Rightarrow> Inl (AttributeError ''num_obj_classes'')))"
      unfolding MapFormer_init_attrs_def Let_def self
      by (cases "py_gt_zero ?nsc") (simp_all add: ed rest)
    show ?thesis
      unfolding eq by (auto split: sum.splits)
  qed
  show ?thesis
  proof (cases "TrackFormer_init_attrs new args (parent_kwargs kwargs)")
    case (Inl e)
    then show ?thesis by (simp add: MapFormer_init_attrs_def Let_def)
  next
    case (Inr self)
    from step [OF Inr] TrackFormer_init_attrs_names [OF Inr] Inr
    show ?thesis by simp
  qed
qed

text \<open>
  \<^verbatim>\<open>MapFormer(8, 128, 6, 10)\<close> with external constructors that never raise: the parent's
  constructor succeeds, MapFormer's raises the AttributeError.
\<close>

theorem MapFormer_construction_raises_witness:
  "(\<exists>self. TrackFormer_init_attrs (\<lambda>cls pos kw. Inr (PModule cls kw))
             [PInt 8, PInt 128, PInt 6, PInt 10] [] = Inr self) \<and>
   MapFormer_init_attrs (\<lambda>cls pos kw. Inr (PModule cls kw))
     [PInt 8, PInt 128, PInt 6, PInt 10] [] = Inl (AttributeError ''num_obj_classes'')"
proof -
  let ?new = "\<lambda>cls pos kw. Inr (PModule cls kw) :: error + pyval"
  let ?args = "[PInt 8, PInt 128, PInt 6, PInt 10]"
  have ok: "\<exists>self. TrackFormer_init_attrs ?new ?args [] = Inr self"
    by (simp add: TrackFormer_init_attrs_def bind_args_def TrackFormer_params_def
        create_decoder_layers_attrs_def get_attr_def Let_def map_add_def mapM_err_Inr)
  then obtain self where self: "TrackFormer_init_attrs ?new ?args (parent_kwargs []) = Inr self"
    by (auto simp: parent_kwargs_def)
  from MapFormer_construction_raises [of ?new ?args "[]"] self
  have "MapFormer_init_attrs ?new ?args [] = Inl (AttributeError ''num_obj_classes'')"
    by (simp add: kwarg_or_def)
  with ok show ?thesis by simp
qed

section \<open>Properties of OccFormer.forward\<close>

lemma permute_021: "permute [0, 2, 1] [a, b, c] = Inr [a, c, b]"
  by (simp add: permute_def)

lemma permute_0231: "permute [0, 2, 3, 1] [a, b, c, d] = Inr [a, c, d, b]"
  by (simp add: permute_def)

lemma permute_0213: "permute [0, 2, 1, 3] [a, b, c, d] = Inr [a, c, b, d]"
  by (simp add: permute_def)

lemma reshape_explicit:
  "prod_list s = prod_list t \<Longrightarrow> reshape (map int t) s = Inr t"
proof -
  assume eq: "prod_list s = prod_list t"
  have f: "filter (\<lambda>d. d \<noteq> - 1) (map int t) = map int t"
    by (induction t) simp_all
  have h: "filter (\<lambda>d. d = - 1) (map int t) = []"
    by (induction t) simp_all
  have e: "\<not> list_ex (\<lambda>d. d < - 1) (map int t)"
    by (induction t) simp_all
  have m: "map (nat \<circ> int) t = t"
    by (induction t) simp_all
  show ?thesis
    unfolding reshape_def Let_def f h using e eq by (simp add: m)
qed

lemma reshape_infer_1:
  assumes "0 < a * c" "prod_list s = a * b * c"
  shows "reshape [int a, - 1, int c] s = Inr [a, b, c]"
proof -
  have "a * b * c = b * (a * c)" by (simp add: ac_simps)
  then have "prod_list s mod (a * c) = 0" "prod_list s div (a * c) = b"
    using assms by simp_all
  then show ?thesis using assms(1) by (simp add: reshape_def)
qed

lemma reshape_infer_1_4:
  assumes "0 < a * c * d" "prod_list s = a * b * c * d"
  shows "reshape [int a, - 1, int c, int d] s = Inr [a, b, c, d]"
proof -
  have "a * b * c * d = b * (a * (c * d))" by (simp add: ac_simps)
  then have "prod_list s mod (a * (c * d)) = 0" "prod_list s div (a * (c * d)) = b"
    using assms by simp_all
  then show ?thesis using assms(1) by (simp add: reshape_def)
qed

lemma broadcast_rev_same: "broadcast_rev xs xs = Inr xs"
  by (induction xs) (simp_all add: bdim_def)

lemma broadcast_shapes_same: "broadcast_shapes s s = Inr s"
  by (simp add: broadcast_shapes_def broadcast_rev_same)

lemma matmul_batched: "matmul [n, l, m] [n, m, p] = Inr [n, l, p]"
  by (simp add: matmul_def broadcast_shapes_def bdim_def)

lemma masked_fill_pad: "masked_fill [n, l, a] [n, 1, a] = Inr [n, l, a]"
  by (simp add: masked_fill_def broadcast_shapes_def bdim_def)

lemma stack_at_replicate:
  "0 < k \<Longrightarrow> d \<le> length t \<Longrightarrow> stack_at d (replicate k t) = Inr (take d t @ [k] @ drop d t)"
  by (cases k) (simp_all add: stack_at_def list_ex_iff)


lemma reshape3: "prod_list s = a * b * c \<Longrightarrow> reshape [int a, int b, int c] s = Inr [a, b, c]"
  using reshape_explicit [of s "[a, b, c]"] by (simp add: ac_simps)

lemma reshape4:
  "prod_list s = a * b * c * d \<Longrightarrow> reshape [int a, int b, int c, int d] s = Inr [a, b, c, d]"
  using reshape_explicit [of s "[a, b, c, d]"] by (simp add: ac_simps)

lemma dvd_div_pos: "k dvd (h :: nat) \<Longrightarrow> 0 < h \<Longrightarrow> 0 < h div k"
proof -
  assume "k dvd h" "0 < h"
  then obtain q where q: "h = k * q" by (auto elim: dvdE)
  with \<open>0 < h\<close> have "0 < k" "0 < q" by simp_all
  with q show ?thesis by simp
qed

lemma bitlen_0: "bitlen 0 = 0"
  by (simp add: bitlen.simps)

lemma bitlen_1: "bitlen (Suc 0) = 1"
  by (simp add: bitlen.simps [of "Suc 0"] bitlen_0)

lemma bitlen_numeral: "bitlen (numeral k) = 1 + bitlen (numeral k div 2)"
  by (subst bitlen.simps) simp

lemmas float_eval = Upsample_size_def py_float_def round_double_def floor_log2_def
  round_half_even_def output_size_def Let_def bitlen_0 bitlen_1 bitlen_numeral

lemma round_double_0: "round_double 0 q = Inr (0, 0)"
  by (simp add: round_double_def)

lemma output_size_zero_scale:
  assumes "fst scale = 0" "output_size scale h = Inr r"
  shows "r = 0"
  using assms by (cases "round_double h 1") (auto simp: output_size_def round_double_0)

lemma Upsample_from_sizes:
  assumes "Upsample_size sf h = Inr h'" "Upsample_size sf w = Inr w'"
    and "0 < c" "0 < h" "0 < w" "0 < h'" "0 < w'"
  shows "Upsample_bilinear sf [n, c, h, w] = Inr [n, c, h', w']"
proof -
  from assms(1) obtain scale where
    f: "py_float sf = Inr scale" and oh: "output_size scale h = Inr h'"
    by (auto simp: Upsample_size_def ebind_eq_Inr)
  from assms(2) f have ow: "output_size scale w = Inr w'"
    by (simp add: Upsample_size_def)
  have nz: "fst scale \<noteq> 0"
    using output_size_zero_scale [OF _ oh] assms(6) by auto
  show ?thesis
    using assms(3-7) nz by (simp add: Upsample_bilinear_def f oh ow)
qed

lemma MHA_self: "MultiHeadedAttention e [n, l, e] [n, l, e] [n, l, e] None = Inr [n, l, e]"
  by (simp add: MultiHeadedAttention_def)

lemma MHA_cross:
  "MultiHeadedAttention e [n, l, e] [n, a, e] [n, a, e] (Some [n, l, a]) = Inr [n, l, e]"
  by (simp add: MultiHeadedAttention_def)

lemma AddNorm_same: "AddNorm e [n, l, e] [n, l, e] = Inr [n, l, e]"
  by (simp add: AddNorm_def broadcast_shapes_same)

lemma decoder_layer_shapes:
  assumes "0 < n" "0 < e" "0 < op" "0 < h" "0 < w" "op dvd h" "op dvd w"
    and "pad = None \<or> pad = Some \<lparr>pm_shape = [n, a], pm_is_bool = True\<rparr>"
    and sizes: "Upsample_size (1, op) h = Inr (h div op)"
      "Upsample_size (1, op) w = Inr (w div op)"
      "Upsample_size (op, 1) (h div op) = Inr h"
      "Upsample_size (op, 1) (w div op) = Inr w"
  shows "OccFormerDecoderLayer_forward (OccFormerDecoderLayer_init e (h, w) op)
           [n, e, h, w] [n, a, e] [n, a, e] r pad =
         Inr ([n, e, h, w], if r then Some [n, a, h div op, w div op] else None)"
proof -
  let ?h = "h div op" and ?w = "w div op"
  let ?l = "?h * ?w"
  have pos: "0 < ?h" "0 < ?w"
    using assms by (simp_all add: dvd_div_pos)
  have mul: "?h * op = h" "?w * op = w"
    using assms by simp_all
  have down: "Upsample_bilinear (1, op) [n, e, h, w] = Inr [n, e, ?h, ?w]"
    using sizes(1,2) assms(2,4,5) pos by (rule Upsample_from_sizes)
  have r1: "reshape [int n, int ?l, int e] [n, ?h, ?w, e] = Inr [n, ?l, e]"
    by (rule reshape3) (simp add: ac_simps)
  have fill: "(case pad of
                 None \<Rightarrow> Inr [n, ?l, a]
               | Some pm \<Rightarrow>
                   if \<not> (length (pm_shape pm) = 2 \<and> pm_is_bool pm) then Inl (AssertionError 102)
                   else masked_fill [n, ?l, a] [pm_shape pm ! 0, 1, pm_shape pm ! 1])
              = Inr [n, ?l, a]"
    using assms(8) by (auto simp: masked_fill_pad simp del: One_nat_def)
  have r2: "reshape [int n, int e, int ?h, int ?w] [n, e, ?l] = Inr [n, e, ?h, ?w]"
    by (rule reshape4) (simp add: ac_simps)
  have up: "Upsample_bilinear (op, 1) [n, e, ?h, ?w] = Inr [n, e, h, w]"
    using sizes(3,4) assms(2) pos assms(4,5) by (rule Upsample_from_sizes)
  have r3: "reshape [int n, - 1, int ?h, int ?w] [n, a, ?l] = Inr [n, a, ?h, ?w]"
    by (rule reshape_infer_1_4) (use assms pos in \<open>simp_all add: ac_simps\<close>)
  show ?thesis
    unfolding OccFormerDecoderLayer_forward_def OccFormerDecoderLayer_init_def
    using assms(3)
    by (simp add: dim_at_def Let_def down permute_0231 r1 MHA_self AddNorm_same permute_021
        matmul_batched fill MHA_cross r2 up broadcast_shapes_same r3
        del: of_nat_mult One_nat_def)
qed


lemma OccFormer_init_scales:
  assumes "OccFormer_init A e K T dff (H, W) s op = Inr self0"
  shows "0 < s" and "0 < T \<Longrightarrow> 0 < op"
  using assms by (auto simp: OccFormer_init_def split: if_splits)

lemma OccFormer_init_fields:
  fixes infer :: bool
  assumes "OccFormer_init A e K T dff (H, W) s op = Inr self0"
  defines "self \<equiv> self0\<lparr>inference_mode := infer\<rparr>"
  shows "embed_dim_o self = e" and "num_layers_o self = T" and "num_modes self = K"
    and "bev_feature_hw self = (H, W)" and "bev_downsmaple_scale self = s"
    and "inference_mode self = infer"
    and "agent_pos_emb self = PosEmbedding1D_lookup A e"
    and "temporal_mlp self = TemporalSpecificMLP (e * 3) e T"
    and "mask_features_mlp self = SimpleMLP e e"
    and "occ_features_mlp self = SimpleMLP e e"
    and "conv_transpose self = (\<lambda>x.
               ebind (ConvBNorm e e 1 1 0 x) (\<lambda>x.
               ebind (ConvTransposeBNorm e e s s 0 x) (\<lambda>x.
               ConvBNorm e e 1 1 0 x)))"
    and "length (decoder_modules_o self) = T"
    and "\<And>k. k < T \<Longrightarrow> decoder_modules_o self ! k =
           OccFormerDecoderLayer_init e (H div s, W div s) op"
  using assms(1) unfolding self_def
  by (auto simp: OccFormer_init_def split: if_splits)

lemma concat_last_three: "concat_last [[n, a, e], [n, a, e], [n, a, e]] = Inr [n, a, e * 3]"
  by (simp add: concat_last_def)

lemma conv_transpose_chain:
  assumes "0 < h" "0 < w" "0 < s"
  shows "ebind (ConvBNorm e e 1 1 0 [n, e, h, w]) (\<lambda>x.
         ebind (ConvTransposeBNorm e e s s 0 x) (\<lambda>x.
         ConvBNorm e e 1 1 0 x)) = Inr [n, e, h * s, w * s]"
proof -
  have a: "ConvBNorm e e 1 1 0 [n, e, k, l] = Inr [n, e, k, l]" if "0 < k" "0 < l" for k l
    using that by (simp add: ConvBNorm_def)
  have "(h - 1) * s + s = h * s" "(w - 1) * s + s = w * s"
    using assms by (simp_all add: algebra_simps)
  then have b: "ConvTransposeBNorm e e s s 0 [n, e, h, w] = Inr [n, e, h * s, w * s]"
    using assms by (simp add: ConvTransposeBNorm_def)
  show ?thesis
    using assms by (simp add: a b del: One_nat_def)
qed

lemma SimpleMLP_3: "SimpleMLP i out [n, a, i] = Inr [n, a, out]"
  by (simp add: SimpleMLP_def)

lemma occ_step_shapes:
  fixes infer :: bool
  assumes init: "OccFormer_init A e K T dff (H, W) s op = Inr self0"
    and cfg: "0 < e" "0 < H" "0 < W" "s dvd H" "s dvd W" "op dvd H div s" "op dvd W div s"
    and attn: "Upsample_size (1, op) (H div s) = Inr (H div s div op)"
      "Upsample_size (1, op) (W div s) = Inr (W div s div op)"
      "Upsample_size (op, 1) (H div s div op) = Inr (H div s)"
      "Upsample_size (op, 1) (W div s div op) = Inr (W div s)"
    and inp: "0 < n" "pad = None \<or> pad = Some \<lparr>pm_shape = [n, a], pm_is_bool = True\<rparr>"
    and t: "tidx < T"
  defines "self \<equiv> self0\<lparr>inference_mode := infer\<rparr>"
  shows "occ_step self [n, a, e * 3] pad n a tidx ([n, e, H div s, W div s], occs, masks) =
           Inr ([n, e, H div s, W div s], occs @ [[n, a, H, W]],
                if infer then masks else masks @ [[n, a, H div s div op, W div s div op]])"
proof -
  let ?h = "H div s" and ?w = "W div s"
  note f = OccFormer_init_fields [OF init, where infer = infer, folded self_def]
  have s: "0 < s" by (rule OccFormer_init_scales [OF init])
  have op: "0 < op" using OccFormer_init_scales(2) [OF init] t by simp
  have pos: "0 < ?h" "0 < ?w" using cfg by (simp_all add: dvd_div_pos)
  have mul: "?h * s = H" "?w * s = W" using cfg by simp_all
  have layer: "OccFormerDecoderLayer_forward (decoder_modules_o self ! tidx)
                 [n, e, ?h, ?w] [n, a, e] [n, a, e] (\<not> infer) pad =
               Inr ([n, e, ?h, ?w], if \<not> infer then Some [n, a, ?h div op, ?w div op] else None)"
    unfolding f(13) [OF t]
    by (rule decoder_layer_shapes) (use cfg attn inp op pos in simp_all)
  have ct: "conv_transpose self [n, e, ?h, ?w] = Inr [n, e, H, W]"
    unfolding f(11) using conv_transpose_chain [OF pos s, of e n] mul by simp
  have r1: "reshape [int n, - 1, int e] [n, H, e, W] = Inr [n, H * W, e]"
    by (rule reshape_infer_1) (use cfg inp in \<open>simp_all add: ac_simps\<close>)
  have r2: "reshape [int n, int a, int H, int W] [n, H * W, a] = Inr [n, a, H, W]"
    by (rule reshape4) (simp add: ac_simps)
  have tm: "temporal_mlp self [n, a, e * 3] tidx = Inr [n, a, e]"
    unfolding f(8) using t by (simp add: TemporalSpecificMLP_def SimpleMLP_3)
  show ?thesis
    unfolding occ_step_def
    using t
    by (simp add: tm f(1,4,6,9,10,12) SimpleMLP_3 layer ct permute_0213 r1 permute_021
        matmul_batched r2 del: of_nat_mult One_nat_def)
qed


lemma occ_loop_shapes:
  fixes infer :: bool
  assumes init: "OccFormer_init A e K T dff (H, W) s op = Inr self0"
    and cfg: "0 < e" "0 < H" "0 < W" "s dvd H" "s dvd W" "op dvd H div s" "op dvd W div s"
    and attn: "Upsample_size (1, op) (H div s) = Inr (H div s div op)"
      "Upsample_size (1, op) (W div s) = Inr (W div s div op)"
      "Upsample_size (op, 1) (H div s div op) = Inr (H div s)"
      "Upsample_size (op, 1) (W div s div op) = Inr (W div s)"
    and inp: "0 < n" "pad = None \<or> pad = Some \<lparr>pm_shape = [n, a], pm_is_bool = True\<rparr>"
    and xs: "\<And>tidx. tidx \<in> set xs \<Longrightarrow> tidx < T"
  defines "self \<equiv> self0\<lparr>inference_mode := infer\<rparr>"
  shows "occ_loop self [n, a, e * 3] pad n a xs ([n, e, H div s, W div s], occs, masks) =
           Inr ([n, e, H div s, W div s], occs @ replicate (length xs) [n, a, H, W],
                if infer then masks
                else masks @ replicate (length xs) [n, a, H div s div op, W div s div op])"
  using xs
proof (induction xs arbitrary: occs masks)
  case Nil
  show ?case by simp
next
  case (Cons tidx xs)
  have t: "tidx < T" using Cons.prems by simp
  have step: "occ_step self [n, a, e * 3] pad n a tidx ([n, e, H div s, W div s], occs, masks) =
           Inr ([n, e, H div s, W div s], occs @ [[n, a, H, W]],
                if infer then masks else masks @ [[n, a, H div s div op, W div s div op]])"
    unfolding self_def by (rule occ_step_shapes [OF init cfg attn inp t])
  have rest: "occ_loop self [n, a, e * 3] pad n a xs
                ([n, e, H div s, W div s], occs', masks') =
              Inr ([n, e, H div s, W div s], occs' @ replicate (length xs) [n, a, H, W],
                if infer then masks'
                else masks' @ replicate (length xs) [n, a, H div s div op, W div s div op])"
    for occs' masks'
    by (rule Cons.IH) (simp add: Cons.prems)
  show ?case
    by (simp add: step rest replicate_app_Cons_same)
qed


lemma MaxPool2d_shape_agrees:
  "MaxPool2d ks x = Inr y \<Longrightarrow>
   MaxPool2d_shape ks [dim4_0 x, dim4_1 x, dim4_2 x, dim4_3 x] =
     Inr [dim4_0 y, dim4_1 y, dim4_2 y, dim4_3 y]"
  by (auto simp: MaxPool2d_def MaxPool2d_shape_def split: prod.splits if_splits)

lemma mode_pool_shape:
  assumes "0 < a" "0 < k" "0 < e"
  shows "MaxPool2d_shape (k, 1) [n, a, k, e] = Inr [n, a, 1, e]"
  using assms by (simp add: MaxPool2d_shape_def)

lemma select0_pooled: "select0_second_last [n, a, 1, e] = Inr [n, a, e]"
  by (simp add: select0_second_last_def)

lemma reshape_explicit_result:
  assumes "reshape (map int t) s = Inr r"
  shows "r = t"
proof -
  have f: "filter (\<lambda>d. d \<noteq> - 1) (map int t) = map int t"
    by (induction t) simp_all
  have h: "filter (\<lambda>d. d = - 1) (map int t) = []"
    by (induction t) simp_all
  have m: "map (nat \<circ> int) t = t"
    by (induction t) simp_all
  from assms show ?thesis
    unfolding reshape_def Let_def f h by (simp add: m split: if_splits)
qed

lemma occ_step_appends:
  assumes "occ_step self sparse pad n a tidx (dense, occs, masks) = Inr (dense', occs', masks')"
  shows "occs' = occs @ [[n, a, fst (bev_feature_hw self), snd (bev_feature_hw self)]]"
proof -
  from assms obtain x occupancy where
    r: "reshape [int n, int a, int (fst (bev_feature_hw self)),
                 int (snd (bev_feature_hw self))] x = Inr occupancy"
    and o: "occs' = occs @ [occupancy]"
    by (auto simp: occ_step_def ebind_eq_Inr Let_def split: if_splits prod.splits)
  have "occupancy = [n, a, fst (bev_feature_hw self), snd (bev_feature_hw self)]"
    using reshape_explicit_result
      [of "[n, a, fst (bev_feature_hw self), snd (bev_feature_hw self)]" x occupancy] r
    by simp
  with o show ?thesis by simp
qed

lemma occ_loop_appends:
  assumes "occ_loop self sparse pad n a xs (dense, occs, masks) = Inr (dense', occs', masks')"
  shows "occs' = occs @ replicate (length xs)
                   [n, a, fst (bev_feature_hw self), snd (bev_feature_hw self)]"
  using assms
proof (induction xs arbitrary: dense occs masks)
  case Nil
  then show ?case by simp
next
  case (Cons tidx xs)
  from Cons.prems obtain d1 o1 m1 where
    step: "occ_step self sparse pad n a tidx (dense, occs, masks) = Inr (d1, o1, m1)"
    and rest: "occ_loop self sparse pad n a xs (d1, o1, m1) = Inr (dense', occs', masks')"
    by (auto simp: ebind_eq_Inr)
  from occ_step_appends [OF step] Cons.IH [OF rest]
  show ?case by (simp add: replicate_app_Cons_same)
qed

lemma stack_at_result:
  assumes "stack_at d (replicate k t) = Inr r"
  shows "r = take d t @ [k] @ drop d t"
  using assms by (cases k) (simp_all add: stack_at_def split: if_splits)

lemma OccFormer_forward_result_shape:
  assumes "OccFormer_forward self bev tq mq pad = Inr (occ, att)"
  shows "occ = [tq ! 0, tq ! 1, num_layers_o self,
                fst (bev_feature_hw self), snd (bev_feature_hw self)]"
proof -
  let ?t = "[tq ! 0, tq ! 1, fst (bev_feature_hw self), snd (bev_feature_hw self)]"
  from assms obtain sparse dense d' occs ms where
    loop: "occ_loop self sparse pad (tq ! 0) (tq ! 1) [0..<num_layers_o self] (dense, [], []) =
             Inr (d', occs, ms)"
    and st: "stack_at 2 occs = Inr occ"
    by (auto simp: OccFormer_forward_def ebind_eq_Inr Let_def split: if_splits)
  have "occs = replicate (num_layers_o self) ?t"
    using occ_loop_appends [OF loop] by simp
  with st have "occ = take 2 ?t @ [num_layers_o self] @ drop 2 ?t"
    by (intro stack_at_result) simp
  then show ?thesis by simp
qed

text \<open>
  Claim C7.  Take an OccFormer built by \<^verbatim>\<open>__init__\<close> (blocks as the spec describes them) in
  which the downsample scale divides the BEV height and width, the attention scale divides
  the downsampled height and width, and the embedding width, the mode count and the
  prediction horizon are at least 1.  The three \<^verbatim>\<open>nn.Upsample\<close> modules compute their output
  sizes in floating point, and the configuration must be one where these come out as the
  exact quotients and products: the downsampler of the OccFormer takes \<open>H\<close> and \<open>W\<close> to
  \<open>H / s\<close> and \<open>W / s\<close>, the downsampler of a decoder layer takes these to \<open>H / s / op\<close> and
  \<open>W / s / op\<close>, and its upsampler takes them back.  Take inputs of the documented shapes:
  BEV features \<open>(n, H W, e)\<close>, track queries \<open>(n, a, e)\<close>, motion queries
  \<open>(n, a, modes, e)\<close> with \<open>n \<ge> 1\<close> and \<open>1 \<le> a \<le> max_num_agents\<close>, and no padding mask or a
  boolean one of shape \<open>(n, a)\<close>.  Then the forward pass returns, in inference mode and
  outside it, an occupancy tensor of shape \<open>(n, a, pred_horizon, H, W)\<close> (and, outside
  inference mode, attention masks stacked in the same way).

  The shape does not rest on the blocks: whatever they compute, an occupancy tensor that
  \<^verbatim>\<open>OccFormer.forward\<close> returns has the shape (batch, agents, \<open>num_layers\<close>, \<open>H\<close>, \<open>W\<close>), with
  batch and agents read from the track queries: one map for each timestep, stacked at
  axis 2.
\<close>

theorem occupancy_shape:
  fixes infer :: bool
  assumes init: "OccFormer_init max_agents e modes horizon dff (H, W) s op = Inr self0"
    and cfg: "0 < e" "0 < H" "0 < W" "s dvd H" "s dvd W" "op dvd H div s" "op dvd W div s"
    and down: "Upsample_size (1, s) H = Inr (H div s)"
      "Upsample_size (1, s) W = Inr (W div s)"
    and attn: "Upsample_size (1, op) (H div s) = Inr (H div s div op)"
      "Upsample_size (1, op) (W div s) = Inr (W div s div op)"
      "Upsample_size (op, 1) (H div s div op) = Inr (H div s)"
      "Upsample_size (op, 1) (W div s div op) = Inr (W div s)"
    and inp: "0 < n" "pad = None \<or> pad = Some \<lparr>pm_shape = [n, a], pm_is_bool = True\<rparr>"
    and more: "0 < modes" "0 < horizon" "0 < a" "a \<le> max_agents"
  shows "OccFormer_forward (self0\<lparr>inference_mode := infer\<rparr>)
           [n, H * W, e] [n, a, e] [n, a, modes, e] pad =
         Inr ([n, a, horizon, H, W],
              if infer then None else Some [n, a, horizon, H div s div op, W div s div op]) \<and>
         (\<forall>self bev tq mq pad' occ att.
            OccFormer_forward self bev tq mq pad' = Inr (occ, att) \<longrightarrow>
            occ = [tq ! 0, tq ! 1, num_layers_o self,
                   fst (bev_feature_hw self), snd (bev_feature_hw self)])"
proof -
  define self where "self = self0\<lparr>inference_mode := infer\<rparr>"
  note f = OccFormer_init_fields [OF init, where infer = infer, folded self_def]
  have s: "0 < s" by (rule OccFormer_init_scales [OF init])
  have pos: "0 < H div s" "0 < W div s"
    using cfg by (simp_all add: dvd_div_pos)
  have pool: "MaxPool2d_shape (modes, 1) [n, a, modes, e] = Inr [n, a, 1, e]"
    using more cfg by (intro mode_pool_shape) simp_all
  have pe: "agent_pos_emb self [n, a] a = Inr [n, a, e]"
    unfolding f(7) using more by (simp add: PosEmbedding1D_lookup_def)
  have r: "reshape [int n, int e, int H, int W] [n, e, H * W] = Inr [n, e, H, W]"
    by (rule reshape4) (simp add: ac_simps)
  have down': "Upsample_bilinear (1, s) [n, e, H, W] = Inr [n, e, H div s, W div s]"
    using down cfg(1-3) pos by (rule Upsample_from_sizes)
  have loop: "occ_loop self [n, a, e * 3] pad n a [0..<horizon]
                ([n, e, H div s, W div s], [], []) =
              Inr ([n, e, H div s, W div s], [] @ replicate (length [0..<horizon]) [n, a, H, W],
                if infer then []
                else [] @ replicate (length [0..<horizon])
                            [n, a, H div s div op, W div s div op])"
    unfolding self_def by (rule occ_loop_shapes [OF init cfg attn inp]) simp
  have st: "stack_at 2 (replicate horizon [n, a, x, y]) = Inr [n, a, horizon, x, y]" for x y
    using stack_at_replicate [of horizon 2 "[n, a, x, y]"] more by simp
  have "OccFormer_forward self [n, H * W, e] [n, a, e] [n, a, modes, e] pad =
         Inr ([n, a, horizon, H, W],
              if infer then None else Some [n, a, horizon, H div s div op, W div s div op])"
    unfolding OccFormer_forward_def
    using more(2)
    by (simp add: dim_at_def f(1-5) pool select0_pooled pe concat_last_three permute_021 r down'
        loop st del: of_nat_mult One_nat_def)
  then show ?thesis
    using OccFormer_forward_result_shape by (simp add: self_def)
qed

text \<open>
  An 8 by 8 grid, both scales 2, two timesteps, one batch element with four agents and
  three modes: the occupancy tensor is \<open>(1, 4, 2, 8, 8)\<close> in both modes.
\<close>

theorem occupancy_shape_witness:
  "\<exists>self0. OccFormer_init 5 2 3 2 16 (8, 8) 2 2 = Inr self0 \<and>
     OccFormer_forward self0 [1, 64, 2] [1, 4, 2] [1, 4, 3, 2] None =
       Inr ([1, 4, 2, 8, 8], Some [1, 4, 2, 2, 2]) \<and>
     OccFormer_forward (self0\<lparr>inference_mode := True\<rparr>) [1, 64, 2] [1, 4, 2] [1, 4, 3, 2]
       (Some \<lparr>pm_shape = [1, 4], pm_is_bool = True\<rparr>) =
       Inr ([1, 4, 2, 8, 8], None)"
proof -
  obtain self0 where init: "OccFormer_init 5 2 3 2 16 (8, 8) 2 2 = Inr self0"
    by (simp add: OccFormer_init_def float_eval)
  have d: "(2 :: nat) dvd 8" "(2 :: nat) dvd 8 div 2" by simp_all
  have u: "Upsample_size (1, 2) 8 = Inr (8 div 2)"
    "Upsample_size (1, 2) (8 div 2) = Inr (8 div 2 div 2)"
    "Upsample_size (2, 1) (8 div 2 div 2) = Inr (8 div 2)"
    by (simp_all add: float_eval)
  have a: "OccFormer_forward (self0\<lparr>inference_mode := False\<rparr>)
             [1, 8 * 8, 2] [1, 4, 2] [1, 4, 3, 2] None =
           Inr ([1, 4, 2, 8, 8], if False then None else Some [1, 4, 2, 8 div 2 div 2, 8 div 2 div 2])"
    by (rule occupancy_shape [OF init, THEN conjunct1]) (use d u in simp_all)
  have b: "OccFormer_forward (self0\<lparr>inference_mode := True\<rparr>)
             [1, 8 * 8, 2] [1, 4, 2] [1, 4, 3, 2] (Some \<lparr>pm_shape = [1, 4], pm_is_bool = True\<rparr>) =
           Inr ([1, 4, 2, 8, 8], if True then None else Some [1, 4, 2, 8 div 2 div 2, 8 div 2 div 2])"
    by (rule occupancy_shape [OF init, THEN conjunct1]) (use d u in simp_all)
  have m: "self0\<lparr>inference_mode := False\<rparr> = self0"
    using init by (auto simp: OccFormer_init_def split: if_splits)
  from a b m init show ?thesis by simp
qed

text \<open>
  Claim C8.  On inputs with the documented numbers of axes, \<^verbatim>\<open>OccFormer.forward\<close> returns
  the AssertionError of line 234 whenever the agent counts of the track queries and the
  motion queries differ; and likewise that of line 235, 236 or 237 when the checks before
  pass and the embedding widths of the queries, the mode count or the channel width of
  the BEV features is not the configured one.  This holds for every OccFormer object and
  every padding mask: nothing that a block of the network computes comes before the
  assertions, and the exception is the result of the call.
\<close>

theorem asserts_fail_first:
  assumes "length track_queries = 3" "length motion_queries = 4" "length bev_features = 3"
  shows "(track_queries ! 1 \<noteq> motion_queries ! 1 \<longrightarrow>
            OccFormer_forward self bev_features track_queries motion_queries pad =
              Inl (AssertionError 234)) \<and>
         (track_queries ! 1 = motion_queries ! 1 \<and>
          \<not> (track_queries ! 2 = motion_queries ! 3 \<and> motion_queries ! 3 = embed_dim_o self) \<longrightarrow>
            OccFormer_forward self bev_features track_queries motion_queries pad =
              Inl (AssertionError 235)) \<and>
         (track_queries ! 1 = motion_queries ! 1 \<and>
          track_queries ! 2 = motion_queries ! 3 \<and> motion_queries ! 3 = embed_dim_o self \<and>
          motion_queries ! 2 \<noteq> num_modes self \<longrightarrow>
            OccFormer_forward self bev_features track_queries motion_queries pad =
              Inl (AssertionError 236)) \<and>
         (track_queries ! 1 = motion_queries ! 1 \<and>
          track_queries ! 2 = motion_queries ! 3 \<and> motion_queries ! 3 = embed_dim_o self \<and>
          motion_queries ! 2 = num_modes self \<and> bev_features ! 2 \<noteq> embed_dim_o self \<longrightarrow>
            OccFormer_forward self bev_features track_queries motion_queries pad =
              Inl (AssertionError 237))"
  using assms by (simp add: OccFormer_forward_def dim_at_def)

text \<open>Track queries for 5 agents, motion queries for 4.\<close>

theorem asserts_fail_first_witness:
  "\<forall>self pad. OccFormer_forward self [2, 64, 8] [2, 5, 8] [2, 4, 6, 8] pad =
      Inl (AssertionError 234)"
proof (intro allI)
  fix self pad
  show "OccFormer_forward self [2, 64, 8] [2, 5, 8] [2, 4, 6, 8] pad = Inl (AssertionError 234)"
    using asserts_fail_first [of "[2, 5, 8]" "[2, 4, 6, 8]" "[2, 64, 8]" self pad] by simp
qed

end
